theory Spec2Isabelle
  imports Complex_Main
begin

section \<open>Errors and Python list access\<close>

text \<open>
  Every exception the modelled code can raise is a value. \<open>RuntimeError\<close> stands for the
  tensor library's shape and size complaints, \<open>ValueError\<close> is raised by its check that
  a normalisation has more than one value to take statistics of.
\<close>

datatype error = IndexError | ZeroDivisionError | AttributeError | RuntimeError | ValueError

definition ebind :: "error + 'a \<Rightarrow> ('a \<Rightarrow> error + 'b) \<Rightarrow> error + 'b" where
  "ebind m f = (case m of Inl e \<Rightarrow> Inl e | Inr v \<Rightarrow> f v)"

text \<open>\<open>xs[i]\<close> for a non-negative index, and \<open>xs[-1]\<close>.\<close>

definition py_index :: "'a list \<Rightarrow> nat \<Rightarrow> error + 'a" where
  "py_index xs i = (if i < length xs then Inr (xs ! i) else Inl IndexError)"

definition py_last :: "'a list \<Rightarrow> error + 'a" where
  "py_last xs = (case xs of [] \<Rightarrow> Inl IndexError | _ \<Rightarrow> Inr (last xs))"

text \<open>A \<open>for\<close> loop that appends one result per element and stops at the first exception.\<close>

fun collect :: "('a \<Rightarrow> error + 'b) \<Rightarrow> 'a list \<Rightarrow> error + 'b list" where
  "collect f [] = Inr []"
| "collect f (x # xs) = ebind (f x) (\<lambda>y. ebind (collect f xs) (\<lambda>ys. Inr (y # ys)))"

text \<open>\<open>int(r)\<close> on a float: truncation towards zero.\<close>

definition py_int :: "real \<Rightarrow> int" where
  "py_int r = (if 0 \<le> r then \<lfloor>r\<rfloor> else \<lceil>r\<rceil>)"

section \<open>Tensors\<close>

text \<open>
  A rank-4 tensor \<open>[B, C, H, W]\<close> is its four sizes and its element function; only the
  elements at indices inside the sizes are meaningful. A rank-2 tensor \<open>[B, F]\<close> is a
  \<open>matrix\<close>, a rank-1 learned parameter a \<open>param\<close>. Elements are real numbers here: this
  part of the model is about the structure of the network, the shapes, the exceptions and
  the operations that are computed, in exact arithmetic. Rounding, infinities and NaN are
  modelled in the part on 32-bit floating point, for the properties that depend on them.
\<close>

record tensor =
  dimB :: nat
  dimC :: nat
  dimH :: nat
  dimW :: nat
  elem :: "nat \<Rightarrow> nat \<Rightarrow> nat \<Rightarrow> nat \<Rightarrow> real"

record matrix =
  rows :: nat
  cols :: nat
  entry :: "nat \<Rightarrow> nat \<Rightarrow> real"

record param =
  plen :: nat
  pval :: "nat \<Rightarrow> real"

text \<open>\<open>v * torch.ones(n)\<close>.\<close>

definition full :: "nat \<Rightarrow> real \<Rightarrow> param" where
  "full n v = \<lparr>plen = n, pval = (\<lambda>_. v)\<rparr>"

definition same_dims :: "tensor \<Rightarrow> tensor \<Rightarrow> bool" where
  "same_dims x y \<longleftrightarrow>
     dimB x = dimB y \<and> dimC x = dimC y \<and> dimH x = dimH y \<and> dimW x = dimW y"

text \<open>Two tensors are the same tensor when their sizes and their elements inside the sizes agree.\<close>

definition tensor_eq :: "tensor \<Rightarrow> tensor \<Rightarrow> bool" where
  "tensor_eq x y \<longleftrightarrow> same_dims x y \<and>
     (\<forall>b<dimB x. \<forall>c<dimC x. \<forall>h<dimH x. \<forall>w<dimW x. elem x b c h w = elem y b c h w)"

subsection \<open>Broadcasting\<close>

text \<open>
  The library broadcasts two sizes when they are equal or one of them is 1. An axis whose
  size \<open>n\<close> differs from the broadcast size \<open>m\<close> has size 1 and is read at index 0.
\<close>

definition bdim :: "nat \<Rightarrow> nat \<Rightarrow> nat option" where
  "bdim n m = (if n = m then Some n else if n = 1 then Some m else if m = 1 then Some n else None)"

definition bidx :: "nat \<Rightarrow> nat \<Rightarrow> nat \<Rightarrow> nat" where
  "bidx n m i = (if n = m then i else 0)"

text \<open>An elementwise binary operator on two rank-4 tensors (\<open>x + y\<close>, \<open>x - y\<close>).\<close>

definition tensor_binop :: "(real \<Rightarrow> real \<Rightarrow> real) \<Rightarrow> tensor \<Rightarrow> tensor \<Rightarrow> error + tensor" where
  "tensor_binop f x y =
     (case (bdim (dimB x) (dimB y), bdim (dimC x) (dimC y),
            bdim (dimH x) (dimH y), bdim (dimW x) (dimW y)) of
        (Some nb, Some nc, Some nh, Some nw) \<Rightarrow>
          Inr \<lparr>dimB = nb, dimC = nc, dimH = nh, dimW = nw,
               elem = (\<lambda>b c h w.
                 f (elem x (bidx (dimB x) nb b) (bidx (dimC x) nc c) (bidx (dimH x) nh h) (bidx (dimW x) nw w))
                   (elem y (bidx (dimB y) nb b) (bidx (dimC y) nc c) (bidx (dimH y) nh h) (bidx (dimW y) nw w)))\<rparr>
      | _ \<Rightarrow> Inl RuntimeError)"

definition tensor_add :: "tensor \<Rightarrow> tensor \<Rightarrow> error + tensor" where
  "tensor_add = tensor_binop (+)"

definition tensor_sub :: "tensor \<Rightarrow> tensor \<Rightarrow> error + tensor" where
  "tensor_sub = tensor_binop (-)"

text \<open>
  \<open>p.unsqueeze(-1).unsqueeze(-1)\<close> combined with a rank-4 tensor: the parameter has shape
  \<open>[plen, 1, 1]\<close>, so only the channel axis can clash.
\<close>

definition channel_op :: "(real \<Rightarrow> real \<Rightarrow> real) \<Rightarrow> param \<Rightarrow> tensor \<Rightarrow> error + tensor" where
  "channel_op f p x =
     (case bdim (plen p) (dimC x) of
        None \<Rightarrow> Inl RuntimeError
      | Some nc \<Rightarrow>
          Inr \<lparr>dimB = dimB x, dimC = nc, dimH = dimH x, dimW = dimW x,
               elem = (\<lambda>b c h w. f (pval p (bidx (plen p) nc c)) (elem x b (bidx (dimC x) nc c) h w))\<rparr>)"

definition channel_mul :: "param \<Rightarrow> tensor \<Rightarrow> error + tensor" where
  "channel_mul = channel_op (*)"

definition channel_add :: "param \<Rightarrow> tensor \<Rightarrow> error + tensor" where
  "channel_add = channel_op (+)"

section \<open>Library layers\<close>

text \<open>
  The layers of \<open>torch.nn\<close> and \<open>timm\<close> that the repository instantiates, after their
  documented behaviour. Weights are index functions, so a layer's declared sizes are
  the sizes of its weights.
\<close>

subsection \<open>Conv2d with a square kernel, zero padding\<close>

type_synonym kernel = "nat \<Rightarrow> nat \<Rightarrow> nat \<Rightarrow> nat \<Rightarrow> real"

record Conv2d =
  in_channels :: nat
  out_channels :: nat
  kernel_size :: nat
  stride :: nat
  padding :: nat
  weight :: kernel
  bias :: "nat \<Rightarrow> real"

definition padded :: "tensor \<Rightarrow> nat \<Rightarrow> nat \<Rightarrow> nat \<Rightarrow> nat \<Rightarrow> nat \<Rightarrow> real" where
  "padded x p b c i j =
     (if p \<le> i \<and> i - p < dimH x \<and> p \<le> j \<and> j - p < dimW x then elem x b c (i - p) (j - p) else 0)"

definition conv_out :: "nat \<Rightarrow> nat \<Rightarrow> nat \<Rightarrow> nat \<Rightarrow> nat" where
  "conv_out n k s p = (n + 2 * p - k) div s + 1"

definition Conv2d_forward :: "Conv2d \<Rightarrow> tensor \<Rightarrow> error + tensor" where
  "Conv2d_forward cv x =
     (let k = kernel_size cv; s = stride cv; p = padding cv in
      if dimC x \<noteq> in_channels cv \<or> k = 0 \<or> s = 0 \<or> dimH x + 2 * p < k \<or> dimW x + 2 * p < k
      then Inl RuntimeError
      else Inr \<lparr>dimB = dimB x, dimC = out_channels cv,
                dimH = conv_out (dimH x) k s p, dimW = conv_out (dimW x) k s p,
                elem = (\<lambda>b co i j. bias cv co +
                  (\<Sum>ci<in_channels cv. \<Sum>ki<k. \<Sum>kj<k.
                     weight cv co ci ki kj * padded x p b ci (i * s + ki) (j * s + kj)))\<rparr>)"

subsection \<open>AvgPool2d\<close>

record AvgPool2d =
  ap_kernel_size :: nat
  ap_stride :: nat
  ap_padding :: nat
  count_include_pad :: bool

text \<open>
  One output element: the window starts at \<open>i * stride - padding\<close>, is cut to the padded
  input for the size that \<open>count_include_pad\<close> divides by, then to the input itself
  for the sum and for the divisor otherwise. \<open>avg_window\<close> is the exact average;
  \<open>avg_window_f32\<close> below is the kernel with its accumulator of 32-bit floats.
\<close>

definition avg_window :: "AvgPool2d \<Rightarrow> tensor \<Rightarrow> nat \<Rightarrow> nat \<Rightarrow> nat \<Rightarrow> nat \<Rightarrow> real" where
  "avg_window ap x b c i j =
     (let k = int (ap_kernel_size ap); s = int (ap_stride ap); p = int (ap_padding ap);
          hstart = int i * s - p; wstart = int j * s - p;
          hend = min (hstart + k) (int (dimH x) + p); wend = min (wstart + k) (int (dimW x) + p);
          pool_size = (hend - hstart) * (wend - wstart);
          hs = max hstart 0; ws = max wstart 0;
          he = min hend (int (dimH x)); we = min wend (int (dimW x));
          divide_factor = (if count_include_pad ap then pool_size else (he - hs) * (we - ws))
      in (\<Sum>h = nat hs..<nat he. \<Sum>w = nat ws..<nat we. elem x b c h w) / real_of_int divide_factor)"

definition AvgPool2d_forward :: "AvgPool2d \<Rightarrow> tensor \<Rightarrow> error + tensor" where
  "AvgPool2d_forward ap x =
     (let k = ap_kernel_size ap; s = ap_stride ap; p = ap_padding ap in
      if k = 0 \<or> s = 0 \<or> k div 2 < p \<or> dimC x = 0 \<or> dimH x = 0 \<or> dimW x = 0
         \<or> dimH x + 2 * p < k \<or> dimW x + 2 * p < k
      then Inl RuntimeError
      else Inr \<lparr>dimB = dimB x, dimC = dimC x,
                dimH = conv_out (dimH x) k s p, dimW = conv_out (dimW x) k s p,
                elem = avg_window ap x\<rparr>)"

subsection \<open>GroupNorm\<close>

text \<open>
  \<open>torch.nn.GroupNorm(num_groups, num_channels, eps, affine=True)\<close>: the channels are cut
  into \<open>num_groups\<close> consecutive groups; every sample is normalised group by group with
  the mean and the (biased) variance of the group's channels over all positions, then
  scaled and shifted channel by channel. Before anything else, in training and in
  evaluation, \<open>torch.nn.functional.group_norm\<close> calls \<open>_verify_batch_size\<close> on the sizes
  \<open>[B * C // num_groups, num_groups, H, W]\<close>, which raises \<open>ValueError\<close> (``Expected more
  than 1 value per channel'') when the product of the first size and the spatial sizes
  is 1. The channel count is compared with \<open>num_channels\<close> after that.
\<close>

datatype norm_module =
    nn_GroupNorm nat nat real "nat \<Rightarrow> real" "nat \<Rightarrow> real"
  | LayerNormChannel param param real
  | Identity_norm

definition group_mean :: "tensor \<Rightarrow> nat \<Rightarrow> nat \<Rightarrow> nat \<Rightarrow> real" where
  "group_mean x b c0 n =
     (\<Sum>c = c0..<c0 + n. \<Sum>h<dimH x. \<Sum>w<dimW x. elem x b c h w) / real (n * dimH x * dimW x)"

definition group_var :: "tensor \<Rightarrow> nat \<Rightarrow> nat \<Rightarrow> nat \<Rightarrow> real" where
  "group_var x b c0 n =
     (\<Sum>c = c0..<c0 + n. \<Sum>h<dimH x. \<Sum>w<dimW x. (elem x b c h w - group_mean x b c0 n)\<^sup>2)
       / real (n * dimH x * dimW x)"

definition GroupNorm_forward ::
  "nat \<Rightarrow> nat \<Rightarrow> real \<Rightarrow> (nat \<Rightarrow> real) \<Rightarrow> (nat \<Rightarrow> real) \<Rightarrow> tensor \<Rightarrow> error + tensor" where
  "GroupNorm_forward num_groups num_channels eps gamma beta x =
     (if num_groups = 0 then Inl ZeroDivisionError
      else if (dimB x * dimC x) div num_groups * (dimH x * dimW x) = 1 then Inl ValueError
      else if dimC x \<noteq> num_channels then Inl RuntimeError
      else let n = num_channels div num_groups in
        Inr (x\<lparr>elem := (\<lambda>b c h w.
               gamma c * ((elem x b c h w - group_mean x b (c div n * n) n)
                            / sqrt (group_var x b (c div n * n) n + eps)) + beta c)\<rparr>))"

subsection \<open>Dropout and DropPath\<close>

text \<open>
  Both layers are the identity outside training and at rate 0. In training every random
  draw is an explicit argument: \<open>keep\<close> tells which elements (Dropout) or which samples
  (DropPath) survive; survivors are divided by \<open>1 - p\<close>. At rate 1 the code divides by 0,
  which gives infinities and NaN; exact arithmetic has neither, and the elements that
  these definitions give at rate 1 in training mean nothing. \<open>DropPath_forward_f32\<close> below
  is the layer on floats.
\<close>

definition Dropout_forward ::
  "real \<Rightarrow> bool \<Rightarrow> (nat \<Rightarrow> nat \<Rightarrow> nat \<Rightarrow> nat \<Rightarrow> bool) \<Rightarrow> tensor \<Rightarrow> tensor" where
  "Dropout_forward p training keep x =
     (if p = 0 \<or> \<not> training then x
      else x\<lparr>elem := (\<lambda>b c h w. if keep b c h w then elem x b c h w / (1 - p) else 0)\<rparr>)"

datatype drop_path_module = DropPath real | Identity_path

definition DropPath_forward :: "real \<Rightarrow> bool \<Rightarrow> (nat \<Rightarrow> bool) \<Rightarrow> tensor \<Rightarrow> tensor" where
  "DropPath_forward p training keep x =
     (if p = 0 \<or> \<not> training then x
      else x\<lparr>elem := (\<lambda>b c h w. if keep b then elem x b c h w / (1 - p) else 0)\<rparr>)"

fun drop_path_forward :: "drop_path_module \<Rightarrow> bool \<Rightarrow> (nat \<Rightarrow> bool) \<Rightarrow> tensor \<Rightarrow> tensor" where
  "drop_path_forward (DropPath p) training keep x = DropPath_forward p training keep x"
| "drop_path_forward Identity_path training keep x = x"

subsection \<open>Linear\<close>

datatype head_module = Linear nat nat "nat \<Rightarrow> nat \<Rightarrow> real" "nat \<Rightarrow> real" | Identity_head

fun head_forward :: "head_module \<Rightarrow> matrix \<Rightarrow> error + matrix" where
  "head_forward (Linear in_features out_features w b) m =
     (if cols m \<noteq> in_features then Inl RuntimeError
      else Inr \<lparr>rows = rows m, cols = out_features,
                entry = (\<lambda>r j. b j + (\<Sum>i<in_features. w j i * entry m r i))\<rparr>)"
| "head_forward Identity_head m = Inr m"

section \<open>The layers of the repository\<close>

subsection \<open>LayerNormChannel and GroupNorm\<close>

text \<open>
  \<open>LayerNormChannel.forward\<close>: \<open>u\<close> and \<open>s\<close> are means over axis 1 (the channels) with
  \<open>keepdim\<close>, so there is one mean and one variance per sample and position.
\<close>

definition channel_mean :: "tensor \<Rightarrow> nat \<Rightarrow> nat \<Rightarrow> nat \<Rightarrow> real" where
  "channel_mean x b h w = (\<Sum>c<dimC x. elem x b c h w) / real (dimC x)"

definition channel_var :: "tensor \<Rightarrow> nat \<Rightarrow> nat \<Rightarrow> nat \<Rightarrow> real" where
  "channel_var x b h w = (\<Sum>c<dimC x. (elem x b c h w - channel_mean x b h w)\<^sup>2) / real (dimC x)"

definition LayerNormChannel_forward :: "param \<Rightarrow> param \<Rightarrow> real \<Rightarrow> tensor \<Rightarrow> error + tensor" where
  "LayerNormChannel_forward gamma beta eps x =
     (let xn = x\<lparr>elem := (\<lambda>b c h w.
                 (elem x b c h w - channel_mean x b h w) / sqrt (channel_var x b h w + eps))\<rparr>
      in ebind (channel_mul gamma xn) (channel_add beta))"

fun norm_forward :: "norm_module \<Rightarrow> tensor \<Rightarrow> error + tensor" where
  "norm_forward (nn_GroupNorm g n eps gamma beta) x = GroupNorm_forward g n eps gamma beta x"
| "norm_forward (LayerNormChannel gamma beta eps) x = LayerNormChannel_forward gamma beta eps x"
| "norm_forward Identity_norm x = Inr x"

text \<open>
  The \<open>norm_layer\<close> argument is one of the two normalisation classes of the file.
  \<open>GroupNorm(num_channels)\<close> is \<open>nn.GroupNorm(1, num_channels)\<close> with the library's
  defaults (\<open>eps = 1e-05\<close>, weight 1, bias 0); \<open>LayerNormChannel(num_channels)\<close> starts
  from the same values.
\<close>

datatype norm_cls = GroupNorm | LayerNormChannel_cls

fun norm_layer_init :: "norm_cls \<Rightarrow> nat \<Rightarrow> norm_module" where
  "norm_layer_init GroupNorm num_channels =
     nn_GroupNorm 1 num_channels (1 / 100000) (\<lambda>_. 1) (\<lambda>_. 0)"
| "norm_layer_init LayerNormChannel_cls num_channels =
     LayerNormChannel (full num_channels 1) (full num_channels 0) (1 / 100000)"

subsection \<open>PatchEmbed\<close>

record PatchEmbed =
  pe_proj :: Conv2d
  pe_norm :: norm_module

definition PatchEmbed_init ::
  "nat \<Rightarrow> nat \<Rightarrow> nat \<Rightarrow> nat \<Rightarrow> nat \<Rightarrow> norm_cls option \<Rightarrow> kernel \<Rightarrow> (nat \<Rightarrow> real) \<Rightarrow> PatchEmbed" where
  "PatchEmbed_init patch_size strd pad in_chans embed_dim norm_layer w b =
     \<lparr>pe_proj = \<lparr>in_channels = in_chans, out_channels = embed_dim, kernel_size = patch_size,
              stride = strd, padding = pad, weight = w, bias = b\<rparr>,
      pe_norm = (case norm_layer of Some cls \<Rightarrow> norm_layer_init cls embed_dim
                 | None \<Rightarrow> Identity_norm)\<rparr>"

definition PatchEmbed_forward :: "PatchEmbed \<Rightarrow> tensor \<Rightarrow> error + tensor" where
  "PatchEmbed_forward pe x = ebind (Conv2d_forward (pe_proj pe) x) (norm_forward (pe_norm pe))"

subsection \<open>Pooling\<close>

record Pooling =
  pool :: AvgPool2d

definition Pooling_init :: "nat \<Rightarrow> Pooling" where
  "Pooling_init pool_size =
     \<lparr>pool = \<lparr>ap_kernel_size = pool_size, ap_stride = 1, ap_padding = pool_size div 2,
              count_include_pad = False\<rparr>\<rparr>"

definition Pooling_forward :: "Pooling \<Rightarrow> tensor \<Rightarrow> error + tensor" where
  "Pooling_forward pl x = ebind (AvgPool2d_forward (pool pl) x) (\<lambda>y. tensor_sub y x)"

subsection \<open>Mlp\<close>

record Mlp =
  fc1 :: Conv2d
  act :: "real \<Rightarrow> real"
  fc2 :: Conv2d
  mlp_drop :: real

text \<open>
  \<open>hidden_features or in_features\<close> takes \<open>in_features\<close> when the hidden width is 0 (or
  \<open>None\<close>); a negative width makes the library's \<open>Conv2d\<close> fail. After the two
  convolutions \<open>nn.Dropout(drop)\<close> is constructed, which raises \<open>ValueError\<close> for a
  probability below 0 or above 1. \<open>_init_weights\<close> draws the two kernels at random (they
  are the arguments \<open>w1\<close>, \<open>w2\<close>) and zeroes the biases.
\<close>

definition Mlp_init ::
  "nat \<Rightarrow> int \<Rightarrow> (real \<Rightarrow> real) \<Rightarrow> real \<Rightarrow> kernel \<Rightarrow> kernel \<Rightarrow> error + Mlp" where
  "Mlp_init in_features hidden_features act_layer drp w1 w2 =
     (let out_features = in_features;
          hidden = (if hidden_features = 0 then int in_features else hidden_features)
      in if hidden < 0 then Inl RuntimeError
         else if drp < 0 \<or> 1 < drp then Inl ValueError
         else Inr \<lparr>fc1 = \<lparr>in_channels = in_features, out_channels = nat hidden, kernel_size = 1,
                          stride = 1, padding = 0, weight = w1, bias = (\<lambda>_. 0)\<rparr>,
                   act = act_layer,
                   fc2 = \<lparr>in_channels = nat hidden, out_channels = out_features, kernel_size = 1,
                          stride = 1, padding = 0, weight = w2, bias = (\<lambda>_. 0)\<rparr>,
                   mlp_drop = drp\<rparr>)"

definition Mlp_forward ::
  "Mlp \<Rightarrow> bool \<Rightarrow> (nat \<Rightarrow> nat \<Rightarrow> nat \<Rightarrow> nat \<Rightarrow> bool) \<Rightarrow> (nat \<Rightarrow> nat \<Rightarrow> nat \<Rightarrow> nat \<Rightarrow> bool)
     \<Rightarrow> tensor \<Rightarrow> error + tensor" where
  "Mlp_forward m training keep1 keep2 x =
     ebind (Conv2d_forward (fc1 m) x) (\<lambda>x1.
       let x2 = x1\<lparr>elem := (\<lambda>b c h w. act m (elem x1 b c h w))\<rparr>;
           x3 = Dropout_forward (mlp_drop m) training keep1 x2
       in ebind (Conv2d_forward (fc2 m) x3) (\<lambda>x4.
            Inr (Dropout_forward (mlp_drop m) training keep2 x4)))"

subsection \<open>PoolFormerBlock\<close>

text \<open>
  An attribute that \<open>__init__\<close> assigns only on some paths is an \<open>option\<close>; reading it
  while it is absent raises \<open>AttributeError\<close>.
\<close>

definition getattr :: "'a option \<Rightarrow> error + 'a" where
  "getattr a = (case a of None \<Rightarrow> Inl AttributeError | Some v \<Rightarrow> Inr v)"

record PoolFormerBlock =
  blk_norm1 :: norm_module
  blk_token_mixer :: Pooling
  blk_norm2 :: norm_module
  blk_mlp :: Mlp
  blk_drop_path :: drop_path_module
  blk_use_layer_scale :: bool
  blk_layer_scale_1 :: "param option"
  blk_layer_scale_2 :: "param option"

definition PoolFormerBlock_init ::
  "nat \<Rightarrow> nat \<Rightarrow> real \<Rightarrow> (real \<Rightarrow> real) \<Rightarrow> norm_cls \<Rightarrow> real \<Rightarrow> real \<Rightarrow> bool \<Rightarrow> real
     \<Rightarrow> kernel \<Rightarrow> kernel \<Rightarrow> error + PoolFormerBlock" where
  "PoolFormerBlock_init dim' pool_size mlp_ratio act_layer norm_layer drp drop_path
     use_layer_scale layer_scale_init_value w1 w2 =
     (let mlp_hidden_dim = py_int (real dim' * mlp_ratio) in
      ebind (Mlp_init dim' mlp_hidden_dim act_layer drp w1 w2) (\<lambda>m.
        Inr \<lparr>blk_norm1 = norm_layer_init norm_layer dim',
             blk_token_mixer = Pooling_init pool_size,
             blk_norm2 = norm_layer_init norm_layer dim',
             blk_mlp = m,
             blk_drop_path = (if drop_path > 0 then DropPath drop_path else Identity_path),
             blk_use_layer_scale = use_layer_scale,
             blk_layer_scale_1 =
               (if use_layer_scale then Some (full dim' layer_scale_init_value) else None),
             blk_layer_scale_2 =
               (if use_layer_scale then Some (full dim' layer_scale_init_value) else None)\<rparr>))"

text \<open>The random draws of one forward pass through a block.\<close>

record block_draws =
  path_keep1 :: "nat \<Rightarrow> bool"
  path_keep2 :: "nat \<Rightarrow> bool"
  drop_keep1 :: "nat \<Rightarrow> nat \<Rightarrow> nat \<Rightarrow> nat \<Rightarrow> bool"
  drop_keep2 :: "nat \<Rightarrow> nat \<Rightarrow> nat \<Rightarrow> nat \<Rightarrow> bool"

definition PoolFormerBlock_forward ::
  "PoolFormerBlock \<Rightarrow> bool \<Rightarrow> block_draws \<Rightarrow> tensor \<Rightarrow> error + tensor" where
  "PoolFormerBlock_forward blk training rnd x =
     (if blk_use_layer_scale blk then
        ebind (getattr (blk_layer_scale_1 blk)) (\<lambda>ls1.
        ebind (norm_forward (blk_norm1 blk) x) (\<lambda>n1.
        ebind (Pooling_forward (blk_token_mixer blk) n1) (\<lambda>t.
        ebind (channel_mul ls1 t) (\<lambda>s1.
        ebind (tensor_add x (drop_path_forward (blk_drop_path blk) training (path_keep1 rnd) s1)) (\<lambda>x1.
        ebind (getattr (blk_layer_scale_2 blk)) (\<lambda>ls2.
        ebind (norm_forward (blk_norm2 blk) x1) (\<lambda>n2.
        ebind (Mlp_forward (blk_mlp blk) training (drop_keep1 rnd) (drop_keep2 rnd) n2) (\<lambda>m.
        ebind (channel_mul ls2 m) (\<lambda>s2.
        tensor_add x1 (drop_path_forward (blk_drop_path blk) training (path_keep2 rnd) s2))))))))))
      else
        ebind (norm_forward (blk_norm1 blk) x) (\<lambda>n1.
        ebind (Pooling_forward (blk_token_mixer blk) n1) (\<lambda>t.
        ebind (tensor_add x (drop_path_forward (blk_drop_path blk) training (path_keep1 rnd) t)) (\<lambda>x1.
        ebind (norm_forward (blk_norm2 blk) x1) (\<lambda>n2.
        ebind (Mlp_forward (blk_mlp blk) training (drop_keep1 rnd) (drop_keep2 rnd) n2) (\<lambda>m.
        tensor_add x1 (drop_path_forward (blk_drop_path blk) training (path_keep2 rnd) m)))))))"

subsection \<open>basic\_blocks\<close>

text \<open>
  The rate of one block, as the loop body computes it: a float division, which raises
  when \<open>sum(layers) - 1\<close> is 0.
\<close>

definition block_dpr :: "real \<Rightarrow> nat \<Rightarrow> nat \<Rightarrow> nat list \<Rightarrow> error + real" where
  "block_dpr drop_path_rate block_idx index ls =
     (if int (sum_list ls) - 1 = 0 then Inl ZeroDivisionError
      else Inr (drop_path_rate * real (block_idx + sum_list (take index ls))
                  / real_of_int (int (sum_list ls) - 1)))"

text \<open>
  The random kernels of the blocks come from \<open>init\<close>, a supply of initial values keyed
  by the position of the layer.
\<close>

type_synonym initializer = "nat list \<Rightarrow> kernel"

definition basic_blocks ::
  "nat \<Rightarrow> nat \<Rightarrow> nat list \<Rightarrow> nat \<Rightarrow> real \<Rightarrow> (real \<Rightarrow> real) \<Rightarrow> norm_cls \<Rightarrow> real \<Rightarrow> real \<Rightarrow> bool \<Rightarrow> real
     \<Rightarrow> initializer \<Rightarrow> error + PoolFormerBlock list" where
  "basic_blocks dim' index ls pool_size mlp_ratio act_layer norm_layer drp drop_path_rate
     use_layer_scale layer_scale_init_value init =
     ebind (py_index ls index) (\<lambda>n.
       collect (\<lambda>block_idx.
         ebind (block_dpr drop_path_rate block_idx index ls) (\<lambda>dpr.
           PoolFormerBlock_init dim' pool_size mlp_ratio act_layer norm_layer drp dpr
             use_layer_scale layer_scale_init_value
             (init [index, block_idx, 0]) (init [index, block_idx, 1])))
         [0..<n])"

text \<open>The rate formula in the specification's words, over exact arithmetic.\<close>

definition rate :: "real \<Rightarrow> nat list \<Rightarrow> nat \<Rightarrow> nat \<Rightarrow> real" where
  "rate max_drop_path_rate block_counts block_idx i =
     max_drop_path_rate * (real block_idx + real (sum_list (take i block_counts)))
       / (real (sum_list block_counts) - 1)"

subsection \<open>PoolFormer\<close>

text \<open>
  The arguments of \<open>PoolFormer.__init__\<close>. Sizes and counts are natural numbers. The
  lists are passed by every caller in the file; \<open>init_cfg\<close> and \<open>pretrained\<close> are absent,
  so no checkpoint is loaded.
\<close>

record PoolFormer_args =
  layers :: "nat list"
  embed_dims :: "nat list"
  mlp_ratios :: "real list"
  downsamples :: "bool list"
  pool_size :: nat
  norm_layer :: norm_cls
  act_layer :: "real \<Rightarrow> real"
  num_classes :: nat
  in_patch_size :: nat
  in_stride :: nat
  in_pad :: nat
  down_patch_size :: nat
  down_stride :: nat
  down_pad :: nat
  drop_rate :: real
  drop_path_rate :: real
  use_layer_scale :: bool
  layer_scale_init_value :: real
  fork_feat :: bool

datatype net_module = Sequential "PoolFormerBlock list" | Downsample PatchEmbed

text \<open>
  The attributes of a \<open>PoolFormer\<close> object. \<open>self_norms\<close> holds the layers registered by
  \<open>add_module\<close> under the names \<open>norm0\<close>, \<open>norm2\<close>, ..., keyed by the number in the name.
  \<open>self_embed_dim\<close> is the attribute \<open>embed_dim\<close> that \<open>reset_classifier\<close> reads.
\<close>

record PoolFormer =
  self_num_classes :: "nat option"
  self_fork_feat :: bool
  self_patch_embed :: PatchEmbed
  self_network :: "net_module list"
  self_out_indices :: "nat list option"
  self_norms :: "(nat \<times> norm_module) list"
  self_norm :: "norm_module option"
  self_head :: "head_module option"
  self_embed_dim :: "nat option"

text \<open>
  The loop \<open>for i in range(len(layers))\<close> that fills \<open>network\<close>. \<open>stage_of\<close> is the call
  of \<open>basic_blocks\<close> with its two indexed arguments; \<open>downsampling\<close> is the rest of the body
  after the \<open>break\<close>: the test \<open>downsamples[i] or embed_dims[i] != embed_dims[i+1]\<close> and
  the \<open>PatchEmbed\<close> it guards.
\<close>

definition stage_of :: "PoolFormer_args \<Rightarrow> initializer \<Rightarrow> nat \<Rightarrow> error + PoolFormerBlock list" where
  "stage_of a init i =
     ebind (py_index (embed_dims a) i) (\<lambda>d.
     ebind (py_index (mlp_ratios a) i) (\<lambda>r.
       basic_blocks d i (layers a) (pool_size a) r (act_layer a) (norm_layer a)
         (drop_rate a) (drop_path_rate a) (use_layer_scale a) (layer_scale_init_value a) init))"

definition downsampling :: "PoolFormer_args \<Rightarrow> initializer \<Rightarrow> nat \<Rightarrow> error + net_module list" where
  "downsampling a init i =
     ebind (py_index (downsamples a) i) (\<lambda>ds.
     ebind (if ds then Inr True
            else ebind (py_index (embed_dims a) i) (\<lambda>e.
                 ebind (py_index (embed_dims a) (i + 1)) (\<lambda>e'. Inr (e \<noteq> e')))) (\<lambda>differs.
       if differs
       then ebind (py_index (embed_dims a) i) (\<lambda>e.
            ebind (py_index (embed_dims a) (i + 1)) (\<lambda>e'.
              Inr [Downsample (PatchEmbed_init (down_patch_size a) (down_stride a)
                     (down_pad a) e e' None (init [i, 0]) (\<lambda>c. init [i, 1] c 0 0 0))]))
       else Inr []))"

fun network_loop :: "PoolFormer_args \<Rightarrow> initializer \<Rightarrow> nat list \<Rightarrow> error + net_module list" where
  "network_loop a init [] = Inr []"
| "network_loop a init (i # rest) =
     ebind (stage_of a init i) (\<lambda>stage.
       if int (length (layers a)) - 1 \<le> int i then Inr [Sequential stage]
       else
         ebind (downsampling a init i) (\<lambda>down.
         ebind (network_loop a init rest) (\<lambda>more.
           Inr (Sequential stage # down @ more))))"

text \<open>\<open>os.environ.get('FORK_LAST3', None)\<close> as a condition: set and not empty.\<close>

definition env_set :: "string option \<Rightarrow> bool" where
  "env_set v = (case v of None \<Rightarrow> False | Some s \<Rightarrow> s \<noteq> [])"

text \<open>
  The loop \<open>for i_emb, i_layer in enumerate(self.out_indices)\<close> of the feature-pyramid
  mode: one layer per output index, registered under the name \<open>norm{i_layer}\<close>.
\<close>

definition out_norms ::
  "string option \<Rightarrow> PoolFormer_args \<Rightarrow> nat list \<Rightarrow> error + (nat \<times> norm_module) list" where
  "out_norms FORK_LAST3 a out_indices =
     collect (\<lambda>(i_emb, i_layer).
         if i_emb = 0 \<and> env_set FORK_LAST3 then Inr (i_layer, Identity_norm)
         else ebind (py_index (embed_dims a) i_emb) (\<lambda>e.
                Inr (i_layer, norm_layer_init (norm_layer a) e)))
       (enumerate 0 out_indices)"

definition PoolFormer_init :: "string option \<Rightarrow> initializer \<Rightarrow> PoolFormer_args \<Rightarrow> error + PoolFormer" where
  "PoolFormer_init FORK_LAST3 init a =
     ebind (py_index (embed_dims a) 0) (\<lambda>e0.
     let patch_embed = PatchEmbed_init (in_patch_size a) (in_stride a) (in_pad a) 3 e0 None
                         (init [0]) (\<lambda>c. init [1] c 0 0 0) in
     ebind (network_loop a init [0..<length (layers a)]) (\<lambda>network.
     if fork_feat a then
       let out_indices = [0, 2, 4, 6] in
       ebind (out_norms FORK_LAST3 a out_indices) (\<lambda>norms.
         Inr \<lparr>self_num_classes = None, self_fork_feat = fork_feat a,
              self_patch_embed = patch_embed, self_network = network,
              self_out_indices = Some out_indices, self_norms = norms,
              self_norm = None, self_head = None, self_embed_dim = None\<rparr>)
     else
       ebind (py_last (embed_dims a)) (\<lambda>e.
         Inr \<lparr>self_num_classes = Some (num_classes a), self_fork_feat = fork_feat a,
              self_patch_embed = patch_embed, self_network = network,
              self_out_indices = None, self_norms = [],
              self_norm = Some (norm_layer_init (norm_layer a) e),
              self_head = Some (if num_classes a > 0
                                then Linear e (num_classes a) (\<lambda>j i. init [] j i 0 0) (\<lambda>_. 0)
                                else Identity_head),
              self_embed_dim = None\<rparr>)))"

definition get_classifier :: "PoolFormer \<Rightarrow> error + head_module" where
  "get_classifier self = getattr (self_head self)"


subsection \<open>The forward pass\<close>

fun Sequential_forward ::
  "PoolFormerBlock list \<Rightarrow> bool \<Rightarrow> (nat \<Rightarrow> block_draws) \<Rightarrow> nat \<Rightarrow> tensor \<Rightarrow> error + tensor" where
  "Sequential_forward [] training rnd j x = Inr x"
| "Sequential_forward (blk # blks) training rnd j x =
     ebind (PoolFormerBlock_forward blk training (rnd j) x)
       (Sequential_forward blks training rnd (Suc j))"

fun module_forward :: "net_module \<Rightarrow> bool \<Rightarrow> (nat \<Rightarrow> block_draws) \<Rightarrow> tensor \<Rightarrow> error + tensor" where
  "module_forward (Sequential blocks) training rnd x = Sequential_forward blocks training rnd 0 x"
| "module_forward (Downsample pe) training rnd x = PatchEmbed_forward pe x"

definition forward_embeddings :: "PoolFormer \<Rightarrow> tensor \<Rightarrow> error + tensor" where
  "forward_embeddings self x = PatchEmbed_forward (self_patch_embed self) x"

text \<open>
  The loop of \<open>forward_tokens\<close> over \<open>enumerate(self.network)\<close>; \<open>rnd idx j\<close> are the draws
  of block \<open>j\<close> of entry \<open>idx\<close>.
\<close>

fun tokens_loop ::
  "PoolFormer \<Rightarrow> bool \<Rightarrow> (nat \<Rightarrow> nat \<Rightarrow> block_draws) \<Rightarrow> (nat \<times> net_module) list \<Rightarrow> tensor
     \<Rightarrow> tensor list \<Rightarrow> error + tensor \<times> tensor list" where
  "tokens_loop self training rnd [] x outs = Inr (x, outs)"
| "tokens_loop self training rnd ((idx, block) # rest) x outs =
     ebind (module_forward block training (rnd idx) x) (\<lambda>x'.
       if self_fork_feat self then
         ebind (getattr (self_out_indices self)) (\<lambda>out_indices.
           if idx \<in> set out_indices then
             ebind (getattr (map_of (self_norms self) idx)) (\<lambda>nl.
             ebind (norm_forward nl x') (\<lambda>x_out.
               tokens_loop self training rnd rest x' (outs @ [x_out])))
           else tokens_loop self training rnd rest x' outs)
       else tokens_loop self training rnd rest x' outs)"

datatype tokens = Outs "tensor list" | Last tensor

definition forward_tokens ::
  "PoolFormer \<Rightarrow> bool \<Rightarrow> (nat \<Rightarrow> nat \<Rightarrow> block_draws) \<Rightarrow> tensor \<Rightarrow> error + tokens" where
  "forward_tokens self training rnd x =
     ebind (tokens_loop self training rnd (enumerate 0 (self_network self)) x []) (\<lambda>(x', outs).
       if self_fork_feat self then Inr (Outs outs) else Inr (Last x'))"

text \<open>\<open>x.mean([-2, -1])\<close>.\<close>

definition mean_hw :: "tensor \<Rightarrow> matrix" where
  "mean_hw x = \<lparr>rows = dimB x, cols = dimC x,
               entry = (\<lambda>b c. (\<Sum>h<dimH x. \<Sum>w<dimW x. elem x b c h w) / real (dimH x * dimW x))\<rparr>"

datatype outcome = Features "tensor list" | Logits matrix

definition forward ::
  "PoolFormer \<Rightarrow> bool \<Rightarrow> (nat \<Rightarrow> nat \<Rightarrow> block_draws) \<Rightarrow> tensor \<Rightarrow> error + outcome" where
  "forward self training rnd x =
     ebind (forward_embeddings self x) (\<lambda>x1.
     ebind (forward_tokens self training rnd x1) (\<lambda>t.
       case t of
         Outs outs \<Rightarrow> Inr (Features outs)
       | Last x2 \<Rightarrow>
           ebind (getattr (self_norm self)) (\<lambda>nl.
           ebind (norm_forward nl x2) (\<lambda>x3.
           ebind (getattr (self_head self)) (\<lambda>head.
           ebind (head_forward head (mean_hw x3)) (\<lambda>cls_out. Inr (Logits cls_out)))))))"

section \<open>Predicates on layers and arguments\<close>

text \<open>
  What the constructors establish and the forward pass relies on: a normalisation layer,
  a convolution and a block that fit \<open>d\<close> channels; and the conditions under which the
  constructor of the network runs through.
\<close>

definition norm_ok :: "nat \<Rightarrow> norm_module \<Rightarrow> bool" where
  "norm_ok d nm =
     (case nm of
        nn_GroupNorm g n eps gamma beta \<Rightarrow> g = 1 \<and> n = d
      | LayerNormChannel gamma beta eps \<Rightarrow> plen gamma = d \<and> plen beta = d
      | Identity_norm \<Rightarrow> True)"

definition conv_ok :: "nat \<Rightarrow> nat \<Rightarrow> nat \<Rightarrow> nat \<Rightarrow> nat \<Rightarrow> Conv2d \<Rightarrow> bool" where
  "conv_ok cin cout k s p cv \<longleftrightarrow>
     in_channels cv = cin \<and> out_channels cv = cout \<and> kernel_size cv = k \<and> stride cv = s
       \<and> padding cv = p"

definition block_ok :: "nat \<Rightarrow> PoolFormerBlock \<Rightarrow> bool" where
  "block_ok d blk \<longleftrightarrow>
     norm_ok d (blk_norm1 blk) \<and> norm_ok d (blk_norm2 blk)
     \<and> (\<exists>k. odd k \<and> blk_token_mixer blk = Pooling_init k)
     \<and> (\<exists>h. conv_ok d h 1 1 0 (fc1 (blk_mlp blk)) \<and> conv_ok h d 1 1 0 (fc2 (blk_mlp blk)))
     \<and> (blk_use_layer_scale blk \<longrightarrow>
          (\<exists>p1 p2. blk_layer_scale_1 blk = Some p1 \<and> blk_layer_scale_2 blk = Some p2
             \<and> plen p1 = d \<and> plen p2 = d))"

definition stage_good :: "PoolFormer_args \<Rightarrow> nat \<Rightarrow> bool" where
  "stage_good a j \<longleftrightarrow>
     layers a ! j = 0
     \<or> (sum_list (layers a) \<noteq> 1 \<and> 0 \<le> py_int (real (embed_dims a ! j) * mlp_ratios a ! j)
          \<and> 0 \<le> drop_rate a \<and> drop_rate a \<le> 1)"

definition iter_ok :: "PoolFormer_args \<Rightarrow> nat \<Rightarrow> bool" where
  "iter_ok a j \<longleftrightarrow>
     j < length (embed_dims a) \<and> j < length (mlp_ratios a) \<and> stage_good a j
     \<and> (j + 1 < length (layers a) \<longrightarrow> j < length (downsamples a) \<and> j + 1 < length (embed_dims a))"

definition lists_long_enough :: "PoolFormer_args \<Rightarrow> bool" where
  "lists_long_enough a \<longleftrightarrow>
     embed_dims a \<noteq> [] \<and> length (layers a) \<le> length (embed_dims a)
     \<and> length (layers a) \<le> length (mlp_ratios a)
     \<and> length (layers a) - 1 \<le> length (downsamples a)
     \<and> (fork_feat a \<longrightarrow> 4 \<le> length (embed_dims a))"

definition mlps_ok :: "PoolFormer_args \<Rightarrow> bool" where
  "mlps_ok a \<longleftrightarrow>
     (\<forall>j<length (layers a). 0 < layers a ! j \<longrightarrow>
        j < length (embed_dims a) \<longrightarrow> j < length (mlp_ratios a) \<longrightarrow>
        0 \<le> py_int (real (embed_dims a ! j) * mlp_ratios a ! j)
        \<and> 0 \<le> drop_rate a \<and> drop_rate a \<le> 1)"

section \<open>Presets\<close>

text \<open>
  The argument defaults of \<open>PoolFormer.__init__\<close> around the four lists, and the S12
  preset of \<open>poolformer_s12\<close>. The activation \<open>nn.GELU\<close> is an argument. \<open>zero_init\<close> is
  the supply of initial values that is 0 everywhere.
\<close>

definition zero_init :: initializer where
  "zero_init = (\<lambda>_ _ _ _ _. 0)"

definition default_args :: "nat list \<Rightarrow> nat list \<Rightarrow> real list \<Rightarrow> bool list \<Rightarrow> (real \<Rightarrow> real) \<Rightarrow> PoolFormer_args" where
  "default_args ls es rs ds gelu =
     \<lparr>layers = ls, embed_dims = es, mlp_ratios = rs, downsamples = ds,
      pool_size = 3, norm_layer = GroupNorm, act_layer = gelu, num_classes = 1000,
      in_patch_size = 7, in_stride = 4, in_pad = 2,
      down_patch_size = 3, down_stride = 2, down_pad = 1,
      drop_rate = 0, drop_path_rate = 0, use_layer_scale = True,
      layer_scale_init_value = 1 / 100000, fork_feat = False\<rparr>"

definition poolformer_s12 :: "(real \<Rightarrow> real) \<Rightarrow> PoolFormer_args" where
  "poolformer_s12 gelu =
     default_args [2, 2, 6, 2] [64, 128, 320, 512] [4, 4, 4, 4] [True, True, True, True] gelu"


section \<open>The residual block in the specification's words\<close>

text \<open>
  One residual update adds to \<open>x\<close> the branch, scaled channel by channel and passed
  through the drop path. The scale of an update is the block's layer-scale vector, or the
  multiplicative identity when the block has no layer scale. A forward pass is two such
  updates, the second on the result of the first. \<open>ramp\<close>, \<open>keep_all\<close> and \<open>zero_kernel\<close>
  are concrete inputs.
\<close>

definition multiplicative_identity :: param where
  "multiplicative_identity = full 1 1"

definition LayerScale1 :: "PoolFormerBlock \<Rightarrow> error + param" where
  "LayerScale1 blk =
     (if blk_use_layer_scale blk then getattr (blk_layer_scale_1 blk) else Inr multiplicative_identity)"

definition LayerScale2 :: "PoolFormerBlock \<Rightarrow> error + param" where
  "LayerScale2 blk =
     (if blk_use_layer_scale blk then getattr (blk_layer_scale_2 blk) else Inr multiplicative_identity)"

definition residual_update ::
  "tensor \<Rightarrow> drop_path_module \<Rightarrow> bool \<Rightarrow> (nat \<Rightarrow> bool) \<Rightarrow> error + param \<Rightarrow> error + tensor
     \<Rightarrow> error + tensor" where
  "residual_update x dp training keep scale branch =
     ebind scale (\<lambda>ls.
     ebind branch (\<lambda>t.
     ebind (channel_mul ls t) (\<lambda>s.
       tensor_add x (drop_path_forward dp training keep s))))"

definition two_residual_updates ::
  "PoolFormerBlock \<Rightarrow> bool \<Rightarrow> block_draws \<Rightarrow> tensor \<Rightarrow> error + tensor" where
  "two_residual_updates blk training rnd x =
     ebind (residual_update x (blk_drop_path blk) training (path_keep1 rnd) (LayerScale1 blk)
              (ebind (norm_forward (blk_norm1 blk) x) (Pooling_forward (blk_token_mixer blk))))
       (\<lambda>x1.
          residual_update x1 (blk_drop_path blk) training (path_keep2 rnd) (LayerScale2 blk)
            (ebind (norm_forward (blk_norm2 blk) x1)
               (Mlp_forward (blk_mlp blk) training (drop_keep1 rnd) (drop_keep2 rnd))))"

definition zero_kernel :: kernel where
  "zero_kernel = (\<lambda>_ _ _ _. 0)"

definition ramp :: tensor where
  "ramp = \<lparr>dimB = 1, dimC = 2, dimH = 2, dimW = 2, elem = (\<lambda>b c h w. real (c + h + w))\<rparr>"

definition keep_all :: block_draws where
  "keep_all = \<lparr>path_keep1 = (\<lambda>_. True), path_keep2 = (\<lambda>_. True),
               drop_keep1 = (\<lambda>_ _ _ _. True), drop_keep2 = (\<lambda>_ _ _ _. True)\<rparr>"


section \<open>The token mixer in the specification's words\<close>

text \<open>
  The window of size \<open>k\<close> around position \<open>i\<close> on an axis of size \<open>n\<close> holds the positions
  inside the axis at distance at most \<open>k // 2\<close>. The local average is the sum over the
  window's positions inside the tensor, divided by their number: positions in the padding
  count neither in the sum nor in the divisor.
\<close>

definition in_window :: "nat \<Rightarrow> nat \<Rightarrow> nat \<Rightarrow> nat set" where
  "in_window k n i = {i'. i' < n \<and> i \<le> i' + k div 2 \<and> i' \<le> i + k div 2}"

definition local_average :: "nat \<Rightarrow> tensor \<Rightarrow> nat \<Rightarrow> nat \<Rightarrow> nat \<Rightarrow> nat \<Rightarrow> real" where
  "local_average k x b c i j =
     (\<Sum>i'\<in>in_window k (dimH x) i. \<Sum>j'\<in>in_window k (dimW x) j. elem x b c i' j')
       / real (card (in_window k (dimH x) i) * card (in_window k (dimW x) j))"


section \<open>Normalisation in the specification's words\<close>

text \<open>
  \<open>normalize_sample\<close> is the operator of the specification: one mean and one variance per
  sample, over the whole \<open>C x H x W\<close> volume, with \<open>1e-05\<close> added to the variance under the
  square root, then a scale and a bias per channel. \<open>normalize_position\<close> takes the mean
  and the variance over the channels, once per sample and position. \<open>two_pixels\<close> is a
  concrete input with one channel and two positions, \<open>one_value\<close> one of shape
  \<open>[1, 1, 1, 1]\<close>.
\<close>

definition sample_mean :: "tensor \<Rightarrow> nat \<Rightarrow> real" where
  "sample_mean x b =
     (\<Sum>c<dimC x. \<Sum>h<dimH x. \<Sum>w<dimW x. elem x b c h w) / real (dimC x * dimH x * dimW x)"

definition sample_var :: "tensor \<Rightarrow> nat \<Rightarrow> real" where
  "sample_var x b =
     (\<Sum>c<dimC x. \<Sum>h<dimH x. \<Sum>w<dimW x. (elem x b c h w - sample_mean x b)\<^sup>2)
       / real (dimC x * dimH x * dimW x)"

definition normalize_sample :: "(nat \<Rightarrow> real) \<Rightarrow> (nat \<Rightarrow> real) \<Rightarrow> tensor \<Rightarrow> tensor" where
  "normalize_sample gamma beta x =
     x\<lparr>elem := (\<lambda>b c h w.
          gamma c * ((elem x b c h w - sample_mean x b) / sqrt (sample_var x b + 1 / 100000))
            + beta c)\<rparr>"

definition normalize_position :: "(nat \<Rightarrow> real) \<Rightarrow> (nat \<Rightarrow> real) \<Rightarrow> tensor \<Rightarrow> tensor" where
  "normalize_position gamma beta x =
     x\<lparr>elem := (\<lambda>b c h w.
          gamma c * ((elem x b c h w - channel_mean x b h w)
                       / sqrt (channel_var x b h w + 1 / 100000))
            + beta c)\<rparr>"

definition two_pixels :: tensor where
  "two_pixels = \<lparr>dimB = 1, dimC = 1, dimH = 1, dimW = 2,
                 elem = (\<lambda>b c h w. if w = 0 then 0 else 2)\<rparr>"

definition one_value :: tensor where
  "one_value = \<lparr>dimB = 1, dimC = 1, dimH = 1, dimW = 1, elem = (\<lambda>b c h w. 3)\<rparr>"


section \<open>Channel chains\<close>

text \<open>
  \<open>chain_ok n d net d'\<close>: the entries of \<open>net\<close> fit one after the other on a batch of
  \<open>n\<close> samples, from \<open>d\<close> channels to \<open>d'\<close>: every block of a stage fits the running
  channel count, which leaves the normalisations more than one value; every downsampling
  embedding takes it as its input count and has a kernel that fits any non-empty input.
  \<open>small_image\<close> is a concrete input of 3 channels and 32 by 32 positions.
\<close>

fun chain_ok :: "nat \<Rightarrow> nat \<Rightarrow> net_module list \<Rightarrow> nat \<Rightarrow> bool" where
  "chain_ok n d [] d' \<longleftrightarrow> d = d'"
| "chain_ok n d (Sequential blocks # rest) d' \<longleftrightarrow>
     0 < d \<and> 1 < n * d \<and> (\<forall>blk\<in>set blocks. block_ok d blk) \<and> chain_ok n d rest d'"
| "chain_ok n d (Downsample pe # rest) d' \<longleftrightarrow>
     pe_norm pe = Identity_norm \<and> in_channels (pe_proj pe) = d
     \<and> 0 < kernel_size (pe_proj pe) \<and> 0 < stride (pe_proj pe)
     \<and> kernel_size (pe_proj pe) \<le> 1 + 2 * padding (pe_proj pe)
     \<and> chain_ok n (out_channels (pe_proj pe)) rest d'"

definition small_image :: tensor where
  "small_image = \<lparr>dimB = 1, dimC = 3, dimH = 32, dimW = 32, elem = (\<lambda>b c h w. 0)\<rparr>"


section \<open>Shapes\<close>

text \<open>
  \<open>has_shape y b c h w\<close>: the tensor \<open>y\<close> has the shape \<open>[b, c, h, w]\<close>.
\<close>

definition has_shape :: "tensor \<Rightarrow> nat \<Rightarrow> nat \<Rightarrow> nat \<Rightarrow> nat \<Rightarrow> bool" where
  "has_shape y b c h w \<longleftrightarrow> dimB y = b \<and> dimC y = c \<and> dimH y = h \<and> dimW y = w"


section \<open>32-bit floating point\<close>

text \<open>
  The tensors of the code hold 32-bit floats, and two properties of the residual block and
  of the token mixer depend on it: a sum of equal values need not be a multiple of the
  value, and \<open>0 * b\<close> is 0 only for finite \<open>b\<close>. This part models that arithmetic (IEEE 754
  binary32, round to nearest, ties to even) and, on top of it, the token mixer and the
  tail of the residual update.

  A value is a real number, an infinity or NaN. The two zeros are the one value
  \<open>Finite 0\<close>: they are equal as numbers, and the only operation here that tells them
  apart is a division by zero, whose zero divisors in the code (a keep probability
  \<open>1 - p\<close>) are \<open>+0\<close>.
\<close>

datatype f32 = Finite real | PInf | NInf | NaN

text \<open>
  \<open>fl r\<close> is the float nearest to the real \<open>r\<close>. \<open>bits n\<close> is the number of binary digits of
  \<open>n\<close>, so \<open>exponent r\<close> is \<open>floor(log2 |r|)\<close> for \<open>r\<close> other than 0; the spacing of the
  floats around \<open>r\<close> is \<open>2 ^ (max(exponent r, -126) - 23)\<close> (24 significant bits, the
  subnormal numbers below \<open>2 ^ -126\<close>), \<open>r\<close> is rounded to a multiple of it, and a result of
  magnitude \<open>2 ^ 128\<close> or more is an infinity.
\<close>

fun bits :: "nat \<Rightarrow> nat" where
  "bits n = (if n = 0 then 0 else Suc (bits (n div 2)))"

definition exponent :: "real \<Rightarrow> int" where
  "exponent r =
     (if 1 \<le> \<bar>r\<bar> then int (bits (nat \<lfloor>\<bar>r\<bar>\<rfloor>)) - 1
      else - int (bits (nat (\<lceil>1 / \<bar>r\<bar>\<rceil> - 1))))"

definition pow2 :: "int \<Rightarrow> real" where
  "pow2 e = (if 0 \<le> e then 2 ^ nat e else 1 / 2 ^ nat (- e))"

definition round_even :: "real \<Rightarrow> int" where
  "round_even r =
     (let n = \<lfloor>r\<rfloor>; d = r - of_int n
      in if d < 1 / 2 then n else if 1 / 2 < d then n + 1 else if even n then n else n + 1)"

definition fl :: "real \<Rightarrow> f32" where
  "fl r =
     (if r = 0 then Finite 0
      else let q = pow2 (max (exponent r) (- 126) - 23);
               y = of_int (round_even (r / q)) * q
           in if pow2 128 \<le> \<bar>y\<bar> then (if 0 < r then PInf else NInf) else Finite y)"

text \<open>
  \<open>is_f32 v\<close>: the value is a 32-bit float (\<open>fl\<close> leaves it as it is); \<open>is_finite v\<close>: it is
  neither an infinity nor NaN.
\<close>

fun is_f32 :: "f32 \<Rightarrow> bool" where
  "is_f32 (Finite r) \<longleftrightarrow> fl r = Finite r"
| "is_f32 v \<longleftrightarrow> True"

fun is_finite :: "f32 \<Rightarrow> bool" where
  "is_finite (Finite r) \<longleftrightarrow> True"
| "is_finite v \<longleftrightarrow> False"

text \<open>The arithmetic operations: the exact result, rounded; NaN where IEEE 754 says so.\<close>

fun fneg :: "f32 \<Rightarrow> f32" where
  "fneg (Finite a) = Finite (- a)"
| "fneg PInf = NInf"
| "fneg NInf = PInf"
| "fneg NaN = NaN"

fun fadd :: "f32 \<Rightarrow> f32 \<Rightarrow> f32" where
  "fadd (Finite a) (Finite b) = fl (a + b)"
| "fadd (Finite a) PInf = PInf"
| "fadd (Finite a) NInf = NInf"
| "fadd PInf (Finite b) = PInf"
| "fadd NInf (Finite b) = NInf"
| "fadd PInf PInf = PInf"
| "fadd NInf NInf = NInf"
| "fadd PInf NInf = NaN"
| "fadd NInf PInf = NaN"
| "fadd NaN v = NaN"
| "fadd v NaN = NaN"

definition fsub :: "f32 \<Rightarrow> f32 \<Rightarrow> f32" where
  "fsub a b = fadd a (fneg b)"

fun fmul :: "f32 \<Rightarrow> f32 \<Rightarrow> f32" where
  "fmul (Finite a) (Finite b) = fl (a * b)"
| "fmul (Finite a) PInf = (if a = 0 then NaN else if 0 < a then PInf else NInf)"
| "fmul (Finite a) NInf = (if a = 0 then NaN else if 0 < a then NInf else PInf)"
| "fmul PInf (Finite b) = (if b = 0 then NaN else if 0 < b then PInf else NInf)"
| "fmul NInf (Finite b) = (if b = 0 then NaN else if 0 < b then NInf else PInf)"
| "fmul PInf PInf = PInf"
| "fmul NInf NInf = PInf"
| "fmul PInf NInf = NInf"
| "fmul NInf PInf = NInf"
| "fmul NaN v = NaN"
| "fmul v NaN = NaN"

fun fdiv :: "f32 \<Rightarrow> f32 \<Rightarrow> f32" where
  "fdiv (Finite a) (Finite b) =
     (if b = 0 then (if a = 0 then NaN else if 0 < a then PInf else NInf) else fl (a / b))"
| "fdiv (Finite a) PInf = Finite 0"
| "fdiv (Finite a) NInf = Finite 0"
| "fdiv PInf (Finite b) = (if 0 \<le> b then PInf else NInf)"
| "fdiv NInf (Finite b) = (if 0 \<le> b then NInf else PInf)"
| "fdiv PInf PInf = NaN"
| "fdiv NInf NInf = NaN"
| "fdiv PInf NInf = NaN"
| "fdiv NInf PInf = NaN"
| "fdiv NaN v = NaN"
| "fdiv v NaN = NaN"

subsection \<open>Tensors of floats\<close>

text \<open>
  The rank-4 tensor, the rank-1 parameter, the elementwise binary operator and
  \<open>p.unsqueeze(-1).unsqueeze(-1) * x\<close> once more, on floats and with the same broadcasting.
\<close>

record ftensor =
  fdimB :: nat
  fdimC :: nat
  fdimH :: nat
  fdimW :: nat
  felem :: "nat \<Rightarrow> nat \<Rightarrow> nat \<Rightarrow> nat \<Rightarrow> f32"

record fparam =
  fplen :: nat
  fpval :: "nat \<Rightarrow> f32"

definition fsame_dims :: "ftensor \<Rightarrow> ftensor \<Rightarrow> bool" where
  "fsame_dims x y \<longleftrightarrow>
     fdimB x = fdimB y \<and> fdimC x = fdimC y \<and> fdimH x = fdimH y \<and> fdimW x = fdimW y"

definition ftensor_binop :: "(f32 \<Rightarrow> f32 \<Rightarrow> f32) \<Rightarrow> ftensor \<Rightarrow> ftensor \<Rightarrow> error + ftensor" where
  "ftensor_binop f x y =
     (case (bdim (fdimB x) (fdimB y), bdim (fdimC x) (fdimC y),
            bdim (fdimH x) (fdimH y), bdim (fdimW x) (fdimW y)) of
        (Some nb, Some nc, Some nh, Some nw) \<Rightarrow>
          Inr \<lparr>fdimB = nb, fdimC = nc, fdimH = nh, fdimW = nw,
               felem = (\<lambda>b c h w.
                 f (felem x (bidx (fdimB x) nb b) (bidx (fdimC x) nc c) (bidx (fdimH x) nh h) (bidx (fdimW x) nw w))
                   (felem y (bidx (fdimB y) nb b) (bidx (fdimC y) nc c) (bidx (fdimH y) nh h) (bidx (fdimW y) nw w)))\<rparr>
      | _ \<Rightarrow> Inl RuntimeError)"

definition ftensor_add :: "ftensor \<Rightarrow> ftensor \<Rightarrow> error + ftensor" where
  "ftensor_add = ftensor_binop fadd"

definition ftensor_sub :: "ftensor \<Rightarrow> ftensor \<Rightarrow> error + ftensor" where
  "ftensor_sub = ftensor_binop fsub"

definition fchannel_mul :: "fparam \<Rightarrow> ftensor \<Rightarrow> error + ftensor" where
  "fchannel_mul p x =
     (case bdim (fplen p) (fdimC x) of
        None \<Rightarrow> Inl RuntimeError
      | Some nc \<Rightarrow>
          Inr \<lparr>fdimB = fdimB x, fdimC = nc, fdimH = fdimH x, fdimW = fdimW x,
               felem = (\<lambda>b c h w.
                 fmul (fpval p (bidx (fplen p) nc c)) (felem x b (bidx (fdimC x) nc c) h w))\<rparr>)"

subsection \<open>AvgPool2d and Pooling on floats\<close>

text \<open>
  The library's kernel for one output element: it cuts the window as \<open>avg_window\<close> does,
  leaves the output 0 when nothing of the window is inside the input, adds the window's
  elements one after the other, row by row, to an accumulator that starts at 0 and is
  itself a 32-bit float, and divides the sum by the count. \<open>Pooling.forward\<close> subtracts
  the input.
\<close>

definition window_sum :: "ftensor \<Rightarrow> nat \<Rightarrow> nat \<Rightarrow> (nat \<times> nat) list \<Rightarrow> f32" where
  "window_sum x b c ps = foldl (\<lambda>acc (h, w). fadd acc (felem x b c h w)) (Finite 0) ps"

definition avg_window_f32 :: "AvgPool2d \<Rightarrow> ftensor \<Rightarrow> nat \<Rightarrow> nat \<Rightarrow> nat \<Rightarrow> nat \<Rightarrow> f32" where
  "avg_window_f32 ap x b c i j =
     (let k = int (ap_kernel_size ap); s = int (ap_stride ap); p = int (ap_padding ap);
          hstart = int i * s - p; wstart = int j * s - p;
          hend = min (hstart + k) (int (fdimH x) + p); wend = min (wstart + k) (int (fdimW x) + p);
          pool_size = (hend - hstart) * (wend - wstart);
          hs = max hstart 0; ws = max wstart 0;
          he = min hend (int (fdimH x)); we = min wend (int (fdimW x));
          divide_factor = (if count_include_pad ap then pool_size else (he - hs) * (we - ws))
      in if he \<le> hs \<or> we \<le> ws then Finite 0
         else fdiv (window_sum x b c (List.product [nat hs..<nat he] [nat ws..<nat we]))
                (fl (real_of_int divide_factor)))"

definition AvgPool2d_forward_f32 :: "AvgPool2d \<Rightarrow> ftensor \<Rightarrow> error + ftensor" where
  "AvgPool2d_forward_f32 ap x =
     (let k = ap_kernel_size ap; s = ap_stride ap; p = ap_padding ap in
      if k = 0 \<or> s = 0 \<or> k div 2 < p \<or> fdimC x = 0 \<or> fdimH x = 0 \<or> fdimW x = 0
         \<or> fdimH x + 2 * p < k \<or> fdimW x + 2 * p < k
      then Inl RuntimeError
      else Inr \<lparr>fdimB = fdimB x, fdimC = fdimC x,
                fdimH = conv_out (fdimH x) k s p, fdimW = conv_out (fdimW x) k s p,
                felem = avg_window_f32 ap x\<rparr>)"

definition Pooling_forward_f32 :: "Pooling \<Rightarrow> ftensor \<Rightarrow> error + ftensor" where
  "Pooling_forward_f32 pl x = ebind (AvgPool2d_forward_f32 (pool pl) x) (\<lambda>y. ftensor_sub y x)"

subsection \<open>DropPath and the residual block on floats\<close>

text \<open>
  \<open>timm\<close>'s \<open>drop_path\<close> in training at a rate other than 0:
  \<open>x.div(keep_prob) * random_tensor\<close> with \<open>keep_prob = 1 - drop_prob\<close> and a random tensor
  of one 0 or 1 per sample.
\<close>

definition DropPath_forward_f32 :: "real \<Rightarrow> bool \<Rightarrow> (nat \<Rightarrow> bool) \<Rightarrow> ftensor \<Rightarrow> ftensor" where
  "DropPath_forward_f32 p training keep x =
     (if p = 0 \<or> \<not> training then x
      else x\<lparr>felem := (\<lambda>b c h w.
             fmul (fdiv (felem x b c h w) (fl (1 - p))) (if keep b then Finite 1 else Finite 0))\<rparr>)"

fun drop_path_forward_f32 ::
  "drop_path_module \<Rightarrow> bool \<Rightarrow> (nat \<Rightarrow> bool) \<Rightarrow> ftensor \<Rightarrow> ftensor" where
  "drop_path_forward_f32 (DropPath p) training keep x = DropPath_forward_f32 p training keep x"
| "drop_path_forward_f32 Identity_path training keep x = x"

text \<open>
  \<open>PoolFormerBlock.forward\<close> on floats. The two normalisation layers and the MLP are
  their forward functions: how the library's kernels round is not fixed here, a theorem
  about this block holds for all of them, whether they raise, overflow or return NaN.
  \<open>scaled_update_f32\<close> is \<open>x + self.drop_path(ls.unsqueeze(-1).unsqueeze(-1) * t)\<close>.
\<close>

record PoolFormerBlock_f32 =
  f32_norm1 :: "ftensor \<Rightarrow> error + ftensor"
  f32_token_mixer :: Pooling
  f32_norm2 :: "ftensor \<Rightarrow> error + ftensor"
  f32_mlp :: "bool \<Rightarrow> (nat \<Rightarrow> nat \<Rightarrow> nat \<Rightarrow> nat \<Rightarrow> bool) \<Rightarrow> (nat \<Rightarrow> nat \<Rightarrow> nat \<Rightarrow> nat \<Rightarrow> bool)
                \<Rightarrow> ftensor \<Rightarrow> error + ftensor"
  f32_drop_path :: drop_path_module
  f32_use_layer_scale :: bool
  f32_layer_scale_1 :: "fparam option"
  f32_layer_scale_2 :: "fparam option"

definition scaled_update_f32 ::
  "ftensor \<Rightarrow> drop_path_module \<Rightarrow> bool \<Rightarrow> (nat \<Rightarrow> bool) \<Rightarrow> fparam \<Rightarrow> ftensor \<Rightarrow> error + ftensor" where
  "scaled_update_f32 x dp training keep ls t =
     ebind (fchannel_mul ls t) (\<lambda>s. ftensor_add x (drop_path_forward_f32 dp training keep s))"

definition PoolFormerBlock_forward_f32 ::
  "PoolFormerBlock_f32 \<Rightarrow> bool \<Rightarrow> block_draws \<Rightarrow> ftensor \<Rightarrow> error + ftensor" where
  "PoolFormerBlock_forward_f32 blk training rnd x =
     (if f32_use_layer_scale blk then
        ebind (getattr (f32_layer_scale_1 blk)) (\<lambda>ls1.
        ebind (f32_norm1 blk x) (\<lambda>n1.
        ebind (Pooling_forward_f32 (f32_token_mixer blk) n1) (\<lambda>t.
        ebind (scaled_update_f32 x (f32_drop_path blk) training (path_keep1 rnd) ls1 t) (\<lambda>x1.
        ebind (getattr (f32_layer_scale_2 blk)) (\<lambda>ls2.
        ebind (f32_norm2 blk x1) (\<lambda>n2.
        ebind (f32_mlp blk training (drop_keep1 rnd) (drop_keep2 rnd) n2) (\<lambda>m.
        scaled_update_f32 x1 (f32_drop_path blk) training (path_keep2 rnd) ls2 m)))))))
      else
        ebind (f32_norm1 blk x) (\<lambda>n1.
        ebind (Pooling_forward_f32 (f32_token_mixer blk) n1) (\<lambda>t.
        ebind (ftensor_add x (drop_path_forward_f32 (f32_drop_path blk) training (path_keep1 rnd) t)) (\<lambda>x1.
        ebind (f32_norm2 blk x1) (\<lambda>n2.
        ebind (f32_mlp blk training (drop_keep1 rnd) (drop_keep2 rnd) n2) (\<lambda>m.
        ftensor_add x1 (drop_path_forward_f32 (f32_drop_path blk) training (path_keep2 rnd) m)))))))"

text \<open>\<open>keep_prob_ok\<close>: the keep probability of a drop path that is active is not 0 as a float.\<close>

fun keep_prob_ok :: "drop_path_module \<Rightarrow> bool \<Rightarrow> bool" where
  "keep_prob_ok (DropPath p) training \<longleftrightarrow> p = 0 \<or> \<not> training \<or> fl (1 - p) \<noteq> Finite 0"
| "keep_prob_ok Identity_path training \<longleftrightarrow> True"

text \<open>
  Concrete inputs: \<open>tenth\<close> is the float nearest to 0.1, \<open>tenths\<close> and \<open>fives_f32\<close> are
  constant tensors, \<open>identity_kernels\<close> is a block with zero layer scales whose
  normalisations and MLP return their input.
\<close>

definition tenth :: real where
  "tenth = 13421773 / 2 ^ 27"

definition tenths :: ftensor where
  "tenths = \<lparr>fdimB = 1, fdimC = 1, fdimH = 3, fdimW = 3, felem = (\<lambda>b c h w. Finite tenth)\<rparr>"

definition fives_f32 :: ftensor where
  "fives_f32 = \<lparr>fdimB = 1, fdimC = 1, fdimH = 2, fdimW = 2, felem = (\<lambda>b c h w. Finite 5)\<rparr>"

definition identity_kernels :: "drop_path_module \<Rightarrow> PoolFormerBlock_f32" where
  "identity_kernels dp =
     \<lparr>f32_norm1 = Inr, f32_token_mixer = Pooling_init 3, f32_norm2 = Inr,
      f32_mlp = (\<lambda>training keep1 keep2. Inr), f32_drop_path = dp,
      f32_use_layer_scale = True,
      f32_layer_scale_1 = Some \<lparr>fplen = 1, fpval = (\<lambda>_. Finite 0)\<rparr>,
      f32_layer_scale_2 = Some \<lparr>fplen = 1, fpval = (\<lambda>_. Finite 0)\<rparr>\<rparr>"


section \<open>Basic facts\<close>

lemma ebind_Inr [simp]: "ebind (Inr v) f = f v"
  by (simp add: ebind_def)

lemma ebind_Inl [simp]: "ebind (Inl e) f = Inl e"
  by (simp add: ebind_def)

lemma ebind_eq_Inr: "ebind m f = Inr y \<longleftrightarrow> (\<exists>v. m = Inr v \<and> f v = Inr y)"
  by (cases m) simp_all

lemma collect_all2:
  assumes "\<And>x. x \<in> set xs \<Longrightarrow> \<exists>y. f x = Inr y \<and> P x y"
  shows "\<exists>ys. collect f xs = Inr ys \<and> list_all2 P xs ys"
  using assms
proof (induction xs)
  case Nil
  then show ?case by simp
next
  case (Cons x xs)
  from Cons.prems obtain y where y: "f x = Inr y" "P x y" by auto
  from Cons obtain ys where ys: "collect f xs = Inr ys" "list_all2 P xs ys" by auto
  from y ys show ?case by simp
qed

lemma Mlp_init_ok:
  assumes "0 \<le> h" and "0 \<le> p" and "p \<le> 1"
  shows "\<exists>m. Mlp_init d h a p w1 w2 = Inr m \<and> in_channels (fc1 m) = d
           \<and> out_channels (fc1 m) = in_channels (fc2 m) \<and> out_channels (fc2 m) = d
           \<and> kernel_size (fc1 m) = 1 \<and> stride (fc1 m) = 1 \<and> padding (fc1 m) = 0
           \<and> kernel_size (fc2 m) = 1 \<and> stride (fc2 m) = 1 \<and> padding (fc2 m) = 0"
  using assms by (simp add: Mlp_init_def Let_def)

lemma block_init_drop_path:
  assumes "0 \<le> py_int (real d * r)" and "0 \<le> p" and "p \<le> 1"
  shows "\<exists>blk. PoolFormerBlock_init d k r a nl p dp uls v w1 w2 = Inr blk
           \<and> blk_drop_path blk = (if dp > 0 then DropPath dp else Identity_path)"
proof -
  from Mlp_init_ok [OF assms] obtain m where "Mlp_init d (py_int (real d * r)) a p w1 w2 = Inr m"
    by blast
  then show ?thesis by (simp add: PoolFormerBlock_init_def Let_def)
qed

lemma block_dpr_rate:
  assumes "1 < sum_list ls"
  shows "block_dpr r j i ls = Inr (rate r ls j i)"
proof -
  have "real_of_int (int (sum_list ls) - 1) = real (sum_list ls) - 1" by simp
  moreover have "int (sum_list ls) - 1 \<noteq> 0" using assms by simp
  ultimately show ?thesis
    unfolding block_dpr_def rate_def by (simp only: if_False of_nat_add)
qed

section \<open>Shapes through the layers\<close>
lemma bdim_same [simp]: "bdim n n = Some n"
  by (simp add: bdim_def)

lemma bidx_same [simp]: "bidx n n i = i"
  by (simp add: bidx_def)

lemma same_dims_refl [simp]: "same_dims x x"
  by (simp add: same_dims_def)

lemma same_dims_update [simp]: "same_dims x (x\<lparr>elem := f\<rparr>)" "same_dims (x\<lparr>elem := f\<rparr>) x"
  by (simp_all add: same_dims_def)

lemma same_dims_trans: "same_dims x y \<Longrightarrow> same_dims y z \<Longrightarrow> same_dims x z"
  by (simp add: same_dims_def)

lemma same_dims_sym: "same_dims x y \<Longrightarrow> same_dims y x"
  by (simp add: same_dims_def)

lemma tensor_binop_same:
  assumes "same_dims x y"
  shows "tensor_binop f x y = Inr (x\<lparr>elem := (\<lambda>b c h w. f (elem x b c h w) (elem y b c h w))\<rparr>)"
  using assms by (simp add: tensor_binop_def same_dims_def)

lemma channel_op_same:
  assumes "plen p = dimC x"
  shows "channel_op f p x = Inr (x\<lparr>elem := (\<lambda>b c h w. f (pval p c) (elem x b c h w))\<rparr>)"
  using assms by (simp add: channel_op_def)

lemma channel_op_scalar:
  "channel_op f \<lparr>plen = 1, pval = v\<rparr> x = Inr (x\<lparr>elem := (\<lambda>b c h w. f (v (bidx 1 (dimC x) c)) (elem x b c h w))\<rparr>)"
  by (simp add: channel_op_def bdim_def)


lemma norm_layer_init_ok [simp]: "norm_ok d (norm_layer_init nl d)"
  by (cases nl) (simp_all add: norm_ok_def full_def)

lemma several_values:
  assumes "1 < b * d"
  shows "b * d * (h * w) \<noteq> (1::nat)"
proof
  assume "b * d * (h * w) = 1"
  then have "b * d = 1" by simp
  with assms show False by simp
qed

lemma norm_forward_ok:
  assumes "norm_ok d nm" and "dimC x = d" and "1 < dimB x * d"
  shows "\<exists>y. norm_forward nm x = Inr y \<and> same_dims x y"
proof (cases nm)
  case (nn_GroupNorm g n eps gamma beta)
  with assms(1,2) several_values [OF assms(3), of "dimH x" "dimW x"] show ?thesis
    by (simp add: norm_ok_def GroupNorm_forward_def Let_def)
next
  case (LayerNormChannel gamma beta eps)
  with assms show ?thesis
    by (simp add: norm_ok_def LayerNormChannel_forward_def Let_def channel_mul_def
        channel_add_def channel_op_same)
next
  case Identity_norm
  then show ?thesis by simp
qed

lemma conv_out_pool: "odd k \<Longrightarrow> 0 < n \<Longrightarrow> conv_out n k 1 (k div 2) = n"
  by (auto simp: conv_out_def elim!: oddE)

lemma Pooling_forward_odd:
  assumes "odd k" and "0 < dimC x" and "0 < dimH x" and "0 < dimW x"
  shows "Pooling_forward (Pooling_init k) x =
           Inr (x\<lparr>elem := (\<lambda>b c h w. avg_window (pool (Pooling_init k)) x b c h w - elem x b c h w)\<rparr>)"
proof -
  from assms(1) obtain r where k: "k = 2 * r + 1" by (auto elim: oddE)
  let ?y = "x\<lparr>elem := avg_window (pool (Pooling_init k)) x\<rparr>"
  have "AvgPool2d_forward (pool (Pooling_init k)) x = Inr ?y"
    using assms conv_out_pool [OF assms(1)]
    by (simp add: AvgPool2d_forward_def Pooling_init_def Let_def k)
  moreover have "tensor_sub ?y x = Inr (?y\<lparr>elem := (\<lambda>b c h w. elem ?y b c h w - elem x b c h w)\<rparr>)"
    unfolding tensor_sub_def by (rule tensor_binop_same) simp
  ultimately show ?thesis by (simp add: Pooling_forward_def)
qed

lemma Conv2d_forward_ok:
  assumes "conv_ok cin cout k s p cv" and "dimC x = cin" and "0 < k" and "0 < s"
    and "k \<le> dimH x + 2 * p" and "k \<le> dimW x + 2 * p"
  shows "\<exists>y. Conv2d_forward cv x = Inr y \<and> dimB y = dimB x \<and> dimC y = cout
           \<and> dimH y = conv_out (dimH x) k s p \<and> dimW y = conv_out (dimW x) k s p"
  using assms by (simp add: Conv2d_forward_def conv_ok_def Let_def)

lemma Conv2d_pointwise_ok:
  assumes "conv_ok cin cout 1 1 0 cv" and "dimC x = cin" and "0 < dimH x" and "0 < dimW x"
  shows "\<exists>y. Conv2d_forward cv x = Inr y \<and> dimB y = dimB x \<and> dimC y = cout
           \<and> dimH y = dimH x \<and> dimW y = dimW x"
  using assms by (simp add: Conv2d_forward_def conv_ok_def Let_def conv_out_def)

lemma Dropout_dims [simp]: "same_dims x (Dropout_forward p t keep x)"
  by (simp add: Dropout_forward_def)

lemma drop_path_dims [simp]: "same_dims x (drop_path_forward dp t keep x)"
  by (cases dp) (simp_all add: DropPath_forward_def)

lemma Mlp_forward_ok:
  assumes "conv_ok d h 1 1 0 (fc1 m)" and "conv_ok h d 1 1 0 (fc2 m)"
    and "dimC x = d" and "0 < dimH x" and "0 < dimW x"
  shows "\<exists>y. Mlp_forward m t k1 k2 x = Inr y \<and> same_dims x y"
proof -
  from Conv2d_pointwise_ok [OF assms(1,3,4,5)]
  obtain x1 where x1: "Conv2d_forward (fc1 m) x = Inr x1" "dimB x1 = dimB x" "dimC x1 = h"
      "dimH x1 = dimH x" "dimW x1 = dimW x" by auto
  let ?x3 = "Dropout_forward (mlp_drop m) t k1 (x1\<lparr>elem := (\<lambda>b c h w. act m (elem x1 b c h w))\<rparr>)"
  have d3: "dimB ?x3 = dimB x" "dimC ?x3 = h" "dimH ?x3 = dimH x" "dimW ?x3 = dimW x"
    using x1 by (simp_all add: Dropout_forward_def)
  from Conv2d_pointwise_ok [OF assms(2) d3(2)] d3 assms(4,5)
  obtain x4 where x4: "Conv2d_forward (fc2 m) ?x3 = Inr x4" "dimB x4 = dimB x" "dimC x4 = d"
      "dimH x4 = dimH x" "dimW x4 = dimW x" by auto
  have "same_dims x (Dropout_forward (mlp_drop m) t k2 x4)"
    using x4 assms(3) by (simp add: Dropout_forward_def same_dims_def)
  with x1 x4 show ?thesis by (simp add: Mlp_forward_def Let_def)
qed


lemma Pooling_forward_ok:
  assumes "odd k" and "0 < dimC x" and "0 < dimH x" and "0 < dimW x"
  shows "\<exists>t. Pooling_forward (Pooling_init k) x = Inr t \<and> same_dims x t"
  using Pooling_forward_odd [OF assms] by simp

lemma channel_mul_ok:
  assumes "plen p = dimC t"
  shows "\<exists>s. channel_mul p t = Inr s \<and> same_dims t s"
  using channel_op_same [OF assms] by (simp add: channel_mul_def)

lemma tensor_add_ok:
  assumes "same_dims x s"
  shows "\<exists>y. tensor_add x s = Inr y \<and> same_dims x y"
  using tensor_binop_same [OF assms] by (simp add: tensor_add_def)

lemma residual_add_ok:
  assumes "same_dims x s"
  shows "\<exists>y. tensor_add x (drop_path_forward dp t keep s) = Inr y \<and> same_dims x y"
proof -
  have "same_dims x (drop_path_forward dp t keep s)"
    using assms drop_path_dims [of s dp t keep] by (rule same_dims_trans)
  then show ?thesis by (rule tensor_add_ok)
qed

lemma block_forward_ok:
  assumes ok: "block_ok d blk" and c: "dimC x = d" and pos: "0 < d" "0 < dimH x" "0 < dimW x"
    and sv: "1 < dimB x * d"
  shows "\<exists>y. PoolFormerBlock_forward blk t rnd x = Inr y \<and> same_dims x y"
proof -
  from ok obtain k where k: "odd k" "blk_token_mixer blk = Pooling_init k"
    by (auto simp: block_ok_def)
  from ok obtain h where h: "conv_ok d h 1 1 0 (fc1 (blk_mlp blk))"
      "conv_ok h d 1 1 0 (fc2 (blk_mlp blk))"
    by (auto simp: block_ok_def)
  from ok have n: "norm_ok d (blk_norm1 blk)" "norm_ok d (blk_norm2 blk)"
    by (auto simp: block_ok_def)
  obtain n1 where n1: "norm_forward (blk_norm1 blk) x = Inr n1" "same_dims x n1"
    using norm_forward_ok [OF n(1) c sv] by blast
  have "0 < dimC n1" "0 < dimH n1" "0 < dimW n1"
    using n1(2) c pos by (simp_all add: same_dims_def)
  then obtain tm where tm: "Pooling_forward (blk_token_mixer blk) n1 = Inr tm" "same_dims n1 tm"
    using Pooling_forward_ok [OF k(1)] k(2) by metis
  have xtm: "same_dims x tm" using n1(2) tm(2) by (rule same_dims_trans)
  show ?thesis
  proof (cases "blk_use_layer_scale blk")
    case True
    with ok obtain p1 p2 where p: "blk_layer_scale_1 blk = Some p1" "blk_layer_scale_2 blk = Some p2"
        "plen p1 = d" "plen p2 = d"
      by (auto simp: block_ok_def)
    have "plen p1 = dimC tm" using p(3) xtm c by (simp add: same_dims_def)
    then obtain s1 where s1: "channel_mul p1 tm = Inr s1" "same_dims tm s1"
      using channel_mul_ok by blast
    have "same_dims x s1" using xtm s1(2) by (rule same_dims_trans)
    then obtain x1 where x1: "tensor_add x (drop_path_forward (blk_drop_path blk) t
        (path_keep1 rnd) s1) = Inr x1" "same_dims x x1"
      using residual_add_ok by blast
    have c1: "dimC x1 = d" "0 < dimH x1" "0 < dimW x1" "1 < dimB x1 * d"
      using x1(2) c pos sv by (simp_all add: same_dims_def)
    obtain n2 where n2: "norm_forward (blk_norm2 blk) x1 = Inr n2" "same_dims x1 n2"
      using norm_forward_ok [OF n(2) c1(1,4)] by blast
    have c2: "dimC n2 = d" "0 < dimH n2" "0 < dimW n2"
      using n2(2) c1(1-3) by (simp_all add: same_dims_def)
    obtain m where m: "Mlp_forward (blk_mlp blk) t (drop_keep1 rnd) (drop_keep2 rnd) n2 = Inr m"
        "same_dims n2 m"
      using Mlp_forward_ok [OF h c2] by blast
    have "plen p2 = dimC m" using p(4) c2(1) m(2) by (simp add: same_dims_def)
    then obtain s2 where s2: "channel_mul p2 m = Inr s2" "same_dims m s2"
      using channel_mul_ok by blast
    have "same_dims x1 s2"
      using n2(2) m(2) s2(2) by (blast intro: same_dims_trans)
    then obtain y where y: "tensor_add x1 (drop_path_forward (blk_drop_path blk) t
        (path_keep2 rnd) s2) = Inr y" "same_dims x1 y"
      using residual_add_ok by blast
    have "same_dims x y" using x1(2) y(2) by (rule same_dims_trans)
    with True p n1 tm s1 x1 n2 m s2 y show ?thesis
      by (simp add: PoolFormerBlock_forward_def getattr_def)
  next
    case False
    obtain x1 where x1: "tensor_add x (drop_path_forward (blk_drop_path blk) t
        (path_keep1 rnd) tm) = Inr x1" "same_dims x x1"
      using residual_add_ok [OF xtm] by blast
    have c1: "dimC x1 = d" "0 < dimH x1" "0 < dimW x1" "1 < dimB x1 * d"
      using x1(2) c pos sv by (simp_all add: same_dims_def)
    obtain n2 where n2: "norm_forward (blk_norm2 blk) x1 = Inr n2" "same_dims x1 n2"
      using norm_forward_ok [OF n(2) c1(1,4)] by blast
    have c2: "dimC n2 = d" "0 < dimH n2" "0 < dimW n2"
      using n2(2) c1(1-3) by (simp_all add: same_dims_def)
    obtain m where m: "Mlp_forward (blk_mlp blk) t (drop_keep1 rnd) (drop_keep2 rnd) n2 = Inr m"
        "same_dims n2 m"
      using Mlp_forward_ok [OF h c2] by blast
    have "same_dims x1 m" using n2(2) m(2) by (rule same_dims_trans)
    then obtain y where y: "tensor_add x1 (drop_path_forward (blk_drop_path blk) t
        (path_keep2 rnd) m) = Inr y" "same_dims x1 y"
      using residual_add_ok by blast
    have "same_dims x y" using x1(2) y(2) by (rule same_dims_trans)
    with False n1 tm x1 n2 m y show ?thesis
      by (simp add: PoolFormerBlock_forward_def)
  qed
qed

lemma Sequential_forward_ok:
  assumes "\<forall>blk\<in>set blks. block_ok d blk" and "dimC x = d" and "0 < d" "0 < dimH x" "0 < dimW x"
    and "1 < dimB x * d"
  shows "\<exists>y. Sequential_forward blks t rnd j x = Inr y \<and> same_dims x y"
  using assms
proof (induction blks arbitrary: x j)
  case Nil
  then show ?case by simp
next
  case (Cons blk blks)
  from Cons.prems have "block_ok d blk" by simp
  from block_forward_ok [OF this Cons.prems(2-6)]
  obtain x1 where x1: "PoolFormerBlock_forward blk t (rnd j) x = Inr x1" "same_dims x x1"
    by blast
  have "dimC x1 = d" "0 < dimH x1" "0 < dimW x1" "1 < dimB x1 * d"
    using x1(2) Cons.prems by (simp_all add: same_dims_def)
  with Cons.IH [of x1 "Suc j"] Cons.prems obtain y where
    y: "Sequential_forward blks t rnd (Suc j) x1 = Inr y" "same_dims x1 y"
    by auto
  from x1 y show ?case by (auto intro: same_dims_trans)
qed


lemma block_init_ok:
  assumes "0 \<le> py_int (real d * r)" and "0 \<le> p" and "p \<le> 1"
  shows "\<exists>blk. PoolFormerBlock_init d k r a nl p dp uls v w1 w2 = Inr blk
           \<and> (odd k \<longrightarrow> block_ok d blk)"
proof -
  from Mlp_init_ok [OF assms] obtain m where m: "Mlp_init d (py_int (real d * r)) a p w1 w2 = Inr m"
    "in_channels (fc1 m) = d" "out_channels (fc1 m) = in_channels (fc2 m)" "out_channels (fc2 m) = d"
    "kernel_size (fc1 m) = 1" "stride (fc1 m) = 1" "padding (fc1 m) = 0"
    "kernel_size (fc2 m) = 1" "stride (fc2 m) = 1" "padding (fc2 m) = 0"
    by blast
  have "conv_ok d (in_channels (fc2 m)) 1 1 0 (fc1 m)" "conv_ok (in_channels (fc2 m)) d 1 1 0 (fc2 m)"
    using m by (simp_all add: conv_ok_def)
  then have "\<exists>h. conv_ok d h 1 1 0 (fc1 m) \<and> conv_ok h d 1 1 0 (fc2 m)" by blast
  with m(1) show ?thesis
    by (auto simp: PoolFormerBlock_init_def Let_def block_ok_def full_def)
qed

lemma block_init_fails:
  assumes "py_int (real d * r) < 0"
  shows "PoolFormerBlock_init d k r a nl p dp uls v w1 w2 = Inl RuntimeError"
  using assms by (simp add: PoolFormerBlock_init_def Mlp_init_def Let_def)

lemma block_init_value_error:
  assumes "0 \<le> py_int (real d * r)" and "p < 0 \<or> 1 < p"
  shows "PoolFormerBlock_init d k r a nl p dp uls v w1 w2 = Inl ValueError"
  using assms by (auto simp: PoolFormerBlock_init_def Mlp_init_def Let_def)

lemma collect_first_error:
  assumes "xs \<noteq> []" and "f (hd xs) = Inl e"
  shows "collect f xs = Inl e"
  using assms by (cases xs) simp_all

lemma block_dpr_ok: "sum_list ls \<noteq> 1 \<Longrightarrow> \<exists>q. block_dpr r j i ls = Inr q"
  by (simp add: block_dpr_def)

lemma block_dpr_fails: "sum_list ls = 1 \<Longrightarrow> block_dpr r j i ls = Inl ZeroDivisionError"
  by (simp add: block_dpr_def)

lemma basic_blocks_ok:
  assumes "index < length ls"
    and "ls ! index = 0 \<or> (sum_list ls \<noteq> 1 \<and> 0 \<le> py_int (real d * r) \<and> 0 \<le> p \<and> p \<le> 1)"
  shows "\<exists>blocks. basic_blocks d index ls k r a nl p dpr uls v init = Inr blocks
           \<and> (odd k \<longrightarrow> (\<forall>blk\<in>set blocks. block_ok d blk))"
proof (cases "ls ! index = 0")
  case True
  with assms(1) show ?thesis by (simp add: basic_blocks_def py_index_def)
next
  case False
  with assms(2) have s: "sum_list ls \<noteq> 1" and w: "0 \<le> py_int (real d * r)" "0 \<le> p" "p \<le> 1"
    by auto
  let ?f = "\<lambda>block_idx. ebind (block_dpr dpr block_idx index ls) (\<lambda>q.
              PoolFormerBlock_init d k r a nl p q uls v
                (init [index, block_idx, 0]) (init [index, block_idx, 1]))"
  have "\<exists>blk. ?f j = Inr blk \<and> (odd k \<longrightarrow> block_ok d blk)" for j
    using block_dpr_ok [OF s, of dpr j index] block_init_ok [OF w] by (metis ebind_Inr)
  then obtain blocks where b: "collect ?f [0..<ls ! index] = Inr blocks"
      "list_all2 (\<lambda>j blk. odd k \<longrightarrow> block_ok d blk) [0..<ls ! index] blocks"
    using collect_all2 [of "[0..<ls ! index]" ?f "\<lambda>j blk. odd k \<longrightarrow> block_ok d blk"] by blast
  have "block_ok d blk" if "odd k" "blk \<in> set blocks" for blk
    using b(2) that by (auto simp: list_all2_conv_all_nth in_set_conv_nth)
  with b(1) assms(1) show ?thesis by (auto simp: basic_blocks_def py_index_def)
qed

lemma basic_blocks_zero_division:
  assumes "index < length ls" and "0 < ls ! index" and "sum_list ls = 1"
  shows "basic_blocks d index ls k r a nl p dpr uls v init = Inl ZeroDivisionError"
proof -
  have "[0..<ls ! index] \<noteq> []" using assms(2) by simp
  moreover have "hd [0..<ls ! index] = 0" using assms(2) by (simp add: upt_rec)
  ultimately show ?thesis
    using assms(1) block_dpr_fails [OF assms(3)]
    by (simp add: basic_blocks_def py_index_def collect_first_error)
qed

lemma basic_blocks_runtime_error:
  assumes "index < length ls" and "0 < ls ! index" and "sum_list ls \<noteq> 1"
    and "py_int (real d * r) < 0"
  shows "basic_blocks d index ls k r a nl p dpr uls v init = Inl RuntimeError"
proof -
  have "[0..<ls ! index] \<noteq> []" using assms(2) by simp
  moreover have "hd [0..<ls ! index] = 0" using assms(2) by (simp add: upt_rec)
  moreover obtain q where "block_dpr dpr 0 index ls = Inr q"
    using block_dpr_ok [OF assms(3)] by blast
  ultimately show ?thesis
    using assms(1) block_init_fails [OF assms(4)]
    by (simp add: basic_blocks_def py_index_def collect_first_error)
qed

lemma basic_blocks_value_error:
  assumes "index < length ls" and "0 < ls ! index" and "sum_list ls \<noteq> 1"
    and "0 \<le> py_int (real d * r)" and "p < 0 \<or> 1 < p"
  shows "basic_blocks d index ls k r a nl p dpr uls v init = Inl ValueError"
proof -
  have "[0..<ls ! index] \<noteq> []" using assms(2) by simp
  moreover have "hd [0..<ls ! index] = 0" using assms(2) by (simp add: upt_rec)
  moreover obtain q where "block_dpr dpr 0 index ls = Inr q"
    using block_dpr_ok [OF assms(3)] by blast
  ultimately show ?thesis
    using assms(1) block_init_value_error [OF assms(4,5)]
    by (simp add: basic_blocks_def py_index_def collect_first_error)
qed

lemma basic_blocks_index_error:
  assumes "length ls \<le> index"
  shows "basic_blocks d index ls k r a nl p dpr uls v init = Inl IndexError"
  using assms by (simp add: basic_blocks_def py_index_def)


lemma basic_blocks_succeeds_iff:
  "(\<exists>blocks. basic_blocks d index ls k r a nl p dpr uls v init = Inr blocks) \<longleftrightarrow>
     index < length ls
     \<and> (ls ! index = 0 \<or> (sum_list ls \<noteq> 1 \<and> 0 \<le> py_int (real d * r) \<and> 0 \<le> p \<and> p \<le> 1))"
proof
  assume ok: "\<exists>blocks. basic_blocks d index ls k r a nl p dpr uls v init = Inr blocks"
  have i: "index < length ls"
    using ok basic_blocks_index_error [of ls index] by (cases "index < length ls") auto
  have one: "sum_list ls \<noteq> 1" if "0 < ls ! index"
    using ok basic_blocks_zero_division [OF i that] by auto
  have width: "0 \<le> py_int (real d * r)" if "0 < ls ! index" "sum_list ls \<noteq> 1"
    using ok basic_blocks_runtime_error [OF i that] by (cases "0 \<le> py_int (real d * r)") auto
  have "0 \<le> p \<and> p \<le> 1" if "0 < ls ! index" "sum_list ls \<noteq> 1" "0 \<le> py_int (real d * r)"
    using ok basic_blocks_value_error [OF i that] by (cases "0 \<le> p \<and> p \<le> 1") auto
  with one width show "index < length ls
      \<and> (ls ! index = 0 \<or> (sum_list ls \<noteq> 1 \<and> 0 \<le> py_int (real d * r) \<and> 0 \<le> p \<and> p \<le> 1))"
    using i by auto
next
  assume "index < length ls
      \<and> (ls ! index = 0 \<or> (sum_list ls \<noteq> 1 \<and> 0 \<le> py_int (real d * r) \<and> 0 \<le> p \<and> p \<le> 1))"
  then show "\<exists>blocks. basic_blocks d index ls k r a nl p dpr uls v init = Inr blocks"
    using basic_blocks_ok by blast
qed

lemma stage_of_succeeds_iff:
  "(\<exists>st. stage_of a init i = Inr st) \<longleftrightarrow>
     i < length (layers a) \<and> i < length (embed_dims a) \<and> i < length (mlp_ratios a) \<and> stage_good a i"
  unfolding stage_of_def stage_good_def
  by (simp add: py_index_def basic_blocks_succeeds_iff)

lemma downsampling_value:
  assumes "i < length (downsamples a)" and "i + 1 < length (embed_dims a)"
  shows "downsampling a init i =
           Inr (if downsamples a ! i \<or> embed_dims a ! i \<noteq> embed_dims a ! (i + 1)
                then [Downsample (PatchEmbed_init (down_patch_size a) (down_stride a) (down_pad a)
                        (embed_dims a ! i) (embed_dims a ! (i + 1)) None
                        (init [i, 0]) (\<lambda>c. init [i, 1] c 0 0 0))]
                else [])"
  using assms by (simp add: downsampling_def py_index_def)

lemma downsampling_succeeds_iff:
  "(\<exists>dn. downsampling a init i = Inr dn) \<longleftrightarrow>
     i < length (downsamples a) \<and> i + 1 < length (embed_dims a)"
  by (auto simp: downsampling_def py_index_def)

lemma network_loop_step:
  assumes "Suc i < length (layers a)"
  shows "network_loop a init [i..<length (layers a)] =
           ebind (stage_of a init i) (\<lambda>stage.
           ebind (downsampling a init i) (\<lambda>down.
           ebind (network_loop a init [Suc i..<length (layers a)]) (\<lambda>more.
             Inr (Sequential stage # down @ more))))"
proof -
  have "i < length (layers a)" using assms by simp
  then have "[i..<length (layers a)] = i # [Suc i..<length (layers a)]"
    by (rule upt_conv_Cons)
  moreover have "\<not> int (length (layers a)) - 1 \<le> int i" using assms by simp
  ultimately show ?thesis by simp
qed

lemma network_loop_last:
  assumes "Suc i = length (layers a)"
  shows "network_loop a init [i..<length (layers a)] =
           ebind (stage_of a init i) (\<lambda>stage. Inr [Sequential stage])"
proof -
  have "i < length (layers a)" using assms by simp
  then have "[i..<length (layers a)] = i # [Suc i..<length (layers a)]"
    by (rule upt_conv_Cons)
  moreover have "int (length (layers a)) - 1 \<le> int i" using assms by simp
  ultimately show ?thesis by simp
qed

lemma network_loop_succeeds_iff:
  assumes "i \<le> length (layers a)"
  shows "(\<exists>net. network_loop a init [i..<length (layers a)] = Inr net) \<longleftrightarrow>
           (\<forall>j. i \<le> j \<and> j < length (layers a) \<longrightarrow> iter_ok a j)"
  using assms
proof (induction "length (layers a) - i" arbitrary: i)
  case 0
  then show ?case by auto
next
  case (Suc m)
  then have lt: "i < length (layers a)" by simp
  have IH: "(\<exists>net. network_loop a init [Suc i..<length (layers a)] = Inr net) \<longleftrightarrow>
      (\<forall>j. Suc i \<le> j \<and> j < length (layers a) \<longrightarrow> iter_ok a j)"
    using Suc.hyps(1) [of "Suc i"] Suc.hyps(2) lt by simp
  have split: "(\<forall>j. i \<le> j \<and> j < length (layers a) \<longrightarrow> iter_ok a j) \<longleftrightarrow>
      iter_ok a i \<and> (\<forall>j. Suc i \<le> j \<and> j < length (layers a) \<longrightarrow> iter_ok a j)"
    using lt by (metis Suc_leD Suc_leI le_eq_less_or_eq)
  show ?case
  proof (cases "Suc i < length (layers a)")
    case True
    have "(\<exists>net. network_loop a init [i..<length (layers a)] = Inr net) \<longleftrightarrow>
        (\<exists>st. stage_of a init i = Inr st) \<and> (\<exists>dn. downsampling a init i = Inr dn)
        \<and> (\<exists>net. network_loop a init [Suc i..<length (layers a)] = Inr net)"
      unfolding network_loop_step [OF True] by (simp only: ebind_eq_Inr) blast
    also have "\<dots> \<longleftrightarrow> iter_ok a i
        \<and> (\<forall>j. Suc i \<le> j \<and> j < length (layers a) \<longrightarrow> iter_ok a j)"
      unfolding IH stage_of_succeeds_iff downsampling_succeeds_iff iter_ok_def
      using True lt by auto
    finally show ?thesis unfolding split .
  next
    case False
    with lt have last: "Suc i = length (layers a)" by simp
    have "(\<exists>net. network_loop a init [i..<length (layers a)] = Inr net) \<longleftrightarrow>
        (\<exists>st. stage_of a init i = Inr st)"
      unfolding network_loop_last [OF last] by (simp only: ebind_eq_Inr) blast
    also have "\<dots> \<longleftrightarrow> iter_ok a i"
      unfolding stage_of_succeeds_iff iter_ok_def using last lt by simp
    also have "\<dots> \<longleftrightarrow> iter_ok a i
        \<and> (\<forall>j. Suc i \<le> j \<and> j < length (layers a) \<longrightarrow> iter_ok a j)"
      using last by auto
    finally show ?thesis unfolding split .
  qed
qed


lemma sum_list_one_pos:
  assumes "sum_list (ls::nat list) = 1"
  shows "\<exists>j<length ls. 0 < ls ! j"
proof (rule ccontr)
  assume "\<not> (\<exists>j<length ls. 0 < ls ! j)"
  then have "\<forall>x\<in>set ls. x = 0" by (auto simp: in_set_conv_nth)
  then have "sum_list ls = 0" by (simp add: sum_list_eq_0_iff)
  with assms show False by simp
qed

lemma all_stage_good_iff:
  assumes "length (layers a) \<le> length (embed_dims a)"
    and "length (layers a) \<le> length (mlp_ratios a)"
  shows "(\<forall>j<length (layers a). stage_good a j) \<longleftrightarrow> sum_list (layers a) \<noteq> 1 \<and> mlps_ok a"
proof (cases "sum_list (layers a) = 1")
  case True
  from sum_list_one_pos [OF this] obtain j where "j < length (layers a)" "0 < layers a ! j"
    by blast
  then have "\<not> stage_good a j" using True by (simp add: stage_good_def)
  with \<open>j < length (layers a)\<close> True show ?thesis by blast
next
  case False
  then show ?thesis using assms by (auto simp: stage_good_def mlps_ok_def)
qed

lemma all_iter_ok_iff:
  "(\<forall>j<length (layers a). iter_ok a j) \<longleftrightarrow>
     length (layers a) \<le> length (embed_dims a) \<and> length (layers a) \<le> length (mlp_ratios a)
     \<and> length (layers a) - 1 \<le> length (downsamples a)
     \<and> (\<forall>j<length (layers a). stage_good a j)"
proof
  assume all: "\<forall>j<length (layers a). iter_ok a j"
  let ?n = "length (layers a)"
  have e: "?n \<le> length (embed_dims a)" and m: "?n \<le> length (mlp_ratios a)"
  proof -
    show "?n \<le> length (embed_dims a)"
    proof (cases "?n = 0")
      case False
      then have "iter_ok a (?n - 1)" using all by simp
      then have "?n - 1 < length (embed_dims a)" by (simp add: iter_ok_def)
      then show ?thesis by arith
    qed simp
    show "?n \<le> length (mlp_ratios a)"
    proof (cases "?n = 0")
      case False
      then have "iter_ok a (?n - 1)" using all by simp
      then have "?n - 1 < length (mlp_ratios a)" by (simp add: iter_ok_def)
      then show ?thesis by arith
    qed simp
  qed
  have d: "?n - 1 \<le> length (downsamples a)"
  proof (cases "?n < 2")
    case False
    then have "iter_ok a (?n - 2)" using all by simp
    moreover have "?n - 2 + 1 < ?n" using False by simp
    ultimately have "?n - 2 < length (downsamples a)" by (simp add: iter_ok_def)
    then show ?thesis by simp
  qed auto
  from e m d all show "?n \<le> length (embed_dims a) \<and> ?n \<le> length (mlp_ratios a)
     \<and> ?n - 1 \<le> length (downsamples a) \<and> (\<forall>j<?n. stage_good a j)"
    by (simp add: iter_ok_def)
next
  assume "length (layers a) \<le> length (embed_dims a) \<and> length (layers a) \<le> length (mlp_ratios a)
     \<and> length (layers a) - 1 \<le> length (downsamples a)
     \<and> (\<forall>j<length (layers a). stage_good a j)"
  then show "\<forall>j<length (layers a). iter_ok a j"
    by (auto simp: iter_ok_def)
qed

lemma out_norms_value:
  assumes "4 \<le> length (embed_dims a)"
  shows "out_norms v a [0, 2, 4, 6] =
         Inr [(0, if env_set v then Identity_norm
                  else norm_layer_init (norm_layer a) (embed_dims a ! 0)),
              (2, norm_layer_init (norm_layer a) (embed_dims a ! 1)),
              (4, norm_layer_init (norm_layer a) (embed_dims a ! 2)),
              (6, norm_layer_init (norm_layer a) (embed_dims a ! 3))]"
  using assms by (auto simp: out_norms_def py_index_def numeral_2_eq_2 numeral_3_eq_3)

lemma out_norms_succeed_iff:
  "(\<exists>ns. out_norms v a [0, 2, 4, 6] = Inr ns) \<longleftrightarrow> 4 \<le> length (embed_dims a)"
proof
  assume "4 \<le> length (embed_dims a)"
  from out_norms_value [OF this] show "\<exists>ns. out_norms v a [0, 2, 4, 6] = Inr ns" by blast
next
  assume "\<exists>ns. out_norms v a [0, 2, 4, 6] = Inr ns"
  then have "3 < length (embed_dims a)"
    by (auto simp: out_norms_def py_index_def ebind_eq_Inr numeral_2_eq_2 numeral_3_eq_3
        split: if_splits)
  then show "4 \<le> length (embed_dims a)" by simp
qed

lemma PoolFormer_init_succeeds_iff:
  "(\<exists>m. PoolFormer_init v init a = Inr m) \<longleftrightarrow>
     lists_long_enough a \<and> sum_list (layers a) \<noteq> 1 \<and> mlps_ok a"
proof -
  have loop: "(\<exists>net. network_loop a init [0..<length (layers a)] = Inr net) \<longleftrightarrow>
      (\<forall>j<length (layers a). iter_ok a j)"
    using network_loop_succeeds_iff [of 0 a init] by simp
  have "(\<exists>m. PoolFormer_init v init a = Inr m) \<longleftrightarrow>
      embed_dims a \<noteq> [] \<and> (\<exists>net. network_loop a init [0..<length (layers a)] = Inr net)
      \<and> (fork_feat a \<longrightarrow> 4 \<le> length (embed_dims a))"
  proof (cases "fork_feat a")
    case True
    then show ?thesis
      unfolding PoolFormer_init_def Let_def out_norms_succeed_iff [where v = v and a = a, symmetric]
      by (simp add: ebind_eq_Inr py_index_def) blast
  next
    case False
    then show ?thesis
      unfolding PoolFormer_init_def Let_def
      by (cases "embed_dims a") (simp_all add: ebind_eq_Inr py_index_def py_last_def)
  qed
  then show ?thesis
    unfolding loop all_iter_ok_iff lists_long_enough_def using all_stage_good_iff [of a] by blast
qed

section \<open>Outcomes of the constructor\<close>

lemma py_int_nonneg [simp]: "0 \<le> r \<Longrightarrow> 0 \<le> py_int r"
  by (simp add: py_int_def)

lemma mlps_ok_nonneg:
  assumes "\<forall>r\<in>set (mlp_ratios a). 0 \<le> r" and "0 \<le> drop_rate a" and "drop_rate a \<le> 1"
  shows "mlps_ok a"
  using assms by (auto simp: mlps_ok_def)

lemma s12_ok:
  "lists_long_enough (poolformer_s12 g)" "sum_list (layers (poolformer_s12 g)) \<noteq> 1"
  "mlps_ok (poolformer_s12 g)"
  by (simp_all add: poolformer_s12_def default_args_def lists_long_enough_def mlps_ok_nonneg)

lemma PoolFormer_init_attrs:
  assumes "PoolFormer_init v init a = Inr m"
  shows "self_embed_dim m = None" and "self_fork_feat m = fork_feat a"
    and "network_loop a init [0..<length (layers a)] = Inr (self_network m)"
    and "self_patch_embed m = PatchEmbed_init (in_patch_size a) (in_stride a) (in_pad a) 3
           (embed_dims a ! 0) None (init [0]) (\<lambda>c. init [1] c 0 0 0)"
    and "\<not> fork_feat a \<Longrightarrow> self_norm m = Some (norm_layer_init (norm_layer a) (last (embed_dims a)))"
    and "\<not> fork_feat a \<Longrightarrow> self_head m = Some (if num_classes a > 0
            then Linear (last (embed_dims a)) (num_classes a) (\<lambda>j i. init [] j i 0 0) (\<lambda>_. 0)
            else Identity_head)"
  using assms
  by (auto simp: PoolFormer_init_def Let_def ebind_eq_Inr py_index_def py_last_def
      split: if_splits list.splits)

lemma stage_of_value:
  assumes "i < length (embed_dims a)" and "i < length (mlp_ratios a)"
  shows "stage_of a init i =
           basic_blocks (embed_dims a ! i) i (layers a) (pool_size a) (mlp_ratios a ! i)
             (act_layer a) (norm_layer a) (drop_rate a) (drop_path_rate a) (use_layer_scale a)
             (layer_scale_init_value a) init"
  using assms by (simp add: stage_of_def py_index_def)

lemma network_loop_zero_division:
  assumes long: "length (layers a) \<le> length (embed_dims a)"
      "length (layers a) \<le> length (mlp_ratios a)"
      "length (layers a) - 1 \<le> length (downsamples a)"
    and one: "sum_list (layers a) = 1"
    and some: "\<exists>j. i \<le> j \<and> j < length (layers a) \<and> 0 < layers a ! j"
  shows "network_loop a init [i..<length (layers a)] = Inl ZeroDivisionError"
  using some
proof (induction "length (layers a) - i" arbitrary: i)
  case 0
  then show ?case by auto
next
  case (Suc m)
  then have lt: "i < length (layers a)" by simp
  have st: "stage_of a init i =
      basic_blocks (embed_dims a ! i) i (layers a) (pool_size a) (mlp_ratios a ! i)
        (act_layer a) (norm_layer a) (drop_rate a) (drop_path_rate a) (use_layer_scale a)
        (layer_scale_init_value a) init"
    using lt long by (intro stage_of_value) simp_all
  show ?case
  proof (cases "0 < layers a ! i")
    case True
    have z: "stage_of a init i = Inl ZeroDivisionError"
      unfolding st by (rule basic_blocks_zero_division [OF lt True one])
    show ?thesis
    proof (cases "Suc i < length (layers a)")
      case True
      show ?thesis unfolding network_loop_step [OF True] z by simp
    next
      case False
      with lt have "Suc i = length (layers a)" by simp
      then show ?thesis using z by (simp add: network_loop_last)
    qed
  next
    case False
    with Suc.prems obtain j where j: "Suc i \<le> j" "j < length (layers a)" "0 < layers a ! j"
      by (metis Suc_leI le_neq_implies_less)
    then have nl: "Suc i < length (layers a)" by simp
    have "m = length (layers a) - Suc i" using Suc.hyps(2) by simp
    moreover have "\<exists>j\<ge>Suc i. j < length (layers a) \<and> 0 < layers a ! j" using j by blast
    ultimately have rest: "network_loop a init [Suc i..<length (layers a)] = Inl ZeroDivisionError"
      by (rule Suc.hyps(1))
    have "\<exists>stage. stage_of a init i = Inr stage"
      unfolding st basic_blocks_succeeds_iff using lt False by simp
    then obtain stage where stage: "stage_of a init i = Inr stage" by blast
    obtain down where down: "downsampling a init i = Inr down"
      using downsampling_succeeds_iff [of a init i] nl long by auto
    show ?thesis unfolding network_loop_step [OF nl] stage down rest by simp
  qed
qed

lemma PoolFormer_init_zero_division:
  assumes "lists_long_enough a" and "sum_list (layers a) = 1"
  shows "PoolFormer_init v init a = Inl ZeroDivisionError"
proof -
  from sum_list_one_pos [OF assms(2)] have "\<exists>j. 0 \<le> j \<and> j < length (layers a) \<and> 0 < layers a ! j"
    by auto
  then have "network_loop a init [0..<length (layers a)] = Inl ZeroDivisionError"
    using assms by (intro network_loop_zero_division) (simp_all add: lists_long_enough_def)
  moreover have "0 < length (embed_dims a)" using assms(1) by (simp add: lists_long_enough_def)
  ultimately show ?thesis by (simp add: PoolFormer_init_def py_index_def Let_def)
qed


lemma ebind_eq_Inl: "ebind m f = Inl e \<longleftrightarrow> m = Inl e \<or> (\<exists>v. m = Inr v \<and> f v = Inl e)"
  by (cases m) simp_all

lemma py_index_error: "py_index xs i = Inl e \<Longrightarrow> e = IndexError"
  by (simp add: py_index_def split: if_splits)

lemma stage_of_error:
  assumes "i < length (embed_dims a) \<longrightarrow> i < length (mlp_ratios a) \<longrightarrow> stage_good a i"
    and "i < length (layers a)" and "stage_of a init i = Inl e"
  shows "e = IndexError"
proof (cases "i < length (embed_dims a) \<and> i < length (mlp_ratios a)")
  case True
  then have "\<exists>st. stage_of a init i = Inr st"
    using assms(1,2) by (simp add: stage_of_succeeds_iff)
  with assms(3) show ?thesis by auto
next
  case False
  with assms(3) show ?thesis
    by (auto simp: stage_of_def py_index_def split: if_splits)
qed

lemma downsampling_error:
  assumes "downsampling a init i = Inl e"
  shows "e = IndexError"
  using assms by (auto simp: downsampling_def py_index_def ebind_eq_Inl split: if_splits)

lemma network_loop_error:
  assumes good: "\<forall>j<length (layers a).
      j < length (embed_dims a) \<longrightarrow> j < length (mlp_ratios a) \<longrightarrow> stage_good a j"
    and "network_loop a init [i..<length (layers a)] = Inl e"
  shows "e = IndexError"
  using assms(2)
proof (induction "length (layers a) - i" arbitrary: i)
  case 0
  then show ?case by simp
next
  case (Suc m)
  then have lt: "i < length (layers a)" by simp
  with good have sg: "i < length (embed_dims a) \<longrightarrow> i < length (mlp_ratios a) \<longrightarrow> stage_good a i"
    by simp
  show ?case
  proof (cases "Suc i < length (layers a)")
    case True
    from Suc.prems consider "stage_of a init i = Inl e" | "downsampling a init i = Inl e"
      | "network_loop a init [Suc i..<length (layers a)] = Inl e"
      unfolding network_loop_step [OF True] by (auto simp: ebind_eq_Inl)
    then show ?thesis
    proof cases
      case 1
      then show ?thesis using stage_of_error [OF sg lt] by simp
    next
      case 2
      then show ?thesis by (rule downsampling_error)
    next
      case 3
      moreover have "m = length (layers a) - Suc i" using Suc.hyps(2) by simp
      ultimately show ?thesis using Suc.hyps(1) by blast
    qed
  next
    case False
    with lt have "Suc i = length (layers a)" by simp
    with Suc.prems have "stage_of a init i = Inl e"
      by (auto simp: network_loop_last ebind_eq_Inl)
    then show ?thesis using stage_of_error [OF sg lt] by simp
  qed
qed

lemma collect_error:
  assumes "\<And>x e. f x = Inl e \<Longrightarrow> e = IndexError" and "collect f xs = Inl e"
  shows "e = IndexError"
  using assms(2)
proof (induction xs)
  case Nil
  then show ?case by simp
next
  case (Cons x xs)
  then show ?case using assms(1) by (auto simp: ebind_eq_Inl)
qed

lemma out_norms_error:
  assumes "out_norms v a ois = Inl e"
  shows "e = IndexError"
proof -
  let ?f = "\<lambda>(i_emb, i_layer).
              if i_emb = 0 \<and> env_set v then Inr (i_layer, Identity_norm)
              else ebind (py_index (embed_dims a) i_emb) (\<lambda>e.
                     Inr (i_layer, norm_layer_init (norm_layer a) e))"
  have "e' = IndexError" if "?f x = Inl e'" for x :: "nat \<times> nat" and e'
    using that by (cases x) (auto simp: ebind_eq_Inl py_index_def split: if_splits)
  then show ?thesis
    using assms collect_error [of ?f "enumerate 0 ois" e] unfolding out_norms_def by blast
qed

lemma PoolFormer_init_error_cases:
  assumes "PoolFormer_init v init a = Inl e"
  shows "py_index (embed_dims a) 0 = Inl e
       \<or> network_loop a init [0..<length (layers a)] = Inl e
       \<or> out_norms v a [0, 2, 4, 6] = Inl e
       \<or> py_last (embed_dims a) = Inl e"
  using assms unfolding PoolFormer_init_def Let_def
  by (simp add: ebind_eq_Inl split: if_splits) blast+

lemma PoolFormer_init_index_error:
  assumes "sum_list (layers a) \<noteq> 1" and "mlps_ok a" and "\<not> lists_long_enough a"
  shows "PoolFormer_init v init a = Inl IndexError"
proof -
  have good: "\<forall>j<length (layers a).
      j < length (embed_dims a) \<longrightarrow> j < length (mlp_ratios a) \<longrightarrow> stage_good a j"
    using assms(1,2) by (auto simp: stage_good_def mlps_ok_def)
  have "\<not> (\<exists>m. PoolFormer_init v init a = Inr m)"
    using assms(3) by (simp add: PoolFormer_init_succeeds_iff)
  then obtain e where e: "PoolFormer_init v init a = Inl e"
    by (cases "PoolFormer_init v init a") auto
  have "py_last (embed_dims a) = Inl e \<Longrightarrow> e = IndexError"
    by (simp add: py_last_def split: list.splits)
  then have "e = IndexError"
    using PoolFormer_init_error_cases [OF e] py_index_error network_loop_error [OF good]
      out_norms_error by blast
  with e show ?thesis by simp
qed

section \<open>Stochastic-depth rates of a stage\<close>

text \<open>
  C2. When the network has more than one block (and the blocks can be built: the hidden
  width is not negative and the dropout rate is between 0 and 1, outside of which
  \<open>nn.Dropout\<close> raises), the stage builder of stage \<open>index\<close>
  returns \<open>layers[index]\<close> blocks, and the rate it computes for block \<open>j\<close> of the stage is
  \<open>max_drop_path_rate * (j + sum(layers[:index])) / (sum(layers) - 1)\<close> in exact
  arithmetic; the block receives a DropPath of that rate when it is positive and the
  identity otherwise. The rate of block 0 of stage 0 is 0, and the rate of the last
  block of the last stage is the maximum rate.
\<close>

theorem basic_blocks_rates:
  assumes "1 < sum_list ls" and "index < length ls" and "0 \<le> py_int (real d * r)"
    and "0 \<le> p" and "p \<le> 1"
  shows "\<exists>blocks. basic_blocks d index ls k r a nl p dpr uls v init = Inr blocks
           \<and> length blocks = ls ! index
           \<and> (\<forall>j<ls ! index.
                 block_dpr dpr j index ls = Inr (rate dpr ls j index)
                 \<and> blk_drop_path (blocks ! j) =
                     (if rate dpr ls j index > 0 then DropPath (rate dpr ls j index)
                      else Identity_path))
           \<and> rate dpr ls 0 0 = 0
           \<and> (0 < last ls \<longrightarrow> rate dpr ls (last ls - 1) (length ls - 1) = dpr)"
proof -
  let ?f = "\<lambda>block_idx. ebind (block_dpr dpr block_idx index ls) (\<lambda>q.
              PoolFormerBlock_init d k r a nl p q uls v
                (init [index, block_idx, 0]) (init [index, block_idx, 1]))"
  let ?P = "\<lambda>j blk. blk_drop_path blk =
              (if rate dpr ls j index > 0 then DropPath (rate dpr ls j index) else Identity_path)"
  have step: "\<exists>blk. ?f j = Inr blk \<and> ?P j blk" for j
    using block_init_drop_path [OF assms(3,4,5)] by (simp add: block_dpr_rate [OF assms(1)])
  obtain blocks where blocks: "collect ?f [0..<ls ! index] = Inr blocks"
      "list_all2 ?P [0..<ls ! index] blocks"
    using collect_all2 [of "[0..<ls ! index]" ?f ?P] step by blast
  have len: "length blocks = ls ! index"
    using list_all2_lengthD [OF blocks(2)] by simp
  have each: "?P j (blocks ! j)" if "j < ls ! index" for j
    using list_all2_nthD [OF blocks(2), of j] that by simp
  have run: "basic_blocks d index ls k r a nl p dpr uls v init = Inr blocks"
    using assms(2) blocks(1) by (simp add: basic_blocks_def py_index_def)
  have first: "rate dpr ls 0 0 = 0"
    by (simp add: rate_def)
  have final: "rate dpr ls (last ls - 1) (length ls - 1) = dpr" if "0 < last ls"
  proof -
    from assms(2) have ne: "ls \<noteq> []" by auto
    then have "sum_list ls = sum_list (butlast ls) + last ls"
      by (metis append_butlast_last_id sum_list.Cons sum_list.Nil sum_list_append add.right_neutral)
    moreover have "take (length ls - 1) ls = butlast ls"
      by (simp add: butlast_conv_take)
    ultimately have "real (last ls - 1) + real (sum_list (take (length ls - 1) ls))
        = real (sum_list ls) - 1"
      using that by (simp add: of_nat_diff)
    moreover have "real (sum_list ls) - 1 \<noteq> 0" using assms(1) by simp
    ultimately show ?thesis by (simp add: rate_def)
  qed
  from run len each first final show ?thesis
    by (simp add: block_dpr_rate [OF assms(1)])
qed

theorem basic_blocks_rates_witness:
  "\<exists>blocks. basic_blocks 64 1 [2, 2, 6, 2] 3 4 (\<lambda>v. v) GroupNorm 0 (1 / 10) True (1 / 100000)
       (\<lambda>_ _ _ _ _. 0) = Inr blocks
     \<and> length blocks = 2
     \<and> blk_drop_path (blocks ! 1) = DropPath (3 / 110)
     \<and> rate (1 / 10) [2, 2, 6, 2] 1 3 = 1 / 10"
proof -
  have a: "1 < sum_list [2, 2, 6, 2::nat]" by simp
  have b: "1 < length [2, 2, 6, 2::nat]" by simp
  have c: "0 \<le> py_int (real 64 * 4)" "(0::real) \<le> 0" "(0::real) \<le> 1"
    by (simp_all add: py_int_def)
  have e: "rate (1 / 10) [2, 2, 6, 2] 1 1 = 3 / 110" by (simp add: rate_def)
  obtain blocks where run: "basic_blocks 64 1 [2, 2, 6, 2] 3 4 (\<lambda>v. v) GroupNorm 0 (1 / 10) True
        (1 / 100000) (\<lambda>_ _ _ _ _. 0) = Inr blocks"
    and len: "length blocks = [2, 2, 6, 2] ! 1"
    and each: "\<forall>j<[2, 2, 6, 2] ! 1. blk_drop_path (blocks ! j) =
        (if rate (1 / 10) [2, 2, 6, 2] j 1 > 0 then DropPath (rate (1 / 10) [2, 2, 6, 2] j 1)
         else Identity_path)"
    and fin: "0 < last [2, 2, 6, 2::nat] \<longrightarrow>
        rate (1 / 10) [2, 2, 6, 2] (last [2, 2, 6, 2] - 1) (length [2, 2, 6, 2::nat] - 1) = 1 / 10"
    using basic_blocks_rates [OF a b c, of 3 "\<lambda>v. v" GroupNorm "1 / 10" True "1 / 100000"
        "\<lambda>_ _ _ _ _. 0"] by (elim exE conjE) (rule that, assumption, assumption, fast, assumption)
  have "(1::nat) < [2, 2, 6, 2] ! 1" by simp
  with each have "blk_drop_path (blocks ! 1) =
      (if rate (1 / 10) [2, 2, 6, 2] 1 1 > 0 then DropPath (rate (1 / 10) [2, 2, 6, 2] 1 1)
       else Identity_path)" by blast
  then have dp: "blk_drop_path (blocks ! 1) = DropPath (3 / 110)" by (simp only: e) simp
  have l: "length blocks = 2" using len by simp
  have f: "rate (1 / 10) [2, 2, 6, 2] 1 3 = 1 / 10" using fin by (simp add: numeral_3_eq_3)
  from run l dp f show ?thesis by blast
qed


section \<open>Configuration errors\<close>

text \<open>
  C6, as stated: a configuration whose lists differ in length, or whose layers sum to at
  most one block, is rejected at construction. It is not: two stages with four-entry
  lists, and four stages without any block, are both constructed.
\<close>

theorem construction_not_validated_counterexample:
  "\<not> isl (PoolFormer_init None zero_init
       (default_args [1, 1] [64, 128, 320, 512] [4, 4, 4, 4] [True, True, True, True] (\<lambda>v. v)))
   \<and> \<not> isl (PoolFormer_init None zero_init
       (default_args [0, 0, 0, 0] [64, 128, 320, 512] [4, 4, 4, 4] [True, True, True, True] (\<lambda>v. v)))"
proof -
  let ?a = "default_args [1, 1] [64, 128, 320, 512] [4, 4, 4, 4] [True, True, True, True] (\<lambda>v. v)"
  let ?b = "default_args [0, 0, 0, 0] [64, 128, 320, 512] [4, 4, 4, 4] [True, True, True, True] (\<lambda>v. v)"
  have "lists_long_enough ?a \<and> sum_list (layers ?a) \<noteq> 1 \<and> mlps_ok ?a"
    by (simp add: default_args_def lists_long_enough_def mlps_ok_nonneg)
  then have "\<exists>m. PoolFormer_init None zero_init ?a = Inr m"
    by (simp add: PoolFormer_init_succeeds_iff)
  moreover have "lists_long_enough ?b \<and> sum_list (layers ?b) \<noteq> 1 \<and> mlps_ok ?b"
    by (simp add: default_args_def lists_long_enough_def mlps_ok_nonneg)
  then have "\<exists>m. PoolFormer_init None zero_init ?b = Inr m"
    by (simp add: PoolFormer_init_succeeds_iff)
  ultimately show ?thesis by auto
qed

text \<open>
  C6, amended. The constructor checks nothing. It runs through exactly when
  \<open>embed_dims\<close> is not empty, \<open>embed_dims\<close> and \<open>mlp_ratios\<close> have at least \<open>len(layers)\<close>
  entries, \<open>downsamples\<close> at least \<open>len(layers) - 1\<close>, \<open>embed_dims\<close> at least 4 in
  feature-pyramid mode, \<open>sum(layers)\<close> is not 1, and, if a stage has blocks, its hidden
  width is not negative and the dropout rate is between 0 and 1 (the library's
  \<open>Conv2d\<close> and \<open>Dropout\<close> raise otherwise). With lists that long, \<open>sum(layers) = 1\<close>
  ends in the ZeroDivisionError of the rate formula; with shorter lists (and blocks that
  can be built) the failure is the IndexError of a list access.
\<close>

theorem construction_outcome:
  "((\<exists>m. PoolFormer_init v init a = Inr m) \<longleftrightarrow>
       lists_long_enough a \<and> sum_list (layers a) \<noteq> 1 \<and> mlps_ok a)
   \<and> (lists_long_enough a \<and> sum_list (layers a) = 1 \<longrightarrow>
         PoolFormer_init v init a = Inl ZeroDivisionError)
   \<and> (\<not> lists_long_enough a \<and> sum_list (layers a) \<noteq> 1 \<and> mlps_ok a \<longrightarrow>
         PoolFormer_init v init a = Inl IndexError)"
  using PoolFormer_init_succeeds_iff [of v init a] PoolFormer_init_zero_division [of a v init]
    PoolFormer_init_index_error [of a v init] by blast

theorem construction_outcome_witness:
  "(\<exists>m. PoolFormer_init None zero_init (poolformer_s12 (\<lambda>v. v)) = Inr m)
   \<and> PoolFormer_init None zero_init
       (default_args [1, 0, 0, 0] [64, 128, 320, 512] [4, 4, 4, 4] [True, True, True, True] (\<lambda>v. v))
       = Inl ZeroDivisionError
   \<and> PoolFormer_init None zero_init
       (default_args [2, 2, 6, 2] [64, 128] [4, 4, 4, 4] [True, True, True, True] (\<lambda>v. v))
       = Inl IndexError
   \<and> PoolFormer_init None zero_init
       (default_args [2, 2, 6, 2] [64, 128, 320, 512] [4, 4] [True, True, True, True] (\<lambda>v. v))
       = Inl IndexError"
proof -
  let ?ratios = "default_args [2, 2, 6, 2] [64, 128, 320, 512] [4, 4] [True, True, True, True] (\<lambda>v. v)"
  have ratios: "\<not> lists_long_enough ?ratios \<and> sum_list (layers ?ratios) \<noteq> 1 \<and> mlps_ok ?ratios"
    by (simp add: default_args_def lists_long_enough_def mlps_ok_nonneg)
  let ?one = "default_args [1, 0, 0, 0] [64, 128, 320, 512] [4, 4, 4, 4] [True, True, True, True] (\<lambda>v. v)"
  let ?short = "default_args [2, 2, 6, 2] [64, 128] [4, 4, 4, 4] [True, True, True, True] (\<lambda>v. v)"
  have one: "lists_long_enough ?one \<and> sum_list (layers ?one) = 1"
    by (simp add: default_args_def lists_long_enough_def)
  have short: "\<not> lists_long_enough ?short \<and> sum_list (layers ?short) \<noteq> 1 \<and> mlps_ok ?short"
    by (simp add: default_args_def lists_long_enough_def mlps_ok_nonneg)
  show ?thesis
    using construction_outcome [of None zero_init "poolformer_s12 (\<lambda>v. v)"]
      construction_outcome [of None zero_init ?one] construction_outcome [of None zero_init ?short]
      construction_outcome [of None zero_init ?ratios]
      s12_ok [of "\<lambda>v. v"] one short ratios
    by blast
qed

section \<open>Resetting the classifier\<close>



section \<open>Facts about the residual block\<close>

lemma channel_mul_identity [simp]: "channel_mul multiplicative_identity t = Inr t"
  by (simp add: multiplicative_identity_def channel_mul_def channel_op_def full_def bdim_def)

lemma ebind_assoc: "ebind (ebind m f) g = ebind m (\<lambda>v. ebind (f v) g)"
  by (cases m) simp_all

lemma tensor_eq_refl [simp]: "tensor_eq x x"
  by (simp add: tensor_eq_def)

lemma tensor_eq_trans: "tensor_eq x y \<Longrightarrow> tensor_eq y z \<Longrightarrow> tensor_eq x z"
  by (simp add: tensor_eq_def same_dims_def)

lemma tensor_eq_dims: "tensor_eq x y \<Longrightarrow> same_dims x y"
  by (simp add: tensor_eq_def)

lemma block_init_layer_scale:
  assumes "PoolFormerBlock_init d k r a nl p dp uls v w1 w2 = Inr blk"
  shows "blk_use_layer_scale blk = uls"
    and "blk_layer_scale_1 blk = (if uls then Some (full d v) else None)"
    and "blk_layer_scale_2 blk = (if uls then Some (full d v) else None)"
    and "blk_drop_path blk = (if dp > 0 then DropPath dp else Identity_path)"
  using assms by (auto simp: PoolFormerBlock_init_def Let_def ebind_eq_Inr)

section \<open>The two residual updates\<close>

text \<open>
  C1. For every block, mode, random draw and input, the forward pass is the two residual
  updates in their order: first the token mixer on \<open>norm1(x)\<close>, then the MLP on \<open>norm2\<close> of
  the updated tensor, each scaled by its layer scale and passed through the drop path;
  without layer scale the scale is the multiplicative identity. Errors agree as well.
\<close>

theorem block_forward_two_updates:
  "PoolFormerBlock_forward blk training rnd x = two_residual_updates blk training rnd x"
proof (cases "blk_use_layer_scale blk")
  case True
  then show ?thesis
    by (simp add: PoolFormerBlock_forward_def two_residual_updates_def residual_update_def
        LayerScale1_def LayerScale2_def ebind_assoc)
next
  case False
  then show ?thesis
    by (simp add: PoolFormerBlock_forward_def two_residual_updates_def residual_update_def
        LayerScale1_def LayerScale2_def ebind_assoc)
qed

section \<open>Facts about the pooling window\<close>

lemma in_window_interval: "in_window k n i = {i - k div 2..<min (i + k div 2 + 1) n}"
  by (auto simp: in_window_def)

lemma window_end_int:
  assumes "k = 2 * r + 1"
  shows "min (min (int i - int r + int k) (int n + int r)) (int n) = int (min (i + r + 1) n)"
proof -
  have "int i - int r + int k = int (i + r + 1)" using assms by simp
  then show ?thesis by (simp add: min_def)
qed

lemma window_start_int: "max (int i - int r) 0 = int (i - r)"
  by (simp add: max_def)

lemma avg_window_unfold:
  "avg_window (pool (Pooling_init k)) x b c i j =
     (\<Sum>h = nat (max (int i - int (k div 2)) 0)..<
            nat (min (min (int i - int (k div 2) + int k) (int (dimH x) + int (k div 2))) (int (dimH x))).
        \<Sum>w = nat (max (int j - int (k div 2)) 0)..<
              nat (min (min (int j - int (k div 2) + int k) (int (dimW x) + int (k div 2))) (int (dimW x))).
          elem x b c h w)
     / real_of_int
         ((min (min (int i - int (k div 2) + int k) (int (dimH x) + int (k div 2))) (int (dimH x))
            - max (int i - int (k div 2)) 0)
          * (min (min (int j - int (k div 2) + int k) (int (dimW x) + int (k div 2))) (int (dimW x))
            - max (int j - int (k div 2)) 0))"
  unfolding avg_window_def Pooling_init_def Let_def by simp

lemma avg_window_local_average:
  assumes "odd k" and "i < dimH x" and "j < dimW x"
  shows "avg_window (pool (Pooling_init k)) x b c i j = local_average k x b c i j"
proof -
  from assms(1) obtain r where k: "k = 2 * r + 1" by (auto elim: oddE)
  then have r: "k div 2 = r" by simp
  have ch: "int (min (i + r + 1) (dimH x)) - int (i - r) = int (min (i + r + 1) (dimH x) - (i - r))"
    using assms(2) by (simp add: of_nat_diff min_def)
  have cw: "int (min (j + r + 1) (dimW x)) - int (j - r) = int (min (j + r + 1) (dimW x) - (j - r))"
    using assms(3) by (simp add: of_nat_diff min_def)
  show ?thesis
    unfolding avg_window_unfold local_average_def in_window_interval r
      window_end_int [OF k] window_start_int ch cw
    by simp
qed


section \<open>The token mixer\<close>

text \<open>
  C4. For an odd window size \<open>k\<close> and a non-empty input, \<open>Pooling\<close> is an average pool
  with stride 1, padding \<open>k // 2\<close> and the padding left out of the count; the forward pass
  succeeds, its output has the sizes of the input, and each element is the local average
  over the window's positions inside the tensor minus the input's element. The layer holds
  the window size and nothing else: it has no learned parameter.
\<close>

theorem pooling_contract:
  assumes "odd k" and "0 < dimC x" and "0 < dimH x" and "0 < dimW x"
  shows "pool (Pooling_init k) =
           \<lparr>ap_kernel_size = k, ap_stride = 1, ap_padding = k div 2, count_include_pad = False\<rparr>
       \<and> (\<exists>y. Pooling_forward (Pooling_init k) x = Inr y \<and> same_dims y x
             \<and> (\<forall>b c i j. i < dimH x \<longrightarrow> j < dimW x \<longrightarrow>
                   elem y b c i j = local_average k x b c i j - elem x b c i j))"
  using Pooling_forward_odd [OF assms] avg_window_local_average [OF assms(1)]
  by (simp add: Pooling_init_def)

theorem pooling_contract_witness:
  "\<exists>y. Pooling_forward (Pooling_init 3) ramp = Inr y \<and> same_dims y ramp
      \<and> elem y 0 0 0 0 = local_average 3 ramp 0 0 0 0 - elem ramp 0 0 0 0"
proof -
  have a: "odd (3::nat)" "0 < dimC ramp" "0 < dimH ramp" "0 < dimW ramp"
    by (simp_all add: ramp_def)
  from pooling_contract [OF a] obtain y where y: "Pooling_forward (Pooling_init 3) ramp = Inr y"
      "same_dims y ramp"
      "\<forall>b c i j. i < dimH ramp \<longrightarrow> j < dimW ramp \<longrightarrow>
         elem y b c i j = local_average 3 ramp b c i j - elem ramp b c i j"
    by blast
  from y(3) a(3,4) have "elem y 0 0 0 0 = local_average 3 ramp 0 0 0 0 - elem ramp 0 0 0 0"
    by blast
  with y(1,2) show ?thesis by blast
qed

section \<open>Facts about the normalisation layers\<close>

lemma group_mean_single: "group_mean x b 0 (dimC x) = sample_mean x b"
  by (simp add: group_mean_def sample_mean_def lessThan_atLeast0)

lemma group_var_single: "group_var x b 0 (dimC x) = sample_var x b"
  by (simp add: group_var_def sample_var_def group_mean_single lessThan_atLeast0)

lemma GroupNorm_single_value:
  assumes "dimB x * dimC x * (dimH x * dimW x) = 1"
  shows "GroupNorm_forward 1 n eps gamma beta x = Inl ValueError"
  using assms by (simp add: GroupNorm_forward_def)

lemma GroupNorm_single_group:
  assumes "dimC x = n" and "dimB x * n * (dimH x * dimW x) \<noteq> 1"
  shows "\<exists>y. GroupNorm_forward 1 n eps gamma beta x = Inr y
           \<and> same_dims y x
           \<and> (\<forall>b c h w. c < n \<longrightarrow>
                 elem y b c h w =
                   gamma c * ((elem x b c h w - sample_mean x b) / sqrt (sample_var x b + eps))
                     + beta c)"
  using assms group_mean_single [of x] group_var_single [of x]
  by (auto simp: GroupNorm_forward_def Let_def)

lemma LayerNormChannel_value:
  assumes "plen gamma = dimC x" and "plen beta = dimC x"
  shows "LayerNormChannel_forward gamma beta eps x =
           Inr (x\<lparr>elem := (\<lambda>b c h w.
                  pval gamma c * ((elem x b c h w - channel_mean x b h w)
                                    / sqrt (channel_var x b h w + eps))
                    + pval beta c)\<rparr>)"
  using assms
  by (simp add: LayerNormChannel_forward_def Let_def channel_mul_def channel_add_def
      channel_op_same add.commute)

lemma sample_var_nonneg: "0 \<le> sample_var x b"
  by (simp add: sample_var_def sum_nonneg)


lemma tensor_eq_elem:
  assumes "tensor_eq x y" and "b < dimB x" and "c < dimC x" and "h < dimH x" and "w < dimW x"
  shows "elem x b c h w = elem y b c h w"
  using assms by (simp add: tensor_eq_def)

lemma normalize_position_dims [simp]:
  "dimB (normalize_position g b x) = dimB x" "dimC (normalize_position g b x) = dimC x"
  "dimH (normalize_position g b x) = dimH x" "dimW (normalize_position g b x) = dimW x"
  by (simp_all add: normalize_position_def)

lemma two_pixels_dims [simp]:
  "dimB two_pixels = 1" "dimC two_pixels = 1" "dimH two_pixels = 1" "dimW two_pixels = 2"
  by (simp_all add: two_pixels_def)

lemma two_pixels_mean: "sample_mean two_pixels 0 = 1"
  by (simp add: sample_mean_def two_pixels_def numeral_2_eq_2)

lemma two_pixels_channel_mean: "channel_mean two_pixels 0 0 0 = 0"
  by (simp add: channel_mean_def two_pixels_def)

section \<open>The normalisation operators\<close>

text \<open>
  C5, as stated: every normalisation operator of the file uses a single mean and a
  single variance per sample, never statistics per position. \<open>LayerNormChannel\<close> does not: on
  a one-channel input each position is its own mean, so the output is 0 there, while the
  single-statistics operator gives a non-zero value.
\<close>

theorem single_statistics_counterexample:
  "\<exists>y. norm_forward (norm_layer_init LayerNormChannel_cls 1) two_pixels = Inr y
      \<and> \<not> tensor_eq y (normalize_sample (\<lambda>_. 1) (\<lambda>_. 0) two_pixels)"
proof -
  let ?y = "normalize_position (\<lambda>_. 1) (\<lambda>_. 0) two_pixels"
  have run: "norm_forward (norm_layer_init LayerNormChannel_cls 1) two_pixels = Inr ?y"
    using LayerNormChannel_value [of "full 1 1" two_pixels "full 1 0" "1 / 100000"]
    by (simp add: normalize_position_def full_def two_pixels_def)
  have here: "elem ?y 0 0 0 0 = 0"
    by (simp add: normalize_position_def two_pixels_channel_mean) (simp add: two_pixels_def)
  have "0 < sample_var two_pixels 0 + 1 / 100000"
    using sample_var_nonneg [of two_pixels 0] by simp
  then have "sqrt (sample_var two_pixels 0 + 1 / 100000) \<noteq> 0" by simp
  then have there: "elem (normalize_sample (\<lambda>_. 1) (\<lambda>_. 0) two_pixels) 0 0 0 0 \<noteq> 0"
    by (simp add: normalize_sample_def two_pixels_mean) (simp add: two_pixels_def)
  have "\<not> tensor_eq ?y (normalize_sample (\<lambda>_. 1) (\<lambda>_. 0) two_pixels)"
  proof
    assume "tensor_eq ?y (normalize_sample (\<lambda>_. 1) (\<lambda>_. 0) two_pixels)"
    then have "elem ?y 0 0 0 0 = elem (normalize_sample (\<lambda>_. 1) (\<lambda>_. 0) two_pixels) 0 0 0 0"
      by (rule tensor_eq_elem) simp_all
    with here there show False by simp
  qed
  with run show ?thesis by blast
qed

text \<open>
  C5, amended. \<open>GroupNorm\<close>, the default \<open>norm_layer\<close>, is the library's group
  normalisation with one group, \<open>eps = 1e-05\<close>. On an input with its channel count and
  with \<open>B * C * H * W\<close> other than 1 it normalises each sample with the mean and variance
  of the whole \<open>C x H x W\<close> volume, adds the epsilon before the square root and applies a
  scale and bias per channel; on an input with \<open>B * C * H * W = 1\<close> it raises
  \<open>ValueError\<close>. \<open>LayerNormChannel\<close> has the same epsilon and the same affine step, but
  takes mean and variance over the channel axis, per sample and position, and has no such
  check.
\<close>

theorem normalization_operators:
  assumes "dimC x = n"
  shows "norm_layer_init GroupNorm n = nn_GroupNorm 1 n (1 / 100000) (\<lambda>_. 1) (\<lambda>_. 0)
       \<and> (dimB x * n * (dimH x * dimW x) = 1 \<longrightarrow>
            norm_forward (nn_GroupNorm 1 n (1 / 100000) gamma beta) x = Inl ValueError)
       \<and> (dimB x * n * (dimH x * dimW x) \<noteq> 1 \<longrightarrow>
            (\<exists>y. norm_forward (nn_GroupNorm 1 n (1 / 100000) gamma beta) x = Inr y
               \<and> tensor_eq y (normalize_sample gamma beta x)))
       \<and> norm_layer_init LayerNormChannel_cls n
            = LayerNormChannel (full n 1) (full n 0) (1 / 100000)
       \<and> norm_forward (LayerNormChannel \<lparr>plen = n, pval = gamma\<rparr> \<lparr>plen = n, pval = beta\<rparr>
            (1 / 100000)) x = Inr (normalize_position gamma beta x)"
proof -
  have zeroth: "norm_forward (nn_GroupNorm 1 n (1 / 100000) gamma beta) x = Inl ValueError"
    if "dimB x * n * (dimH x * dimW x) = 1"
    using GroupNorm_single_value [of x n "1 / 100000" gamma beta] that assms by simp
  have first: "\<exists>y. norm_forward (nn_GroupNorm 1 n (1 / 100000) gamma beta) x = Inr y
      \<and> tensor_eq y (normalize_sample gamma beta x)"
    if ne: "dimB x * n * (dimH x * dimW x) \<noteq> 1"
  proof -
    from GroupNorm_single_group [OF assms ne, of "1 / 100000" gamma beta]
    obtain y where y: "GroupNorm_forward 1 n (1 / 100000) gamma beta x = Inr y" "same_dims y x"
        "\<forall>b c h w. c < n \<longrightarrow> elem y b c h w =
           gamma c * ((elem x b c h w - sample_mean x b) / sqrt (sample_var x b + 1 / 100000))
             + beta c"
      by blast
    have "tensor_eq y (normalize_sample gamma beta x)"
      using y(2,3) assms by (simp add: tensor_eq_def same_dims_def normalize_sample_def)
    with y(1) show ?thesis by simp
  qed
  have second: "norm_forward (LayerNormChannel \<lparr>plen = n, pval = gamma\<rparr> \<lparr>plen = n, pval = beta\<rparr>
      (1 / 100000)) x = Inr (normalize_position gamma beta x)"
    using LayerNormChannel_value [of "\<lparr>plen = n, pval = gamma\<rparr>" x "\<lparr>plen = n, pval = beta\<rparr>"]
      assms by (simp add: normalize_position_def)
  from zeroth first second show ?thesis by simp
qed

theorem normalization_operators_witness:
  "(\<exists>y. norm_forward (norm_layer_init GroupNorm 1) two_pixels = Inr y
       \<and> tensor_eq y (normalize_sample (\<lambda>_. 1) (\<lambda>_. 0) two_pixels))
   \<and> norm_forward (norm_layer_init GroupNorm 1) one_value = Inl ValueError
   \<and> norm_forward (norm_layer_init LayerNormChannel_cls 1) two_pixels
       = Inr (normalize_position (\<lambda>_. 1) (\<lambda>_. 0) two_pixels)"
proof -
  have c: "dimC two_pixels = 1" "dimC one_value = 1" by (simp_all add: two_pixels_def one_value_def)
  have d: "dimB two_pixels * 1 * (dimH two_pixels * dimW two_pixels) \<noteq> 1"
      "dimB one_value * 1 * (dimH one_value * dimW one_value) = 1"
    by (simp_all add: two_pixels_def one_value_def)
  from normalization_operators [OF c(1), of "\<lambda>_. 1" "\<lambda>_. 0"]
    normalization_operators [OF c(2), of "\<lambda>_. 1" "\<lambda>_. 0"] d
  show ?thesis
    by (simp add: full_def)
qed

section \<open>Facts about the backbone\<close>

lemma conv_ok_self:
  "conv_ok (in_channels cv) (out_channels cv) (kernel_size cv) (stride cv) (padding cv) cv"
  by (simp add: conv_ok_def)

lemma conv_out_pos [simp]: "0 < conv_out n k s p"
  by (simp add: conv_out_def)

lemma PatchEmbed_forward_ok:
  assumes "pe_norm pe = Identity_norm" and "dimC x = in_channels (pe_proj pe)"
    and "0 < kernel_size (pe_proj pe)" and "0 < stride (pe_proj pe)"
    and "kernel_size (pe_proj pe) \<le> dimH x + 2 * padding (pe_proj pe)"
    and "kernel_size (pe_proj pe) \<le> dimW x + 2 * padding (pe_proj pe)"
  shows "\<exists>y. PatchEmbed_forward pe x = Inr y \<and> dimB y = dimB x
           \<and> dimC y = out_channels (pe_proj pe)
           \<and> dimH y = conv_out (dimH x) (kernel_size (pe_proj pe)) (stride (pe_proj pe))
                         (padding (pe_proj pe))
           \<and> dimW y = conv_out (dimW x) (kernel_size (pe_proj pe)) (stride (pe_proj pe))
                         (padding (pe_proj pe))"
  using Conv2d_forward_ok [OF conv_ok_self assms(2-6)] assms(1)
  by (auto simp: PatchEmbed_forward_def)

lemma tokens_chain:
  assumes "chain_ok (dimB x) d net d'" and "dimC x = d" and "0 < dimH x" and "0 < dimW x"
    and "\<not> self_fork_feat m"
  shows "\<exists>y. tokens_loop m t rnd (enumerate i net) x outs = Inr (y, outs)
           \<and> dimC y = d' \<and> dimB y = dimB x \<and> 0 < dimH y \<and> 0 < dimW y"
  using assms(1-4)
proof (induction net arbitrary: d x i)
  case Nil
  then show ?case by simp
next
  case (Cons md net)
  show ?case
  proof (cases md)
    case (Sequential blocks)
    with Cons.prems have ok: "\<forall>blk\<in>set blocks. block_ok d blk" "0 < d"
        "chain_ok (dimB x) d net d'" "1 < dimB x * d"
      by simp_all
    from Sequential_forward_ok [OF ok(1) Cons.prems(2) ok(2) Cons.prems(3,4) ok(4)]
    obtain x1 where x1: "Sequential_forward blocks t (rnd i) 0 x = Inr x1" "same_dims x x1"
      by blast
    have d1: "dimC x1 = d" "0 < dimH x1" "0 < dimW x1" "dimB x1 = dimB x"
      using x1(2) Cons.prems by (simp_all add: same_dims_def)
    have ok3: "chain_ok (dimB x1) d net d'" using ok(3) d1(4) by simp
    from Cons.IH [OF ok3 d1(1-3), of "Suc i"] obtain y where
      "tokens_loop m t rnd (enumerate (Suc i) net) x1 outs = Inr (y, outs)"
      "dimC y = d'" "dimB y = dimB x1" "0 < dimH y" "0 < dimW y" by blast
    with x1 d1 Sequential assms(5) show ?thesis by simp
  next
    case (Downsample pe)
    with Cons.prems have ok: "pe_norm pe = Identity_norm" "in_channels (pe_proj pe) = d"
        "0 < kernel_size (pe_proj pe)" "0 < stride (pe_proj pe)"
        "kernel_size (pe_proj pe) \<le> 1 + 2 * padding (pe_proj pe)"
        "chain_ok (dimB x) (out_channels (pe_proj pe)) net d'"
      by simp_all
    have kh: "kernel_size (pe_proj pe) \<le> dimH x + 2 * padding (pe_proj pe)"
      and kw: "kernel_size (pe_proj pe) \<le> dimW x + 2 * padding (pe_proj pe)"
      using ok(5) Cons.prems(3,4) by simp_all
    have cx: "dimC x = in_channels (pe_proj pe)" using ok(2) Cons.prems(2) by simp
    from PatchEmbed_forward_ok [OF ok(1) cx ok(3,4) kh kw]
    obtain x1 where x1: "PatchEmbed_forward pe x = Inr x1" "dimB x1 = dimB x"
        "dimC x1 = out_channels (pe_proj pe)" "0 < dimH x1" "0 < dimW x1"
      by auto
    have ok6: "chain_ok (dimB x1) (out_channels (pe_proj pe)) net d'" using ok(6) x1(2) by simp
    from Cons.IH [OF ok6 x1(3-5), of "Suc i"] obtain y where
      "tokens_loop m t rnd (enumerate (Suc i) net) x1 outs = Inr (y, outs)"
      "dimC y = d'" "dimB y = dimB x1" "0 < dimH y" "0 < dimW y" by blast
    with x1 Downsample assms(5) show ?thesis by simp
  qed
qed


lemma stage_of_blocks_ok:
  assumes "stage_of a init i = Inr st" and "odd (pool_size a)"
  shows "\<forall>blk\<in>set st. block_ok (embed_dims a ! i) blk"
proof -
  from assms(1) have ok: "i < length (layers a)" "i < length (embed_dims a)"
      "i < length (mlp_ratios a)" "stage_good a i"
    using stage_of_succeeds_iff [of a init i] by auto
  have v: "basic_blocks (embed_dims a ! i) i (layers a) (pool_size a) (mlp_ratios a ! i)
      (act_layer a) (norm_layer a) (drop_rate a) (drop_path_rate a) (use_layer_scale a)
      (layer_scale_init_value a) init = Inr st"
    using assms(1) stage_of_value [OF ok(2,3), of init] by simp
  have "layers a ! i = 0 \<or> (sum_list (layers a) \<noteq> 1
      \<and> 0 \<le> py_int (real (embed_dims a ! i) * mlp_ratios a ! i)
      \<and> 0 \<le> drop_rate a \<and> drop_rate a \<le> 1)"
    using ok(4) by (simp add: stage_good_def)
  from basic_blocks_ok [OF ok(1) this, of "pool_size a" "act_layer a" "norm_layer a"
      "drop_path_rate a" "use_layer_scale a" "layer_scale_init_value a" init]
  show ?thesis using v assms(2) by auto
qed

lemma network_chain:
  assumes odd: "odd (pool_size a)"
    and pos: "\<forall>j<length (layers a). 0 < embed_dims a ! j"
    and sv: "\<forall>j<length (layers a). 1 < n * embed_dims a ! j"
    and down: "0 < down_patch_size a" "0 < down_stride a"
      "down_patch_size a \<le> 1 + 2 * down_pad a"
    and "i < length (layers a)"
    and "network_loop a init [i..<length (layers a)] = Inr net"
  shows "chain_ok n (embed_dims a ! i) net (embed_dims a ! (length (layers a) - 1))"
  using assms(7,8)
proof (induction "length (layers a) - i" arbitrary: i net)
  case 0
  then show ?case by simp
next
  case (Suc k)
  have di: "0 < embed_dims a ! i" "1 < n * embed_dims a ! i" using pos sv Suc.prems(1) by simp_all
  show ?case
  proof (cases "Suc i < length (layers a)")
    case True
    from Suc.prems(2) obtain st dn more where parts: "stage_of a init i = Inr st"
        "downsampling a init i = Inr dn"
        "network_loop a init [Suc i..<length (layers a)] = Inr more"
        "net = Sequential st # dn @ more"
      unfolding network_loop_step [OF True] by (auto simp: ebind_eq_Inr)
    have st: "\<forall>blk\<in>set st. block_ok (embed_dims a ! i) blk"
      using stage_of_blocks_ok [OF parts(1) odd] .
    have "k = length (layers a) - Suc i" using Suc.hyps(2) by simp
    from Suc.hyps(1) [OF this True parts(3)]
    have rest: "chain_ok n (embed_dims a ! Suc i) more (embed_dims a ! (length (layers a) - 1))" .
    from parts(2) have idx: "i < length (downsamples a)" "i + 1 < length (embed_dims a)"
      using downsampling_succeeds_iff [of a init i] by auto
    show ?thesis
    proof (cases "downsamples a ! i \<or> embed_dims a ! i \<noteq> embed_dims a ! (i + 1)")
      case True
      then have "dn = [Downsample (PatchEmbed_init (down_patch_size a) (down_stride a) (down_pad a)
          (embed_dims a ! i) (embed_dims a ! (i + 1)) None (init [i, 0]) (\<lambda>c. init [i, 1] c 0 0 0))]"
        using parts(2) downsampling_value [OF idx, of init] by simp
      then show ?thesis
        using parts(4) st di rest down by (simp add: PatchEmbed_init_def)
    next
      case False
      then have "dn = []" "embed_dims a ! i = embed_dims a ! Suc i"
        using parts(2) downsampling_value [OF idx, of init] by simp_all
      then show ?thesis using parts(4) st di rest by simp
    qed
  next
    case False
    with Suc.prems(1) have last: "Suc i = length (layers a)" by simp
    from Suc.prems(2) obtain st where parts: "stage_of a init i = Inr st"
        "net = [Sequential st]"
      unfolding network_loop_last [OF last] by (auto simp: ebind_eq_Inr)
    have st: "\<forall>blk\<in>set st. block_ok (embed_dims a ! i) blk"
      using stage_of_blocks_ok [OF parts(1) odd] .
    have "length (layers a) - 1 = i" using last by simp
    with parts(2) st di show ?thesis by simp
  qed
qed


lemma backbone_ok:
  assumes init: "PoolFormer_init v init a = Inr m" and nf: "\<not> fork_feat a"
    and ne: "layers a \<noteq> []" and odd: "odd (pool_size a)"
    and pos: "\<forall>j<length (layers a). 0 < embed_dims a ! j"
    and stem: "0 < in_patch_size a" "0 < in_stride a"
      "in_patch_size a \<le> dimH x + 2 * in_pad a" "in_patch_size a \<le> dimW x + 2 * in_pad a"
    and down: "0 < down_patch_size a" "0 < down_stride a"
      "down_patch_size a \<le> 1 + 2 * down_pad a"
    and cx: "dimC x = 3"
    and sv: "\<forall>j<length (layers a). 1 < dimB x * embed_dims a ! j"
  shows "\<exists>x1 x2. forward_embeddings m x = Inr x1
           \<and> forward_tokens m training rnd x1 = Inr (Last x2)
           \<and> dimB x2 = dimB x \<and> dimC x2 = embed_dims a ! (length (layers a) - 1)
           \<and> 0 < dimH x2 \<and> 0 < dimW x2"
proof -
  note attrs = PoolFormer_init_attrs [OF init]
  have nfm: "\<not> self_fork_feat m" using attrs(2) nf by simp
  let ?pe = "self_patch_embed m"
  have pe: "pe_norm ?pe = Identity_norm" "in_channels (pe_proj ?pe) = 3"
      "out_channels (pe_proj ?pe) = embed_dims a ! 0"
      "kernel_size (pe_proj ?pe) = in_patch_size a" "stride (pe_proj ?pe) = in_stride a"
      "padding (pe_proj ?pe) = in_pad a"
    unfolding attrs(4) by (simp_all add: PatchEmbed_init_def)
  have "\<exists>y. PatchEmbed_forward ?pe x = Inr y \<and> dimB y = dimB x
      \<and> dimC y = out_channels (pe_proj ?pe)
      \<and> dimH y = conv_out (dimH x) (kernel_size (pe_proj ?pe)) (stride (pe_proj ?pe))
                    (padding (pe_proj ?pe))
      \<and> dimW y = conv_out (dimW x) (kernel_size (pe_proj ?pe)) (stride (pe_proj ?pe))
                    (padding (pe_proj ?pe))"
    using stem cx pe by (intro PatchEmbed_forward_ok) simp_all
  then obtain x1 where x1: "PatchEmbed_forward ?pe x = Inr x1" "dimB x1 = dimB x"
      "dimC x1 = embed_dims a ! 0" "0 < dimH x1" "0 < dimW x1"
    using pe(3) by auto
  have n0: "0 < length (layers a)" using ne by simp
  have chain: "chain_ok (dimB x1) (embed_dims a ! 0) (self_network m)
      (embed_dims a ! (length (layers a) - 1))"
    using network_chain [OF odd pos sv down n0 attrs(3)] x1(2) by simp
  from tokens_chain [OF chain x1(3-5) nfm, of training rnd 0 "[]"]
  obtain x2 where x2: "tokens_loop m training rnd (enumerate 0 (self_network m)) x1 [] = Inr (x2, [])"
      "dimC x2 = embed_dims a ! (length (layers a) - 1)" "dimB x2 = dimB x1"
      "0 < dimH x2" "0 < dimW x2"
    by blast
  have "forward_tokens m training rnd x1 = Inr (Last x2)"
    using x2(1) nfm by (simp add: forward_tokens_def)
  with x1 x2 show ?thesis by (auto simp: forward_embeddings_def)
qed

section \<open>Classification mode\<close>

text \<open>
  C7. For a model constructed in classification mode from lists of equal length, an odd
  pool size, positive channel counts and kernels that fit the input, the forward pass on
  a non-empty 3-channel input that leaves every normalisation more than one value (\<open>B * e > 1\<close> for
  every embedding dimension \<open>e\<close>; the group normalisation raises \<open>ValueError\<close> on a
  single value) succeeds in both modes and for all random draws: it is the patch
  embedding, the stages, the final normalisation over \<open>embed_dims[-1]\<close> channels, the mean
  over the two spatial axes and the head. The result has shape \<open>[B, num_classes]\<close>; with
  \<open>num_classes = 0\<close> the head is the identity and the result is the pooled features, of
  shape \<open>[B, embed_dims[-1]]\<close>.
\<close>

theorem classification_forward:
  assumes init: "PoolFormer_init v init a = Inr m" and nf: "\<not> fork_feat a"
    and ne: "layers a \<noteq> []" and len: "length (embed_dims a) = length (layers a)"
    and odd: "odd (pool_size a)" and pos: "\<forall>e\<in>set (embed_dims a). 0 < e"
    and stem: "0 < in_patch_size a" "0 < in_stride a"
      "in_patch_size a \<le> dimH x + 2 * in_pad a" "in_patch_size a \<le> dimW x + 2 * in_pad a"
    and down: "0 < down_patch_size a" "0 < down_stride a"
      "down_patch_size a \<le> 1 + 2 * down_pad a"
    and cx: "dimC x = 3" and sv: "\<forall>e\<in>set (embed_dims a). 1 < dimB x * e"
    and nonempty: "0 < dimH x" "0 < dimW x"
  shows "\<exists>x1 x2 x3 lg.
           forward_embeddings m x = Inr x1
         \<and> forward_tokens m training rnd x1 = Inr (Last x2)
         \<and> norm_forward (norm_layer_init (norm_layer a) (last (embed_dims a))) x2 = Inr x3
         \<and> head_forward
              (if num_classes a > 0
               then Linear (last (embed_dims a)) (num_classes a) (\<lambda>j i. init [] j i 0 0) (\<lambda>_. 0)
               else Identity_head) (mean_hw x3) = Inr lg
         \<and> forward m training rnd x = Inr (Logits lg)
         \<and> rows lg = dimB x
         \<and> cols lg = (if num_classes a > 0 then num_classes a else last (embed_dims a))
         \<and> (num_classes a = 0 \<longrightarrow> self_head m = Some Identity_head \<and> lg = mean_hw x3)"
proof -
  note attrs = PoolFormer_init_attrs [OF init]
  have pos': "\<forall>j<length (layers a). 0 < embed_dims a ! j"
    using pos len by simp
  have sv': "\<forall>j<length (layers a). 1 < dimB x * embed_dims a ! j"
    using sv len by simp
  from backbone_ok [OF init nf ne odd pos' stem down cx sv', of training rnd]
  obtain x1 x2 where b: "forward_embeddings m x = Inr x1"
      "forward_tokens m training rnd x1 = Inr (Last x2)"
      "dimB x2 = dimB x" "dimC x2 = embed_dims a ! (length (layers a) - 1)"
    by blast
  have "embed_dims a \<noteq> []" using ne len by auto
  then have lastd: "last (embed_dims a) = embed_dims a ! (length (layers a) - 1)"
    using len by (simp add: last_conv_nth)
  let ?nl = "norm_layer_init (norm_layer a) (last (embed_dims a))"
  let ?head = "if num_classes a > 0
      then Linear (last (embed_dims a)) (num_classes a) (\<lambda>j i. init [] j i 0 0) (\<lambda>_. 0)
      else Identity_head"
  have c2: "dimC x2 = last (embed_dims a)" using b(4) lastd by simp
  have s2: "1 < dimB x2 * last (embed_dims a)"
    using sv \<open>embed_dims a \<noteq> []\<close> b(3) by simp
  from norm_forward_ok [OF norm_layer_init_ok c2 s2, of "norm_layer a"]
  obtain x3 where x3: "norm_forward ?nl x2 = Inr x3" "same_dims x2 x3" by blast
  have mh: "rows (mean_hw x3) = dimB x" "cols (mean_hw x3) = last (embed_dims a)"
    using x3(2) b(3,4) lastd by (simp_all add: mean_hw_def same_dims_def)
  obtain lg where lg: "head_forward ?head (mean_hw x3) = Inr lg" "rows lg = dimB x"
      "cols lg = (if num_classes a > 0 then num_classes a else last (embed_dims a))"
      "num_classes a = 0 \<longrightarrow> lg = mean_hw x3"
    using mh by (cases "num_classes a > 0") simp_all
  have run: "forward m training rnd x = Inr (Logits lg)"
    using b(1,2) x3(1) lg(1) attrs(5) [OF nf] attrs(6) [OF nf]
    by (simp add: forward_def getattr_def)
  have "num_classes a = 0 \<longrightarrow> self_head m = Some Identity_head"
    using attrs(6) [OF nf] by simp
  with lg(4) have e: "num_classes a = 0 \<longrightarrow> self_head m = Some Identity_head \<and> lg = mean_hw x3"
    by simp
  have "forward_embeddings m x = Inr x1
      \<and> forward_tokens m training rnd x1 = Inr (Last x2)
      \<and> norm_forward ?nl x2 = Inr x3
      \<and> head_forward ?head (mean_hw x3) = Inr lg
      \<and> forward m training rnd x = Inr (Logits lg)
      \<and> rows lg = dimB x
      \<and> cols lg = (if num_classes a > 0 then num_classes a else last (embed_dims a))
      \<and> (num_classes a = 0 \<longrightarrow> self_head m = Some Identity_head \<and> lg = mean_hw x3)"
    using b(1,2) x3(1) lg(1,2,3) run e by (intro conjI)
  then show ?thesis by - ((rule exI)+, assumption)
qed

theorem classification_forward_witness:
  "\<exists>m lg. PoolFormer_init None zero_init (poolformer_s12 (\<lambda>v. v)) = Inr m
     \<and> forward m False (\<lambda>_ _. keep_all) small_image = Inr (Logits lg)
     \<and> rows lg = 1 \<and> cols lg = 1000"
proof -
  let ?a = "poolformer_s12 (\<lambda>v. v)"
  obtain m where m: "PoolFormer_init None zero_init ?a = Inr m"
    using PoolFormer_init_succeeds_iff s12_ok by blast
  have h: "\<not> fork_feat ?a" "layers ?a \<noteq> []" "length (embed_dims ?a) = length (layers ?a)"
      "odd (pool_size ?a)" "\<forall>e\<in>set (embed_dims ?a). 0 < e"
      "0 < in_patch_size ?a" "0 < in_stride ?a"
      "in_patch_size ?a \<le> dimH small_image + 2 * in_pad ?a"
      "in_patch_size ?a \<le> dimW small_image + 2 * in_pad ?a"
      "0 < down_patch_size ?a" "0 < down_stride ?a" "down_patch_size ?a \<le> 1 + 2 * down_pad ?a"
      "dimC small_image = 3" "\<forall>e\<in>set (embed_dims ?a). 1 < dimB small_image * e"
      "0 < dimH small_image" "0 < dimW small_image"
    by (simp_all add: poolformer_s12_def default_args_def small_image_def)
  from classification_forward [OF m h, of False "\<lambda>_ _. keep_all"]
  obtain lg where "forward m False (\<lambda>_ _. keep_all) small_image = Inr (Logits lg)"
      "rows lg = dimB small_image"
      "cols lg = (if num_classes ?a > 0 then num_classes ?a else last (embed_dims ?a))"
    by blast
  then have "forward m False (\<lambda>_ _. keep_all) small_image = Inr (Logits lg)"
      "rows lg = 1" "cols lg = 1000"
    by (simp_all add: poolformer_s12_def default_args_def small_image_def)
  with m show ?thesis by blast
qed

section \<open>Facts about the feature-pyramid mode\<close>

text \<open>
  With the default patch parameters the stem divides both spatial sizes by 4 and each
  downsampling embedding by 2. \<open>pyramid\<close> follows the loop of \<open>forward_tokens\<close> over a
  network of four stages with a downsampling embedding after each of the first three;
  \<open>no_downsampler_two_maps\<close> follows it over a network of four stages without any.
\<close>

lemma conv_out_stem:
  assumes "4 dvd n" and "0 < n"
  shows "conv_out n 7 4 2 = n div 4"
proof -
  from assms obtain q where q: "n = 4 * q" "0 < q" by (auto elim: dvdE)
  then obtain r where r: "q = Suc r" by (cases q) auto
  show ?thesis by (simp add: conv_out_def q(1) r)
qed

lemma conv_out_down:
  assumes "2 dvd n" and "0 < n"
  shows "conv_out n 3 2 1 = n div 2"
proof -
  from assms obtain q where q: "n = 2 * q" "0 < q" by (auto elim: dvdE)
  then obtain r where r: "q = Suc r" by (cases q) auto
  show ?thesis by (simp add: conv_out_def q(1) r)
qed

lemma tokens_step_out:
  assumes "self_fork_feat m" and "self_out_indices m = Some ois" and "idx \<in> set ois"
    and "map_of (self_norms m) idx = Some nl"
    and "module_forward md training (rnd idx) x = Inr x'"
    and "norm_forward nl x' = Inr y"
  shows "tokens_loop m training rnd ((idx, md) # rest) x outs =
           tokens_loop m training rnd rest x' (outs @ [y])"
  using assms by (simp add: getattr_def)

lemma tokens_step_skip:
  assumes "self_fork_feat m" and "self_out_indices m = Some ois" and "idx \<notin> set ois"
    and "module_forward md training (rnd idx) x = Inr x'"
  shows "tokens_loop m training rnd ((idx, md) # rest) x outs =
           tokens_loop m training rnd rest x' outs"
  using assms by (simp add: getattr_def)

lemma enumerate_seven:
  "enumerate 0 [m0, m1, m2, m3, m4, m5, m6] =
     [(0, m0), (1, m1), (2, m2), (3, m3), (4, m4), (5, m5), (6, m6)]"
  by (simp add: eval_nat_numeral)

lemma PoolFormer_init_fork_attrs:
  assumes "PoolFormer_init v init a = Inr m" and "fork_feat a"
  shows "self_out_indices m = Some [0, 2, 4, 6]"
    and "out_norms v a [0, 2, 4, 6] = Inr (self_norms m)"
  using assms
  by (auto simp: PoolFormer_init_def Let_def ebind_eq_Inr)

lemma network_loop_step_parts:
  assumes "Suc i < length (layers a)"
    and "network_loop a init [i..<length (layers a)] = Inr net"
  shows "\<exists>st dn more. stage_of a init i = Inr st \<and> downsampling a init i = Inr dn
           \<and> network_loop a init [Suc i..<length (layers a)] = Inr more
           \<and> net = Sequential st # dn @ more"
  using assms(2) unfolding network_loop_step [OF assms(1)] by (auto simp: ebind_eq_Inr)

lemma network_loop_last_parts:
  assumes "Suc i = length (layers a)"
    and "network_loop a init [i..<length (layers a)] = Inr net"
  shows "\<exists>st. stage_of a init i = Inr st \<and> net = [Sequential st]"
  using assms(2) unfolding network_loop_last [OF assms(1)] by (auto simp: ebind_eq_Inr)

lemma network_four:
  assumes "length (layers a) = 4"
    and "network_loop a init [0..<length (layers a)] = Inr net"
  shows "\<exists>s0 d0 s1 d1 s2 d2 s3.
           stage_of a init 0 = Inr s0 \<and> downsampling a init 0 = Inr d0
         \<and> stage_of a init 1 = Inr s1 \<and> downsampling a init 1 = Inr d1
         \<and> stage_of a init 2 = Inr s2 \<and> downsampling a init 2 = Inr d2
         \<and> stage_of a init 3 = Inr s3
         \<and> net = Sequential s0 # d0 @ Sequential s1 # d1 @ Sequential s2 # d2 @ [Sequential s3]"
proof -
  have lt: "Suc 0 < length (layers a)" "Suc (Suc 0) < length (layers a)"
      "Suc (Suc (Suc 0)) < length (layers a)"
    and last: "Suc (Suc (Suc (Suc 0))) = length (layers a)"
    using assms(1) by simp_all
  from network_loop_step_parts [OF lt(1) assms(2)]
  obtain s0 d0 n1 where a0: "stage_of a init 0 = Inr s0"
      "downsampling a init 0 = Inr d0" "network_loop a init [Suc 0..<length (layers a)] = Inr n1"
      "net = Sequential s0 # d0 @ n1"
    by blast
  from network_loop_step_parts [OF lt(2) a0(3)]
  obtain s1 d1 n2 where a1: "stage_of a init (Suc 0) = Inr s1"
      "downsampling a init (Suc 0) = Inr d1"
      "network_loop a init [Suc (Suc 0)..<length (layers a)] = Inr n2"
      "n1 = Sequential s1 # d1 @ n2"
    by blast
  from network_loop_step_parts [OF lt(3) a1(3)]
  obtain s2 d2 n3 where a2: "stage_of a init (Suc (Suc 0)) = Inr s2"
      "downsampling a init (Suc (Suc 0)) = Inr d2"
      "network_loop a init [Suc (Suc (Suc 0))..<length (layers a)] = Inr n3"
      "n2 = Sequential s2 # d2 @ n3"
    by blast
  from network_loop_last_parts [OF last a2(3)]
  obtain s3 where a3: "stage_of a init (Suc (Suc (Suc 0))) = Inr s3" "n3 = [Sequential s3]"
    by blast
  have n: "(1::nat) = Suc 0" "(2::nat) = Suc (Suc 0)" "(3::nat) = Suc (Suc (Suc 0))"
    by simp_all
  from a0 a1 a2 a3 show ?thesis unfolding n by simp
qed


lemma stem_step:
  assumes "dimC x = 3" and "4 dvd dimH x" and "0 < dimH x" and "4 dvd dimW x" and "0 < dimW x"
  shows "\<exists>x0. PatchEmbed_forward (PatchEmbed_init 7 4 2 3 d None w b) x = Inr x0
           \<and> dimB x0 = dimB x \<and> dimC x0 = d
           \<and> dimH x0 = dimH x div 4 \<and> dimW x0 = dimW x div 4"
proof -
  let ?pe = "PatchEmbed_init 7 4 2 3 d None w b"
  have pe: "pe_norm ?pe = Identity_norm" "in_channels (pe_proj ?pe) = 3"
      "out_channels (pe_proj ?pe) = d" "kernel_size (pe_proj ?pe) = 7"
      "stride (pe_proj ?pe) = 4" "padding (pe_proj ?pe) = 2"
    by (simp_all add: PatchEmbed_init_def)
  have "4 \<le> dimH x" "4 \<le> dimW x"
    using assms(2-5) by (auto dest: dvd_imp_le)
  then have k: "0 < kernel_size (pe_proj ?pe)" "0 < stride (pe_proj ?pe)"
      "kernel_size (pe_proj ?pe) \<le> dimH x + 2 * padding (pe_proj ?pe)"
      "kernel_size (pe_proj ?pe) \<le> dimW x + 2 * padding (pe_proj ?pe)"
    unfolding pe by simp_all
  have c: "dimC x = in_channels (pe_proj ?pe)" unfolding pe using assms(1) .
  from PatchEmbed_forward_ok [OF pe(1) c k]
  show ?thesis
    unfolding pe conv_out_stem [OF assms(2,3)] conv_out_stem [OF assms(4,5)] .
qed

lemma down_step:
  assumes "dimC t = d" and "2 dvd dimH t" and "0 < dimH t" and "2 dvd dimW t" and "0 < dimW t"
  shows "\<exists>u. PatchEmbed_forward (PatchEmbed_init 3 2 1 d d' None w b) t = Inr u
           \<and> dimB u = dimB t \<and> dimC u = d'
           \<and> dimH u = dimH t div 2 \<and> dimW u = dimW t div 2"
proof -
  let ?pe = "PatchEmbed_init 3 2 1 d d' None w b"
  have pe: "pe_norm ?pe = Identity_norm" "in_channels (pe_proj ?pe) = d"
      "out_channels (pe_proj ?pe) = d'" "kernel_size (pe_proj ?pe) = 3"
      "stride (pe_proj ?pe) = 2" "padding (pe_proj ?pe) = 1"
    by (simp_all add: PatchEmbed_init_def)
  have k: "0 < kernel_size (pe_proj ?pe)" "0 < stride (pe_proj ?pe)"
      "kernel_size (pe_proj ?pe) \<le> dimH t + 2 * padding (pe_proj ?pe)"
      "kernel_size (pe_proj ?pe) \<le> dimW t + 2 * padding (pe_proj ?pe)"
    unfolding pe using assms(3,5) by simp_all
  have c: "dimC t = in_channels (pe_proj ?pe)" unfolding pe using assms(1) .
  from PatchEmbed_forward_ok [OF pe(1) c k]
  show ?thesis
    unfolding pe conv_out_down [OF assms(2,3)] conv_out_down [OF assms(4,5)] .
qed

lemma stage_step:
  assumes "\<forall>blk\<in>set st. block_ok d blk" and "dimC x = d" and "0 < d"
    and "0 < dimH x" and "0 < dimW x" and "norm_ok d nl" and "1 < dimB x * d"
  shows "\<exists>t y. Sequential_forward st training r 0 x = Inr t \<and> same_dims x t
           \<and> norm_forward nl t = Inr y \<and> same_dims x y"
proof -
  from Sequential_forward_ok [OF assms(1-5,7)]
  obtain t where t: "Sequential_forward st training r 0 x = Inr t" "same_dims x t" by blast
  have "dimC t = d" "1 < dimB t * d" using t(2) assms(2,7) by (simp_all add: same_dims_def)
  from norm_forward_ok [OF assms(6) this]
  obtain y where y: "norm_forward nl t = Inr y" "same_dims t y" by blast
  have "same_dims x y" using t(2) y(2) by (rule same_dims_trans)
  with t y show ?thesis by blast
qed

lemma norm_ok_identity [simp]: "norm_ok d Identity_norm"
  by (simp add: norm_ok_def)


lemma same_dims_shape:
  assumes "same_dims x y" and "has_shape x b c h w"
  shows "has_shape y b c h w"
  using assms by (simp add: same_dims_def has_shape_def)

lemma stem_step_shape:
  assumes "dimC x = 3" and "dimH x = 4 * h" and "dimW x = 4 * w" and "0 < h" and "0 < w"
  shows "\<exists>x0. PatchEmbed_forward (PatchEmbed_init 7 4 2 3 d None wt bs) x = Inr x0
           \<and> has_shape x0 (dimB x) d h w"
proof -
  have "4 dvd dimH x" "0 < dimH x" "4 dvd dimW x" "0 < dimW x" using assms by simp_all
  from stem_step [OF assms(1) this, of d wt bs] show ?thesis
    unfolding has_shape_def assms(2,3) by simp
qed

lemma down_step_shape:
  assumes "has_shape t b d h2 w2" and "h2 = 2 * h" and "w2 = 2 * w" and "0 < h" and "0 < w"
  shows "\<exists>u. PatchEmbed_forward (PatchEmbed_init 3 2 1 d d' None wt bs) t = Inr u
           \<and> has_shape u b d' h w"
proof -
  have t: "dimB t = b" "dimC t = d" "dimH t = 2 * h" "dimW t = 2 * w"
    using assms(1-3) by (simp_all add: has_shape_def)
  have "2 dvd dimH t" "0 < dimH t" "2 dvd dimW t" "0 < dimW t" using t assms(4,5) by simp_all
  from down_step [OF t(2) this, of d' wt bs] show ?thesis
    unfolding has_shape_def t by simp
qed

lemma stage_step_shape:
  assumes "\<forall>blk\<in>set st. block_ok d blk" and "has_shape x b d h w" and "0 < d"
    and "0 < h" and "0 < w" and "norm_ok d nl" and "1 < b * d"
  shows "\<exists>t y. Sequential_forward st training r 0 x = Inr t \<and> norm_forward nl t = Inr y
           \<and> has_shape t b d h w \<and> has_shape y b d h w"
proof -
  have x: "dimC x = d" "0 < dimH x" "0 < dimW x" "1 < dimB x * d"
    using assms(2,4,5,7) by (simp_all add: has_shape_def)
  from stage_step [OF assms(1) x(1) assms(3) x(2,3) assms(6) x(4), of training r]
  obtain t y where "Sequential_forward st training r 0 x = Inr t" "same_dims x t"
      "norm_forward nl t = Inr y" "same_dims x y" by blast
  then show ?thesis using same_dims_shape assms(2) by blast
qed

lemma pyramid:
  assumes init: "PoolFormer_init v init a = Inr m" and fork: "fork_feat a"
    and len: "length (layers a) = 4" "length (embed_dims a) = 4"
    and dsc: "\<forall>i<3. downsamples a ! i \<or> embed_dims a ! i \<noteq> embed_dims a ! (i + 1)"
    and odd: "odd (pool_size a)" and pos: "\<forall>e\<in>set (embed_dims a). 0 < e"
    and patch: "in_patch_size a = 7" "in_stride a = 4" "in_pad a = 2"
      "down_patch_size a = 3" "down_stride a = 2" "down_pad a = 1"
    and cx: "dimC x = 3" and hw: "32 dvd dimH x" "32 dvd dimW x" "0 < dimH x" "0 < dimW x"
    and sv: "\<forall>e\<in>set (embed_dims a). 1 < dimB x * e"
    and n0: "n0 = (if env_set v then Identity_norm
                   else norm_layer_init (norm_layer a) (embed_dims a ! 0))"
  shows "\<exists>s0 p0 s1 p1 s2 p2 s3 x0 t0 u0 t1 u1 t2 u2 t3 y0 y1 y2 y3.
       self_network m = [Sequential s0, Downsample p0, Sequential s1, Downsample p1,
                         Sequential s2, Downsample p2, Sequential s3]
     \<and> self_out_indices m = Some [0, 2, 4, 6]
     \<and> self_norms m = [(0, n0), (2, norm_layer_init (norm_layer a) (embed_dims a ! 1)),
                       (4, norm_layer_init (norm_layer a) (embed_dims a ! 2)),
                       (6, norm_layer_init (norm_layer a) (embed_dims a ! 3))]
     \<and> forward_embeddings m x = Inr x0
     \<and> Sequential_forward s0 training (rnd 0) 0 x0 = Inr t0
     \<and> norm_forward n0 t0 = Inr y0
     \<and> PatchEmbed_forward p0 t0 = Inr u0
     \<and> Sequential_forward s1 training (rnd 2) 0 u0 = Inr t1
     \<and> norm_forward (norm_layer_init (norm_layer a) (embed_dims a ! 1)) t1 = Inr y1
     \<and> PatchEmbed_forward p1 t1 = Inr u1
     \<and> Sequential_forward s2 training (rnd 4) 0 u1 = Inr t2
     \<and> norm_forward (norm_layer_init (norm_layer a) (embed_dims a ! 2)) t2 = Inr y2
     \<and> PatchEmbed_forward p2 t2 = Inr u2
     \<and> Sequential_forward s3 training (rnd 6) 0 u2 = Inr t3
     \<and> norm_forward (norm_layer_init (norm_layer a) (embed_dims a ! 3)) t3 = Inr y3
     \<and> forward m training rnd x = Inr (Features [y0, y1, y2, y3])
     \<and> has_shape y0 (dimB x) (embed_dims a ! 0) (dimH x div 4) (dimW x div 4)
     \<and> has_shape y1 (dimB x) (embed_dims a ! 1) (dimH x div 8) (dimW x div 8)
     \<and> has_shape y2 (dimB x) (embed_dims a ! 2) (dimH x div 16) (dimW x div 16)
     \<and> has_shape y3 (dimB x) (embed_dims a ! 3) (dimH x div 32) (dimW x div 32)"
proof -
  note attrs = PoolFormer_init_attrs [OF init]
  note fattrs = PoolFormer_init_fork_attrs [OF init fork]
  let ?nl = "\<lambda>i. norm_layer_init (norm_layer a) (embed_dims a ! i)"
  let ?e = "\<lambda>i. embed_dims a ! i"
  have ff: "self_fork_feat m" using attrs(2) fork by simp
  have e: "0 < ?e 0" "0 < ?e 1" "0 < ?e 2" "0 < ?e 3"
    using pos len(2) by simp_all
  have se: "1 < dimB x * ?e 0" "1 < dimB x * ?e 1" "1 < dimB x * ?e 2" "1 < dimB x * ?e 3"
    using sv len(2) by simp_all
  have norms: "self_norms m = [(0, n0), (2, ?nl 1), (4, ?nl 2), (6, ?nl 3)]"
    using out_norms_value [of a v] fattrs(2) len(2) n0 by simp
  have look: "map_of (self_norms m) 0 = Some n0" "map_of (self_norms m) 2 = Some (?nl 1)"
      "map_of (self_norms m) 4 = Some (?nl 2)" "map_of (self_norms m) 6 = Some (?nl 3)"
    unfolding norms by simp_all
  have nok: "norm_ok (?e 0) n0" unfolding n0 by simp
  from network_four [OF len(1) attrs(3)]
  obtain s0 d0 s1 d1 s2 d2 s3 where st: "stage_of a init 0 = Inr s0" "stage_of a init 1 = Inr s1"
      "stage_of a init 2 = Inr s2" "stage_of a init 3 = Inr s3"
    and dn: "downsampling a init 0 = Inr d0" "downsampling a init 1 = Inr d1"
      "downsampling a init 2 = Inr d2"
    and net: "self_network m =
      Sequential s0 # d0 @ Sequential s1 # d1 @ Sequential s2 # d2 @ [Sequential s3]"
    by blast
  have bl: "\<forall>blk\<in>set s0. block_ok (?e 0) blk" "\<forall>blk\<in>set s1. block_ok (?e 1) blk"
      "\<forall>blk\<in>set s2. block_ok (?e 2) blk" "\<forall>blk\<in>set s3. block_ok (?e 3) blk"
    using st stage_of_blocks_ok odd by blast+
  let ?p0 = "PatchEmbed_init 3 2 1 (?e 0) (?e 1) None (init [0, 0]) (\<lambda>c. init [0, 1] c 0 0 0)"
  let ?p1 = "PatchEmbed_init 3 2 1 (?e 1) (?e 2) None (init [1, 0]) (\<lambda>c. init [1, 1] c 0 0 0)"
  let ?p2 = "PatchEmbed_init 3 2 1 (?e 2) (?e 3) None (init [2, 0]) (\<lambda>c. init [2, 1] c 0 0 0)"
  have dv: "d = [Downsample (PatchEmbed_init 3 2 1 (?e i) (?e (i + 1)) None (init [i, 0])
      (\<lambda>c. init [i, 1] c 0 0 0))]" if "downsampling a init i = Inr d" "i < 3" for i d
  proof -
    from that(1) have idx: "i < length (downsamples a)" "i + 1 < length (embed_dims a)"
      using downsampling_succeeds_iff [of a init i] by auto
    show ?thesis
      using that downsampling_value [OF idx, of init] dsc patch by simp
  qed
  have d0: "d0 = [Downsample ?p0]"
    using dv [OF dn(1)] by (simp add: numeral_2_eq_2 numeral_3_eq_3)
  have d1: "d1 = [Downsample ?p1]"
    using dv [OF dn(2)] by (simp add: numeral_2_eq_2 numeral_3_eq_3)
  have d2: "d2 = [Downsample ?p2]"
    using dv [OF dn(3)] by (simp add: numeral_2_eq_2 numeral_3_eq_3)
  have net': "self_network m = [Sequential s0, Downsample ?p0, Sequential s1,
      Downsample ?p1, Sequential s2, Downsample ?p2, Sequential s3]"
    unfolding net d0 d1 d2 by simp
  from hw obtain qh qw where q: "dimH x = 32 * qh" "dimW x = 32 * qw" "0 < qh" "0 < qw"
    by (auto elim!: dvdE)
  have q4: "dimH x = 4 * (8 * qh)" "dimW x = 4 * (8 * qw)" "0 < 8 * qh" "0 < 8 * qw"
    and q8: "8 * qh = 2 * (4 * qh)" "8 * qw = 2 * (4 * qw)" "0 < 4 * qh" "0 < 4 * qw"
    and q16: "4 * qh = 2 * (2 * qh)" "4 * qw = 2 * (2 * qw)" "0 < 2 * qh" "0 < 2 * qw"
    using q by simp_all
  from stem_step_shape [OF cx q4, of "?e 0" "init [0]" "\<lambda>c. init [1] c 0 0 0"]
  obtain x0 where x0: "forward_embeddings m x = Inr x0"
    and x0s: "has_shape x0 (dimB x) (?e 0) (8 * qh) (8 * qw)"
    unfolding forward_embeddings_def attrs(4) patch by blast
  from stage_step_shape [OF bl(1) x0s e(1) q4(3,4) nok se(1), of training "rnd 0"]
  obtain t0 y0 where t0: "Sequential_forward s0 training (rnd 0) 0 x0 = Inr t0"
      "norm_forward n0 t0 = Inr y0"
    and t0s: "has_shape t0 (dimB x) (?e 0) (8 * qh) (8 * qw)"
    and y0s: "has_shape y0 (dimB x) (?e 0) (8 * qh) (8 * qw)"
    by blast
  from down_step_shape [OF t0s q8, of "?e 1" "init [0, 0]" "\<lambda>c. init [0, 1] c 0 0 0"]
  obtain u0 where u0: "PatchEmbed_forward ?p0 t0 = Inr u0"
    and u0s: "has_shape u0 (dimB x) (?e 1) (4 * qh) (4 * qw)"
    by blast
  from stage_step_shape [OF bl(2) u0s e(2) q8(3,4) norm_layer_init_ok se(2), of training "rnd 2"
      "norm_layer a"]
  obtain t1 y1 where t1: "Sequential_forward s1 training (rnd 2) 0 u0 = Inr t1"
      "norm_forward (?nl 1) t1 = Inr y1"
    and t1s: "has_shape t1 (dimB x) (?e 1) (4 * qh) (4 * qw)"
    and y1s: "has_shape y1 (dimB x) (?e 1) (4 * qh) (4 * qw)"
    by blast
  from down_step_shape [OF t1s q16, of "?e 2" "init [1, 0]" "\<lambda>c. init [1, 1] c 0 0 0"]
  obtain u1 where u1: "PatchEmbed_forward ?p1 t1 = Inr u1"
    and u1s: "has_shape u1 (dimB x) (?e 2) (2 * qh) (2 * qw)"
    by blast
  from stage_step_shape [OF bl(3) u1s e(3) q16(3,4) norm_layer_init_ok se(3), of training "rnd 4"
      "norm_layer a"]
  obtain t2 y2 where t2: "Sequential_forward s2 training (rnd 4) 0 u1 = Inr t2"
      "norm_forward (?nl 2) t2 = Inr y2"
    and t2s: "has_shape t2 (dimB x) (?e 2) (2 * qh) (2 * qw)"
    and y2s: "has_shape y2 (dimB x) (?e 2) (2 * qh) (2 * qw)"
    by blast
  from down_step_shape [OF t2s refl refl q(3,4), of "?e 3" "init [2, 0]" "\<lambda>c. init [2, 1] c 0 0 0"]
  obtain u2 where u2: "PatchEmbed_forward ?p2 t2 = Inr u2"
    and u2s: "has_shape u2 (dimB x) (?e 3) qh qw"
    by blast
  from stage_step_shape [OF bl(4) u2s e(4) q(3,4) norm_layer_init_ok se(4), of training "rnd 6"
      "norm_layer a"]
  obtain t3 y3 where t3: "Sequential_forward s3 training (rnd 6) 0 u2 = Inr t3"
      "norm_forward (?nl 3) t3 = Inr y3"
    and y3s: "has_shape y3 (dimB x) (?e 3) qh qw"
    by blast
  have ois: "self_out_indices m = Some [0, 2, 4, 6]" by (rule fattrs(1))
  let ?r6 = "[(6, Sequential s3)]"
  let ?r5 = "(5, Downsample ?p2) # ?r6"
  let ?r4 = "(4, Sequential s2) # ?r5"
  let ?r3 = "(3, Downsample ?p1) # ?r4"
  let ?r2 = "(2, Sequential s1) # ?r3"
  let ?r1 = "(1, Downsample ?p0) # ?r2"
  have mf: "module_forward (Sequential s0) training (rnd 0) x0 = Inr t0"
      "module_forward (Downsample ?p0) training (rnd 1) t0 = Inr u0"
      "module_forward (Sequential s1) training (rnd 2) u0 = Inr t1"
      "module_forward (Downsample ?p1) training (rnd 3) t1 = Inr u1"
      "module_forward (Sequential s2) training (rnd 4) u1 = Inr t2"
      "module_forward (Downsample ?p2) training (rnd 5) t2 = Inr u2"
      "module_forward (Sequential s3) training (rnd 6) u2 = Inr t3"
    using t0(1) u0 t1(1) u1 t2(1) u2 t3(1) by (simp_all only: module_forward.simps)
  have "tokens_loop m training rnd ((0, Sequential s0) # ?r1) x0 [] =
      tokens_loop m training rnd ?r1 t0 ([] @ [y0])"
    by (rule tokens_step_out [where rnd = rnd and idx = 0, OF ff ois _ look(1) mf(1) t0(2)]) simp
  also have "\<dots> = tokens_loop m training rnd ?r2 u0 ([] @ [y0])"
    by (rule tokens_step_skip [where rnd = rnd and idx = 1, OF ff ois _ mf(2)]) simp
  also have "\<dots> = tokens_loop m training rnd ?r3 t1 (([] @ [y0]) @ [y1])"
    by (rule tokens_step_out [where rnd = rnd and idx = 2, OF ff ois _ look(2) mf(3) t1(2)]) simp
  also have "\<dots> = tokens_loop m training rnd ?r4 u1 (([] @ [y0]) @ [y1])"
    by (rule tokens_step_skip [where rnd = rnd and idx = 3, OF ff ois _ mf(4)]) simp
  also have "\<dots> = tokens_loop m training rnd ?r5 t2 ((([] @ [y0]) @ [y1]) @ [y2])"
    by (rule tokens_step_out [where rnd = rnd and idx = 4, OF ff ois _ look(3) mf(5) t2(2)]) simp
  also have "\<dots> = tokens_loop m training rnd ?r6 u2 ((([] @ [y0]) @ [y1]) @ [y2])"
    by (rule tokens_step_skip [where rnd = rnd and idx = 5, OF ff ois _ mf(6)]) simp
  also have "\<dots> = tokens_loop m training rnd [] t3 (((([] @ [y0]) @ [y1]) @ [y2]) @ [y3])"
    by (rule tokens_step_out [where rnd = rnd and idx = 6, OF ff ois _ look(4) mf(7) t3(2)]) simp
  also have "\<dots> = Inr (t3, [y0, y1, y2, y3])" by simp
  finally have loop: "tokens_loop m training rnd (enumerate 0 (self_network m)) x0 [] =
      Inr (t3, [y0, y1, y2, y3])"
    unfolding net' enumerate_seven .
  have run: "forward m training rnd x = Inr (Features [y0, y1, y2, y3])"
    using x0 loop ff by (simp add: forward_def forward_tokens_def)
  have sh: "has_shape y0 (dimB x) (?e 0) (dimH x div 4) (dimW x div 4)"
      "has_shape y1 (dimB x) (?e 1) (dimH x div 8) (dimW x div 8)"
      "has_shape y2 (dimB x) (?e 2) (dimH x div 16) (dimW x div 16)"
      "has_shape y3 (dimB x) (?e 3) (dimH x div 32) (dimW x div 32)"
    using y0s y1s y2s y3s unfolding q by simp_all
  have "self_network m = [Sequential s0, Downsample ?p0, Sequential s1, Downsample ?p1,
                         Sequential s2, Downsample ?p2, Sequential s3]
     \<and> self_out_indices m = Some [0, 2, 4, 6]
     \<and> self_norms m = [(0, n0), (2, ?nl 1), (4, ?nl 2), (6, ?nl 3)]
     \<and> forward_embeddings m x = Inr x0
     \<and> Sequential_forward s0 training (rnd 0) 0 x0 = Inr t0
     \<and> norm_forward n0 t0 = Inr y0
     \<and> PatchEmbed_forward ?p0 t0 = Inr u0
     \<and> Sequential_forward s1 training (rnd 2) 0 u0 = Inr t1
     \<and> norm_forward (?nl 1) t1 = Inr y1
     \<and> PatchEmbed_forward ?p1 t1 = Inr u1
     \<and> Sequential_forward s2 training (rnd 4) 0 u1 = Inr t2
     \<and> norm_forward (?nl 2) t2 = Inr y2
     \<and> PatchEmbed_forward ?p2 t2 = Inr u2
     \<and> Sequential_forward s3 training (rnd 6) 0 u2 = Inr t3
     \<and> norm_forward (?nl 3) t3 = Inr y3
     \<and> forward m training rnd x = Inr (Features [y0, y1, y2, y3])
     \<and> has_shape y0 (dimB x) (?e 0) (dimH x div 4) (dimW x div 4)
     \<and> has_shape y1 (dimB x) (?e 1) (dimH x div 8) (dimW x div 8)
     \<and> has_shape y2 (dimB x) (?e 2) (dimH x div 16) (dimW x div 16)
     \<and> has_shape y3 (dimB x) (?e 3) (dimH x div 32) (dimW x div 32)"
    using net' ois norms x0 t0 u0 t1 u1 t2 u2 t3 run sh
    by (intro conjI)
  then show ?thesis by - ((rule exI)+, assumption)
qed


lemma enumerate_four:
  "enumerate 0 [m0, m1, m2, m3] = [(0, m0), (1, m1), (2, m2), (3, m3)]"
  by (simp add: eval_nat_numeral)

lemma no_downsampler_two_maps:
  assumes init: "PoolFormer_init v init a = Inr m" and fork: "fork_feat a"
    and len: "length (layers a) = 4" "length (embed_dims a) = 4"
    and nds: "\<forall>i<3. \<not> downsamples a ! i \<and> embed_dims a ! i = embed_dims a ! (i + 1)"
    and odd: "odd (pool_size a)" and pos: "\<forall>e\<in>set (embed_dims a). 0 < e"
    and patch: "in_patch_size a = 7" "in_stride a = 4" "in_pad a = 2"
    and cx: "dimC x = 3" and hw: "4 dvd dimH x" "4 dvd dimW x" "0 < dimH x" "0 < dimW x"
    and sv: "\<forall>e\<in>set (embed_dims a). 1 < dimB x * e"
  shows "\<exists>s0 s1 s2 s3 y0 y1.
       self_network m = [Sequential s0, Sequential s1, Sequential s2, Sequential s3]
     \<and> self_out_indices m = Some [0, 2, 4, 6]
     \<and> forward m training rnd x = Inr (Features [y0, y1])"
proof -
  note attrs = PoolFormer_init_attrs [OF init]
  note fattrs = PoolFormer_init_fork_attrs [OF init fork]
  let ?nl = "\<lambda>i. norm_layer_init (norm_layer a) (embed_dims a ! i)"
  let ?e = "\<lambda>i. embed_dims a ! i"
  let ?n0 = "if env_set v then Identity_norm else ?nl 0"
  have ff: "self_fork_feat m" using attrs(2) fork by simp
  have e: "0 < ?e 0" using pos len(2) by simp
  have se: "1 < dimB x * ?e 0" using sv len(2) by simp
  have s: "?e i = ?e (i + 1)" if "i < 3" for i using nds that by blast
  have e01: "?e 1 = ?e 0" using s [of 0] by simp
  have e12: "?e 2 = ?e 0" using s [of 1] e01 by (simp add: numeral_2_eq_2 numeral_3_eq_3)
  have e23: "?e 3 = ?e 0" using s [of 2] e12 by (simp add: numeral_2_eq_2 numeral_3_eq_3)
  note eq = e01 e12 e23
  have norms: "self_norms m = [(0, ?n0), (2, ?nl 1), (4, ?nl 2), (6, ?nl 3)]"
    using out_norms_value [of a v] fattrs(2) len(2) by simp
  have look: "map_of (self_norms m) 0 = Some ?n0" "map_of (self_norms m) 2 = Some (?nl 1)"
    unfolding norms by simp_all
  have nok: "norm_ok (?e 0) ?n0" by simp
  have nok1: "norm_ok (?e 0) (?nl 1)" using norm_layer_init_ok [of "?e 1" "norm_layer a"]
    unfolding eq .
  from network_four [OF len(1) attrs(3)]
  obtain s0 d0 s1 d1 s2 d2 s3 where st: "stage_of a init 0 = Inr s0" "stage_of a init 1 = Inr s1"
      "stage_of a init 2 = Inr s2" "stage_of a init 3 = Inr s3"
    and dn: "downsampling a init 0 = Inr d0" "downsampling a init 1 = Inr d1"
      "downsampling a init 2 = Inr d2"
    and net: "self_network m =
      Sequential s0 # d0 @ Sequential s1 # d1 @ Sequential s2 # d2 @ [Sequential s3]"
    by blast
  have bl: "\<forall>blk\<in>set s0. block_ok (?e 0) blk" "\<forall>blk\<in>set s1. block_ok (?e 0) blk"
      "\<forall>blk\<in>set s2. block_ok (?e 0) blk" "\<forall>blk\<in>set s3. block_ok (?e 0) blk"
    using st stage_of_blocks_ok [OF _ odd, of init] eq by metis+
  have dv: "d = []" if "downsampling a init i = Inr d" "i < 3" for i d
  proof -
    from that(1) have idx: "i < length (downsamples a)" "i + 1 < length (embed_dims a)"
      using downsampling_succeeds_iff [of a init i] by auto
    show ?thesis
      using that downsampling_value [OF idx, of init] nds by simp
  qed
  have d: "d0 = []" "d1 = []" "d2 = []"
    using dv [OF dn(1)] dv [OF dn(2)] dv [OF dn(3)] by simp_all
  have net': "self_network m = [Sequential s0, Sequential s1, Sequential s2, Sequential s3]"
    unfolding net d by simp
  from hw obtain qh qw where q: "dimH x = 4 * qh" "dimW x = 4 * qw" "0 < qh" "0 < qw"
    by (auto elim!: dvdE)
  from stem_step_shape [OF cx q, of "?e 0" "init [0]" "\<lambda>c. init [1] c 0 0 0"]
  obtain x0 where x0: "forward_embeddings m x = Inr x0"
    and x0s: "has_shape x0 (dimB x) (?e 0) qh qw"
    unfolding forward_embeddings_def attrs(4) patch by blast
  from stage_step_shape [OF bl(1) x0s e q(3,4) nok se, of training "rnd 0"]
  obtain t0 y0 where t0: "Sequential_forward s0 training (rnd 0) 0 x0 = Inr t0"
      "norm_forward ?n0 t0 = Inr y0"
    and t0s: "has_shape t0 (dimB x) (?e 0) qh qw"
    by blast
  from stage_step_shape [OF bl(2) t0s e q(3,4) norm_ok_identity se, of training "rnd 1"]
  obtain t1 where t1: "Sequential_forward s1 training (rnd 1) 0 t0 = Inr t1"
    and t1s: "has_shape t1 (dimB x) (?e 0) qh qw"
    by blast
  from stage_step_shape [OF bl(3) t1s e q(3,4) nok1 se, of training "rnd 2"]
  obtain t2 y1 where t2: "Sequential_forward s2 training (rnd 2) 0 t1 = Inr t2"
      "norm_forward (?nl 1) t2 = Inr y1"
    and t2s: "has_shape t2 (dimB x) (?e 0) qh qw"
    by blast
  from stage_step_shape [OF bl(4) t2s e q(3,4) norm_ok_identity se, of training "rnd 3"]
  obtain t3 where t3: "Sequential_forward s3 training (rnd 3) 0 t2 = Inr t3"
    by blast
  have ois: "self_out_indices m = Some [0, 2, 4, 6]" by (rule fattrs(1))
  let ?r3 = "[(3, Sequential s3)]"
  let ?r2 = "(2, Sequential s2) # ?r3"
  let ?r1 = "(1, Sequential s1) # ?r2"
  have mf: "module_forward (Sequential s0) training (rnd 0) x0 = Inr t0"
      "module_forward (Sequential s1) training (rnd 1) t0 = Inr t1"
      "module_forward (Sequential s2) training (rnd 2) t1 = Inr t2"
      "module_forward (Sequential s3) training (rnd 3) t2 = Inr t3"
    using t0(1) t1 t2(1) t3 by (simp_all only: module_forward.simps)
  have "tokens_loop m training rnd ((0, Sequential s0) # ?r1) x0 [] =
      tokens_loop m training rnd ?r1 t0 ([] @ [y0])"
    by (rule tokens_step_out [where rnd = rnd and idx = 0, OF ff ois _ look(1) mf(1) t0(2)]) simp
  also have "\<dots> = tokens_loop m training rnd ?r2 t1 ([] @ [y0])"
    by (rule tokens_step_skip [where rnd = rnd and idx = 1, OF ff ois _ mf(2)]) simp
  also have "\<dots> = tokens_loop m training rnd ?r3 t2 (([] @ [y0]) @ [y1])"
    by (rule tokens_step_out [where rnd = rnd and idx = 2, OF ff ois _ look(2) mf(3) t2(2)]) simp
  also have "\<dots> = tokens_loop m training rnd [] t3 (([] @ [y0]) @ [y1])"
    by (rule tokens_step_skip [where rnd = rnd and idx = 3, OF ff ois _ mf(4)]) simp
  also have "\<dots> = Inr (t3, [y0, y1])" by simp
  finally have loop: "tokens_loop m training rnd (enumerate 0 (self_network m)) x0 [] =
      Inr (t3, [y0, y1])"
    unfolding net' enumerate_four .
  have run: "forward m training rnd x = Inr (Features [y0, y1])"
    using x0 loop ff by (simp add: forward_def forward_tokens_def)
  from net' ois run show ?thesis by blast
qed

lemma norm_forward_identity: "norm_forward Identity_norm t = Inr y \<Longrightarrow> y = t"
  by simp

section \<open>Feature-pyramid mode\<close>

text \<open>
  C3, as stated: every 4-stage configuration in feature-pyramid mode gets one
  normalisation operator per stage endpoint and returns 4 normalised feature maps. Two
  runs of the code differ. With the environment variable \<open>FORK_LAST3\<close> set, the layer
  registered as \<open>norm0\<close> for the S12 preset is \<open>nn.Identity()\<close>, and the first returned map
  is the output of stage 0 unchanged. With equal embedding dimensions and no downsample
  flag, the network has four entries, at the indices 0 to 3, of which only 0 and 2 are in
  \<open>out_indices = [0, 2, 4, 6]\<close>: the forward pass returns 2 maps.
\<close>

theorem feature_pyramid_counterexample:
  "(\<exists>m s0 rest x0 t0 ys.
       PoolFormer_init (Some ''1'') zero_init ((poolformer_s12 (\<lambda>v. v))\<lparr>fork_feat := True\<rparr>) = Inr m
     \<and> map_of (self_norms m) 0 = Some Identity_norm
     \<and> self_network m = Sequential s0 # rest
     \<and> forward_embeddings m small_image = Inr x0
     \<and> Sequential_forward s0 False (\<lambda>_. keep_all) 0 x0 = Inr t0
     \<and> forward m False (\<lambda>_ _. keep_all) small_image = Inr (Features (t0 # ys)))
   \<and> (\<exists>m y0 y1.
       PoolFormer_init None zero_init
         ((default_args [2, 2, 6, 2] [64, 64, 64, 64] [4, 4, 4, 4] [False, False, False, False]
            (\<lambda>v. v))\<lparr>fork_feat := True\<rparr>) = Inr m
     \<and> forward m False (\<lambda>_ _. keep_all) small_image = Inr (Features [y0, y1]))"
proof
  let ?a = "(poolformer_s12 (\<lambda>v. v))\<lparr>fork_feat := True\<rparr>"
  have "lists_long_enough ?a \<and> sum_list (layers ?a) \<noteq> 1 \<and> mlps_ok ?a"
    by (simp add: poolformer_s12_def default_args_def lists_long_enough_def mlps_ok_nonneg)
  then obtain m where m: "PoolFormer_init (Some ''1'') zero_init ?a = Inr m"
    using PoolFormer_init_succeeds_iff by blast
  have h: "fork_feat ?a" "length (layers ?a) = 4" "length (embed_dims ?a) = 4"
      "\<forall>i<3. downsamples ?a ! i \<or> embed_dims ?a ! i \<noteq> embed_dims ?a ! (i + 1)"
      "odd (pool_size ?a)" "\<forall>e\<in>set (embed_dims ?a). 0 < e"
      "in_patch_size ?a = 7" "in_stride ?a = 4" "in_pad ?a = 2"
      "down_patch_size ?a = 3" "down_stride ?a = 2" "down_pad ?a = 1"
      "dimC small_image = 3" "32 dvd dimH small_image" "32 dvd dimW small_image"
      "0 < dimH small_image" "0 < dimW small_image"
      "\<forall>e\<in>set (embed_dims ?a). 1 < dimB small_image * e"
    by (simp_all add: poolformer_s12_def default_args_def small_image_def less_Suc_eq
        numeral_3_eq_3)
  have n0: "Identity_norm = (if env_set (Some ''1'') then Identity_norm
      else norm_layer_init (norm_layer ?a) (embed_dims ?a ! 0))"
    by (simp add: env_set_def)
  from pyramid [OF m h n0, of False "\<lambda>_ _. keep_all"]
  obtain s0 rest x0 t0 y0 y1 y2 y3 where r: "self_network m = Sequential s0 # rest"
      "self_norms m = (0, Identity_norm) # [(2, norm_layer_init (norm_layer ?a) (embed_dims ?a ! 1)),
         (4, norm_layer_init (norm_layer ?a) (embed_dims ?a ! 2)),
         (6, norm_layer_init (norm_layer ?a) (embed_dims ?a ! 3))]"
      "forward_embeddings m small_image = Inr x0"
      "Sequential_forward s0 False (\<lambda>_. keep_all) 0 x0 = Inr t0"
      "norm_forward Identity_norm t0 = Inr y0"
      "forward m False (\<lambda>_ _. keep_all) small_image = Inr (Features [y0, y1, y2, y3])"
    by blast
  have "y0 = t0" using r(5) by (rule norm_forward_identity)
  then have "forward m False (\<lambda>_ _. keep_all) small_image = Inr (Features (t0 # [y1, y2, y3]))"
    using r(6) by simp
  moreover have "map_of (self_norms m) 0 = Some Identity_norm" unfolding r(2) by simp
  ultimately show "\<exists>m s0 rest x0 t0 ys.
       PoolFormer_init (Some ''1'') zero_init ?a = Inr m
     \<and> map_of (self_norms m) 0 = Some Identity_norm
     \<and> self_network m = Sequential s0 # rest
     \<and> forward_embeddings m small_image = Inr x0
     \<and> Sequential_forward s0 False (\<lambda>_. keep_all) 0 x0 = Inr t0
     \<and> forward m False (\<lambda>_ _. keep_all) small_image = Inr (Features (t0 # ys))"
    using m r(1,3,4) by blast
next
  let ?b = "(default_args [2, 2, 6, 2] [64, 64, 64, 64] [4, 4, 4, 4] [False, False, False, False]
            (\<lambda>v. v))\<lparr>fork_feat := True\<rparr>"
  have "lists_long_enough ?b \<and> sum_list (layers ?b) \<noteq> 1 \<and> mlps_ok ?b"
    by (simp add: default_args_def lists_long_enough_def mlps_ok_nonneg)
  then obtain m where m: "PoolFormer_init None zero_init ?b = Inr m"
    using PoolFormer_init_succeeds_iff by blast
  have h: "fork_feat ?b" "length (layers ?b) = 4" "length (embed_dims ?b) = 4"
      "\<forall>i<3. \<not> downsamples ?b ! i \<and> embed_dims ?b ! i = embed_dims ?b ! (i + 1)"
      "odd (pool_size ?b)" "\<forall>e\<in>set (embed_dims ?b). 0 < e"
      "in_patch_size ?b = 7" "in_stride ?b = 4" "in_pad ?b = 2"
      "dimC small_image = 3" "4 dvd dimH small_image" "4 dvd dimW small_image"
      "0 < dimH small_image" "0 < dimW small_image"
      "\<forall>e\<in>set (embed_dims ?b). 1 < dimB small_image * e"
    by (simp_all add: default_args_def small_image_def less_Suc_eq numeral_3_eq_3)
  from no_downsampler_two_maps [OF m h, of False "\<lambda>_ _. keep_all"] m
  show "\<exists>m y0 y1. PoolFormer_init None zero_init ?b = Inr m
     \<and> forward m False (\<lambda>_ _. keep_all) small_image = Inr (Features [y0, y1])"
    by blast
qed

text \<open>
  C3, amended. For a model constructed in feature-pyramid mode from four stages with
  positive embedding dimensions, an odd pool size, the default patch parameters (7/4/2
  for the stem, 3/2/1 between stages) and a downsampling embedding after each of the
  first three stages (\<open>downsamples[i]\<close> true or \<open>embed_dims[i] != embed_dims[i+1]\<close>), the
  network has seven entries, the stages at the indices \<open>[0, 2, 4, 6]\<close>, and one layer is
  registered per index: \<open>norm_layer(embed_dims[i])\<close>, except that \<open>norm0\<close> is the identity
  when \<open>FORK_LAST3\<close> is set. On a 3-channel input whose sizes are positive multiples of
  32 and that leaves every normalisation more than one value (\<open>B * e > 1\<close> for every
  embedding dimension \<open>e\<close>; the group normalisation raises \<open>ValueError\<close> on a single
  value), the forward pass succeeds in both modes and for all random draws and returns
  exactly 4 maps in depth order, map \<open>i\<close> being the registered layer \<open>i\<close> applied to the
  output of stage \<open>i\<close>, of shape \<open>[B, embed_dims[i], H / s, W / s]\<close> with \<open>s\<close> = 4, 8, 16, 32.
\<close>

theorem feature_pyramid_forward:
  assumes "PoolFormer_init v init a = Inr m" and "fork_feat a"
    and "length (layers a) = 4" and "length (embed_dims a) = 4"
    and "\<forall>i<3. downsamples a ! i \<or> embed_dims a ! i \<noteq> embed_dims a ! (i + 1)"
    and "odd (pool_size a)" and "\<forall>e\<in>set (embed_dims a). 0 < e"
    and "in_patch_size a = 7" and "in_stride a = 4" and "in_pad a = 2"
    and "down_patch_size a = 3" and "down_stride a = 2" and "down_pad a = 1"
    and "dimC x = 3" and "32 dvd dimH x" and "32 dvd dimW x" and "0 < dimH x" and "0 < dimW x"
    and "\<forall>e\<in>set (embed_dims a). 1 < dimB x * e"
  shows "\<exists>s0 p0 s1 p1 s2 p2 s3 x0 t0 u0 t1 u1 t2 u2 t3 y0 y1 y2 y3.
       self_network m = [Sequential s0, Downsample p0, Sequential s1, Downsample p1,
                         Sequential s2, Downsample p2, Sequential s3]
     \<and> self_out_indices m = Some [0, 2, 4, 6]
     \<and> self_norms m =
         [(0, if env_set v then Identity_norm
              else norm_layer_init (norm_layer a) (embed_dims a ! 0)),
          (2, norm_layer_init (norm_layer a) (embed_dims a ! 1)),
          (4, norm_layer_init (norm_layer a) (embed_dims a ! 2)),
          (6, norm_layer_init (norm_layer a) (embed_dims a ! 3))]
     \<and> forward_embeddings m x = Inr x0
     \<and> Sequential_forward s0 training (rnd 0) 0 x0 = Inr t0
     \<and> norm_forward (if env_set v then Identity_norm
                      else norm_layer_init (norm_layer a) (embed_dims a ! 0)) t0 = Inr y0
     \<and> PatchEmbed_forward p0 t0 = Inr u0
     \<and> Sequential_forward s1 training (rnd 2) 0 u0 = Inr t1
     \<and> norm_forward (norm_layer_init (norm_layer a) (embed_dims a ! 1)) t1 = Inr y1
     \<and> PatchEmbed_forward p1 t1 = Inr u1
     \<and> Sequential_forward s2 training (rnd 4) 0 u1 = Inr t2
     \<and> norm_forward (norm_layer_init (norm_layer a) (embed_dims a ! 2)) t2 = Inr y2
     \<and> PatchEmbed_forward p2 t2 = Inr u2
     \<and> Sequential_forward s3 training (rnd 6) 0 u2 = Inr t3
     \<and> norm_forward (norm_layer_init (norm_layer a) (embed_dims a ! 3)) t3 = Inr y3
     \<and> forward m training rnd x = Inr (Features [y0, y1, y2, y3])
     \<and> has_shape y0 (dimB x) (embed_dims a ! 0) (dimH x div 4) (dimW x div 4)
     \<and> has_shape y1 (dimB x) (embed_dims a ! 1) (dimH x div 8) (dimW x div 8)
     \<and> has_shape y2 (dimB x) (embed_dims a ! 2) (dimH x div 16) (dimW x div 16)
     \<and> has_shape y3 (dimB x) (embed_dims a ! 3) (dimH x div 32) (dimW x div 32)"
  by (rule pyramid [OF assms refl])

theorem feature_pyramid_forward_witness:
  "\<exists>m y0 y1 y2 y3.
       PoolFormer_init None zero_init ((poolformer_s12 (\<lambda>v. v))\<lparr>fork_feat := True\<rparr>) = Inr m
     \<and> forward m False (\<lambda>_ _. keep_all) small_image = Inr (Features [y0, y1, y2, y3])
     \<and> has_shape y0 1 64 8 8 \<and> has_shape y1 1 128 4 4
     \<and> has_shape y2 1 320 2 2 \<and> has_shape y3 1 512 1 1"
proof -
  let ?a = "(poolformer_s12 (\<lambda>v. v))\<lparr>fork_feat := True\<rparr>"
  have "lists_long_enough ?a \<and> sum_list (layers ?a) \<noteq> 1 \<and> mlps_ok ?a"
    by (simp add: poolformer_s12_def default_args_def lists_long_enough_def mlps_ok_nonneg)
  then obtain m where m: "PoolFormer_init None zero_init ?a = Inr m"
    using PoolFormer_init_succeeds_iff by blast
  have h: "fork_feat ?a" "length (layers ?a) = 4" "length (embed_dims ?a) = 4"
      "\<forall>i<3. downsamples ?a ! i \<or> embed_dims ?a ! i \<noteq> embed_dims ?a ! (i + 1)"
      "odd (pool_size ?a)" "\<forall>e\<in>set (embed_dims ?a). 0 < e"
      "in_patch_size ?a = 7" "in_stride ?a = 4" "in_pad ?a = 2"
      "down_patch_size ?a = 3" "down_stride ?a = 2" "down_pad ?a = 1"
      "dimC small_image = 3" "32 dvd dimH small_image" "32 dvd dimW small_image"
      "0 < dimH small_image" "0 < dimW small_image"
      "\<forall>e\<in>set (embed_dims ?a). 1 < dimB small_image * e"
    by (simp_all add: poolformer_s12_def default_args_def small_image_def less_Suc_eq
        numeral_3_eq_3)
  have v: "embed_dims ?a ! 0 = 64" "embed_dims ?a ! 1 = 128" "embed_dims ?a ! 2 = 320"
      "embed_dims ?a ! 3 = 512" "dimB small_image = 1" "dimH small_image div 4 = 8"
      "dimH small_image div 8 = 4" "dimH small_image div 16 = 2" "dimH small_image div 32 = 1"
      "dimW small_image div 4 = 8"
      "dimW small_image div 8 = 4" "dimW small_image div 16 = 2" "dimW small_image div 32 = 1"
    by (simp_all add: poolformer_s12_def default_args_def small_image_def)
  from feature_pyramid_forward [OF m h, of False "\<lambda>_ _. keep_all"]
  obtain y0 y1 y2 y3 where
      "forward m False (\<lambda>_ _. keep_all) small_image = Inr (Features [y0, y1, y2, y3])"
      "has_shape y0 1 64 8 8" "has_shape y1 1 128 4 4"
      "has_shape y2 1 320 2 2" "has_shape y3 1 512 1 1"
    unfolding v by blast
  with m show ?thesis by blast
qed

section \<open>Facts about 32-bit floats\<close>

lemma bits_0 [simp]: "bits 0 = 0"
  by (simp add: bits.simps)

lemma bits_numeral [simp]: "bits (numeral n) = Suc (bits (numeral n div 2))"
  by (subst bits.simps) simp

lemma bits_1 [simp]: "bits (Suc 0) = 1"
  by (simp add: bits.simps [of "Suc 0"])

lemma bits_pos: "0 < n \<Longrightarrow> bits n = Suc (bits (n div 2))"
  by (subst bits.simps) simp

declare bits.simps [simp del]

lemma bits_bound: "n < 2 ^ m \<Longrightarrow> bits n \<le> m"
proof (induction m arbitrary: n)
  case 0
  then show ?case by simp
next
  case (Suc m)
  show ?case
  proof (cases "n = 0")
    case True
    then show ?thesis by simp
  next
    case False
    have "n div 2 < 2 ^ m" using Suc.prems by auto
    from Suc.IH [OF this] show ?thesis using False by (simp add: bits_pos)
  qed
qed

lemma fl_zero [simp]: "fl 0 = Finite 0"
  by (simp add: fl_def)

lemma fl_not_NaN [simp]: "fl r \<noteq> NaN"
  by (simp add: fl_def Let_def)

lemma round_even_int [simp]: "round_even (of_int z) = z"
  by (simp add: round_even_def)

lemma fl_nat:
  assumes "n < 2 ^ 24"
  shows "fl (real n) = Finite (real n)"
proof (cases "n = 0")
  case True
  then show ?thesis by simp
next
  case False
  then have pos: "0 < n" by simp
  have b: "bits n \<le> 24" using assms by (rule bits_bound)
  have b1: "1 \<le> bits n" using pos by (simp add: bits_pos)
  have ex: "exponent (real n) = int (bits n) - 1"
    using pos by (simp add: exponent_def)
  define s where "s = 24 - bits n"
  have e23: "max (int (bits n) - 1) (- 126) - 23 = - int s"
    using b b1 by (simp add: s_def)
  have q: "pow2 (- int s) = 1 / 2 ^ s"
    by (cases "s = 0") (simp_all add: pow2_def)
  have "real n / (1 / 2 ^ s) = of_int (int n * 2 ^ s)" by simp
  then have r: "round_even (real n / (1 / 2 ^ s)) = int n * 2 ^ s"
    by (simp only: round_even_int)
  have y: "of_int (int n * 2 ^ s) * (1 / 2 ^ s) = real n" by simp
  have "real n < 2 ^ 24" using assms by (metis of_nat_less_iff of_nat_numeral of_nat_power)
  also have "(2::real) ^ 24 \<le> 2 ^ 128" by simp
  finally have small: "\<not> pow2 128 \<le> \<bar>real n\<bar>" by (simp add: pow2_def)
  show ?thesis
    using False small unfolding fl_def ex e23 q Let_def r y by simp
qed

lemma fbinop_same:
  assumes "fsame_dims x y"
  shows "ftensor_binop f x y =
           Inr (x\<lparr>felem := (\<lambda>b c h w. f (felem x b c h w) (felem y b c h w))\<rparr>)"
  using assms by (simp add: ftensor_binop_def fsame_dims_def)

lemma fsame_dims_refl [simp]: "fsame_dims x x"
  by (simp add: fsame_dims_def)

lemma fsame_dims_update [simp]: "fsame_dims (x\<lparr>felem := f\<rparr>) x" "fsame_dims x (x\<lparr>felem := f\<rparr>)"
  by (simp_all add: fsame_dims_def)

lemma Pooling_forward_f32_odd:
  assumes "odd k" and "0 < fdimC x" and "0 < fdimH x" and "0 < fdimW x"
  shows "Pooling_forward_f32 (Pooling_init k) x =
           Inr (x\<lparr>felem := (\<lambda>b c h w.
                  fsub (avg_window_f32 (pool (Pooling_init k)) x b c h w) (felem x b c h w))\<rparr>)"
proof -
  from assms(1) obtain r where k: "k = 2 * r + 1" by (auto elim: oddE)
  let ?y = "x\<lparr>felem := avg_window_f32 (pool (Pooling_init k)) x\<rparr>"
  have "AvgPool2d_forward_f32 (pool (Pooling_init k)) x = Inr ?y"
    using assms conv_out_pool [OF assms(1)]
    by (simp add: AvgPool2d_forward_f32_def Pooling_init_def Let_def k)
  moreover have "ftensor_sub ?y x =
      Inr (?y\<lparr>felem := (\<lambda>b c h w. fsub (felem ?y b c h w) (felem x b c h w))\<rparr>)"
    unfolding ftensor_sub_def by (rule fbinop_same) simp
  ultimately show ?thesis by (simp add: Pooling_forward_f32_def)
qed

lemma avg_window_f32_unfold:
  "avg_window_f32 (pool (Pooling_init k)) x b c i j =
     (if min (min (int i - int (k div 2) + int k) (int (fdimH x) + int (k div 2))) (int (fdimH x))
           \<le> max (int i - int (k div 2)) 0
         \<or> min (min (int j - int (k div 2) + int k) (int (fdimW x) + int (k div 2))) (int (fdimW x))
           \<le> max (int j - int (k div 2)) 0
      then Finite 0
      else fdiv (window_sum x b c (List.product
             [nat (max (int i - int (k div 2)) 0)..<
              nat (min (min (int i - int (k div 2) + int k) (int (fdimH x) + int (k div 2))) (int (fdimH x)))]
             [nat (max (int j - int (k div 2)) 0)..<
              nat (min (min (int j - int (k div 2) + int k) (int (fdimW x) + int (k div 2))) (int (fdimW x)))]))
           (fl (real_of_int
              ((min (min (int i - int (k div 2) + int k) (int (fdimH x) + int (k div 2))) (int (fdimH x))
                  - max (int i - int (k div 2)) 0)
               * (min (min (int j - int (k div 2) + int k) (int (fdimW x) + int (k div 2))) (int (fdimW x))
                  - max (int j - int (k div 2)) 0)))))"
  unfolding avg_window_f32_def Pooling_init_def Let_def by simp

lemma avg_window_f32_nat:
  assumes "k = 2 * r + 1" and "i < fdimH x" and "j < fdimW x"
  shows "avg_window_f32 (pool (Pooling_init k)) x b c i j =
           fdiv (window_sum x b c (List.product [i - r..<min (i + r + 1) (fdimH x)]
                                                [j - r..<min (j + r + 1) (fdimW x)]))
             (fl (real ((min (i + r + 1) (fdimH x) - (i - r)) * (min (j + r + 1) (fdimW x) - (j - r)))))"
proof -
  have r: "k div 2 = r" using assms(1) by simp
  have ch: "int (min (i + r + 1) (fdimH x)) - int (i - r) = int (min (i + r + 1) (fdimH x) - (i - r))"
    using assms(2) by (simp add: of_nat_diff min_def)
  have cw: "int (min (j + r + 1) (fdimW x)) - int (j - r) = int (min (j + r + 1) (fdimW x) - (j - r))"
    using assms(3) by (simp add: of_nat_diff min_def)
  have ne: "\<not> (int (min (i + r + 1) (fdimH x)) \<le> int (i - r)
      \<or> int (min (j + r + 1) (fdimW x)) \<le> int (j - r))"
    using assms(2,3) by (auto simp: min_def)
  show ?thesis
    unfolding avg_window_f32_unfold r window_end_int [OF assms(1)] window_start_int ch cw
    using ne by simp
qed

lemma window_sum_const_aux:
  assumes "\<forall>p\<in>set ps. felem x b c (fst p) (snd p) = Finite v"
    and "\<forall>n. 1 \<le> n \<longrightarrow> n \<le> m + length ps \<longrightarrow> fl (real n * v) = Finite (real n * v)"
  shows "foldl (\<lambda>acc (h, w). fadd acc (felem x b c h w)) (Finite (real m * v)) ps =
           Finite (real (m + length ps) * v)"
  using assms
proof (induction ps arbitrary: m)
  case Nil
  then show ?case by simp
next
  case (Cons p ps)
  obtain h w where p: "p = (h, w)" by (cases p)
  have e: "felem x b c h w = Finite v" using Cons.prems(1) p by simp
  have "1 \<le> Suc m" "Suc m \<le> m + length (p # ps)" by simp_all
  with Cons.prems(2) have "fl (real (Suc m) * v) = Finite (real (Suc m) * v)"
    by blast
  then have step: "fadd (Finite (real m * v)) (Finite v) = Finite (real (Suc m) * v)"
    by (simp add: algebra_simps)
  have "\<forall>p\<in>set ps. felem x b c (fst p) (snd p) = Finite v" using Cons.prems(1) by simp
  moreover have "\<forall>n. 1 \<le> n \<longrightarrow> n \<le> Suc m + length ps \<longrightarrow> fl (real n * v) = Finite (real n * v)"
    using Cons.prems(2) by simp
  ultimately have "foldl (\<lambda>acc (h, w). fadd acc (felem x b c h w)) (Finite (real (Suc m) * v)) ps =
      Finite (real (Suc m + length ps) * v)"
    by (rule Cons.IH)
  then show ?case using p e step by simp
qed

lemma window_sum_const:
  assumes "\<forall>p\<in>set ps. felem x b c (fst p) (snd p) = Finite v"
    and "\<forall>n. 1 \<le> n \<longrightarrow> n \<le> length ps \<longrightarrow> fl (real n * v) = Finite (real n * v)"
  shows "window_sum x b c ps = Finite (real (length ps) * v)"
  using window_sum_const_aux [of ps x b c v 0] assms by (simp add: window_sum_def)

lemma window_count:
  fixes k r i n :: nat
  assumes "k = 2 * r + 1" and "i < n"
  shows "0 < min (i + r + 1) n - (i - r)" and "min (i + r + 1) n - (i - r) \<le> k"
  using assms by (auto simp: min_def)

lemma Pooling_f32_constant:
  assumes odd: "odd k" and small: "k * k < 2 ^ 24"
    and ne: "0 < fdimC x" "0 < fdimH x" "0 < fdimW x"
    and const: "\<forall>b<fdimB x. \<forall>c<fdimC x. \<forall>i<fdimH x. \<forall>j<fdimW x. felem x b c i j = Finite v"
    and rep: "\<forall>n. 1 \<le> n \<longrightarrow> n \<le> k * k \<longrightarrow> fl (real n * v) = Finite (real n * v)"
  shows "\<exists>y. Pooling_forward_f32 (Pooling_init k) x = Inr y \<and> fsame_dims y x
           \<and> (\<forall>b<fdimB x. \<forall>c<fdimC x. \<forall>i<fdimH x. \<forall>j<fdimW x. felem y b c i j = Finite 0)"
proof -
  from odd obtain r where k: "k = 2 * r + 1" by (auto elim: oddE)
  let ?y = "x\<lparr>felem := (\<lambda>b c h w.
      fsub (avg_window_f32 (pool (Pooling_init k)) x b c h w) (felem x b c h w))\<rparr>"
  have run: "Pooling_forward_f32 (Pooling_init k) x = Inr ?y"
    by (rule Pooling_forward_f32_odd [OF odd ne])
  have "felem ?y b c i j = Finite 0"
    if inside: "b < fdimB x" "c < fdimC x" "i < fdimH x" "j < fdimW x" for b c i j
  proof -
    let ?nh = "min (i + r + 1) (fdimH x) - (i - r)" and ?nw = "min (j + r + 1) (fdimW x) - (j - r)"
    let ?ps = "List.product [i - r..<min (i + r + 1) (fdimH x)] [j - r..<min (j + r + 1) (fdimW x)]"
    have len: "length ?ps = ?nh * ?nw" by simp
    have nh: "0 < ?nh" "?nh \<le> k" using window_count [OF k inside(3)] .
    have nw: "0 < ?nw" "?nw \<le> k" using window_count [OF k inside(4)] .
    have le: "?nh * ?nw \<le> k * k" using nh(2) nw(2) by (rule mult_le_mono)
    have pos: "0 < ?nh * ?nw" using nh(1) nw(1) by simp
    have all: "\<forall>p\<in>set ?ps. felem x b c (fst p) (snd p) = Finite v"
      using const inside(1,2) by auto
    have "\<forall>n. 1 \<le> n \<longrightarrow> n \<le> length ?ps \<longrightarrow> fl (real n * v) = Finite (real n * v)"
      using rep le unfolding len by auto
    from window_sum_const [OF all this]
    have s: "window_sum x b c ?ps = Finite (real (?nh * ?nw) * v)" unfolding len .
    have "?nh * ?nw < 2 ^ 24" using le small by simp
    then have d: "fl (real (?nh * ?nw)) = Finite (real (?nh * ?nw))" by (rule fl_nat)
    have one: "fl v = Finite v" using rep odd by (auto elim!: oddE)
    define N where "N = ?nh * ?nw"
    have "0 < N" using pos by (simp add: N_def)
    then have "fdiv (Finite (real N * v)) (Finite (real N)) = Finite v"
      using one by simp
    then have avg: "avg_window_f32 (pool (Pooling_init k)) x b c i j = Finite v"
      unfolding avg_window_f32_nat [OF k inside(3,4)] s d N_def .
    have "felem x b c i j = Finite v" using const inside by simp
    with avg show ?thesis by (simp add: fsub_def)
  qed
  with run show ?thesis by simp
qed

lemma fl_tenth: "fl (1 / 10) = Finite tenth" "fl tenth = Finite tenth"
  by (simp_all add: tenth_def fl_def exponent_def pow2_def round_even_def Let_def)

lemma upt_three: "[0..<3] = [0, Suc 0, Suc (Suc 0)]"
  by (simp add: numeral_3_eq_3)

lemma window_sum_tenths:
  "window_sum tenths 0 0 (List.product [0..<3] [0..<3]) = Finite (120795968 / 2 ^ 27)"
  by (simp add: upt_three window_sum_def tenths_def tenth_def fl_def exponent_def pow2_def
      round_even_def Let_def)

lemma fl_nine: "fl 9 = Finite 9"
  using fl_nat [of 9] by simp

lemma mean_tenths: "fdiv (Finite (120795968 / 2 ^ 27)) (Finite 9) = Finite (13421774 / 2 ^ 27)"
  by (simp add: fl_def exponent_def pow2_def round_even_def Let_def)

lemma fchannel_mul_same:
  assumes "fplen p = fdimC t"
  shows "fchannel_mul p t =
           Inr (t\<lparr>felem := (\<lambda>b c h w. fmul (fpval p c) (felem t b c h w))\<rparr>)"
  using assms by (simp add: fchannel_mul_def)

lemma fmul_zero: "fmul (Finite 0) v = (if is_finite v then Finite 0 else NaN)"
  by (cases v) simp_all

lemma fadd_zero: "is_f32 a \<Longrightarrow> fadd a (Finite 0) = a"
  by (cases a) simp_all

lemma fadd_NaN [simp]: "fadd a NaN = NaN"
  by (cases a) simp_all

lemma fdiv_zero: "k \<noteq> Finite 0 \<Longrightarrow> k \<noteq> NaN \<Longrightarrow> fdiv (Finite 0) k = Finite 0"
  by (cases k) simp_all

lemma drop_path_f32_dims [simp]: "fsame_dims (drop_path_forward_f32 dp training keep s) s"
  by (cases dp) (simp_all add: DropPath_forward_f32_def)

lemma drop_path_f32_zero:
  assumes "keep_prob_ok dp training" and "felem s b c h w = Finite 0"
  shows "felem (drop_path_forward_f32 dp training keep s) b c h w = Finite 0"
proof (cases dp)
  case (DropPath p)
  show ?thesis
  proof (cases "p = 0 \<or> \<not> training")
    case True
    with DropPath assms(2) show ?thesis by (auto simp: DropPath_forward_f32_def)
  next
    case False
    with DropPath assms(1) have "fl (1 - p) \<noteq> Finite 0" by simp
    then have "fdiv (Finite 0) (fl (1 - p)) = Finite 0" by (intro fdiv_zero) simp_all
    with DropPath False assms(2) show ?thesis by (simp add: DropPath_forward_f32_def)
  qed
next
  case Identity_path
  with assms(2) show ?thesis by simp
qed

lemma drop_path_f32_NaN:
  assumes "felem s b c h w = NaN"
  shows "felem (drop_path_forward_f32 dp training keep s) b c h w = NaN"
  using assms by (cases dp) (simp_all add: DropPath_forward_f32_def)

lemma scaled_update_zero:
  assumes len: "fplen p = fdimC x" and sd: "fsame_dims t x"
    and z: "\<forall>c<fdimC x. fpval p c = Finite 0"
    and kp: "keep_prob_ok dp training"
    and fx: "\<forall>b<fdimB x. \<forall>c<fdimC x. \<forall>h<fdimH x. \<forall>w<fdimW x. is_f32 (felem x b c h w)"
  shows "\<exists>x1. scaled_update_f32 x dp training keep p t = Inr x1 \<and> fsame_dims x1 x
           \<and> (\<forall>b<fdimB x. \<forall>c<fdimC x. \<forall>h<fdimH x. \<forall>w<fdimW x.
                 felem x1 b c h w = (if is_finite (felem t b c h w) then felem x b c h w else NaN))"
proof -
  let ?s = "t\<lparr>felem := (\<lambda>b c h w. fmul (fpval p c) (felem t b c h w))\<rparr>"
  let ?d = "drop_path_forward_f32 dp training keep ?s"
  let ?x1 = "x\<lparr>felem := (\<lambda>b c h w. fadd (felem x b c h w) (felem ?d b c h w))\<rparr>"
  have "fplen p = fdimC t" using len sd by (simp add: fsame_dims_def)
  then have mul: "fchannel_mul p t = Inr ?s" by (rule fchannel_mul_same)
  have "fsame_dims ?d ?s" by simp
  then have "fsame_dims x ?d" using sd by (simp add: fsame_dims_def)
  then have add: "ftensor_add x ?d = Inr ?x1"
    unfolding ftensor_add_def by (rule fbinop_same)
  have run: "scaled_update_f32 x dp training keep p t = Inr ?x1"
    by (simp add: scaled_update_f32_def mul add)
  have "felem ?x1 b c h w = (if is_finite (felem t b c h w) then felem x b c h w else NaN)"
    if inside: "b < fdimB x" "c < fdimC x" "h < fdimH x" "w < fdimW x" for b c h w
  proof (cases "is_finite (felem t b c h w)")
    case True
    have "felem ?s b c h w = Finite 0" using z inside(2) True by (simp add: fmul_zero)
    from drop_path_f32_zero [OF kp this]
    have "felem ?d b c h w = Finite 0" .
    moreover have "is_f32 (felem x b c h w)" using fx inside by simp
    ultimately show ?thesis using True by (simp add: fadd_zero)
  next
    case False
    have "felem ?s b c h w = NaN" using z inside(2) False by (simp add: fmul_zero)
    from drop_path_f32_NaN [OF this]
    have "felem ?d b c h w = NaN" .
    then show ?thesis using False by simp
  qed
  with run show ?thesis by simp
qed

lemma zero_scale_block:
  assumes uls: "f32_use_layer_scale blk"
    and p: "f32_layer_scale_1 blk = Some p1" "f32_layer_scale_2 blk = Some p2"
    and len: "fplen p1 = fdimC x" "fplen p2 = fdimC x"
    and z: "\<forall>c<fdimC x. fpval p1 c = Finite 0" "\<forall>c<fdimC x. fpval p2 c = Finite 0"
    and kp: "keep_prob_ok (f32_drop_path blk) training"
    and fx: "\<forall>b<fdimB x. \<forall>c<fdimC x. \<forall>h<fdimH x. \<forall>w<fdimW x. is_f32 (felem x b c h w)"
    and t1: "ebind (f32_norm1 blk x) (Pooling_forward_f32 (f32_token_mixer blk)) = Inr t1"
      "fsame_dims t1 x"
  shows "\<exists>x1. scaled_update_f32 x (f32_drop_path blk) training (path_keep1 rnd) p1 t1 = Inr x1
           \<and> fsame_dims x1 x
           \<and> (\<forall>b<fdimB x. \<forall>c<fdimC x. \<forall>h<fdimH x. \<forall>w<fdimW x.
                 felem x1 b c h w = (if is_finite (felem t1 b c h w) then felem x b c h w else NaN))
           \<and> (\<forall>t2. ebind (f32_norm2 blk x1)
                      (f32_mlp blk training (drop_keep1 rnd) (drop_keep2 rnd)) = Inr t2
                 \<longrightarrow> fsame_dims t2 x
                 \<longrightarrow> (\<exists>y. PoolFormerBlock_forward_f32 blk training rnd x = Inr y
                        \<and> fsame_dims y x
                        \<and> (\<forall>b<fdimB x. \<forall>c<fdimC x. \<forall>h<fdimH x. \<forall>w<fdimW x.
                              felem y b c h w =
                                (if is_finite (felem t1 b c h w) \<and> is_finite (felem t2 b c h w)
                                 then felem x b c h w else NaN))))"
proof -
  from scaled_update_zero [OF len(1) t1(2) z(1) kp fx, of "path_keep1 rnd"]
  obtain x1 where x1: "scaled_update_f32 x (f32_drop_path blk) training (path_keep1 rnd) p1 t1
        = Inr x1" "fsame_dims x1 x"
      "\<forall>b<fdimB x. \<forall>c<fdimC x. \<forall>h<fdimH x. \<forall>w<fdimW x.
         felem x1 b c h w = (if is_finite (felem t1 b c h w) then felem x b c h w else NaN)"
    by blast
  have d1: "fdimB x1 = fdimB x" "fdimC x1 = fdimC x" "fdimH x1 = fdimH x" "fdimW x1 = fdimW x"
    using x1(2) by (simp_all add: fsame_dims_def)
  have fx1: "\<forall>b<fdimB x1. \<forall>c<fdimC x1. \<forall>h<fdimH x1. \<forall>w<fdimW x1. is_f32 (felem x1 b c h w)"
    unfolding d1 using x1(3) fx by simp
  obtain n1 where n1: "f32_norm1 blk x = Inr n1"
      "Pooling_forward_f32 (f32_token_mixer blk) n1 = Inr t1"
    using t1(1) by (auto simp: ebind_eq_Inr)
  have second: "\<exists>y. PoolFormerBlock_forward_f32 blk training rnd x = Inr y \<and> fsame_dims y x
      \<and> (\<forall>b<fdimB x. \<forall>c<fdimC x. \<forall>h<fdimH x. \<forall>w<fdimW x.
            felem y b c h w =
              (if is_finite (felem t1 b c h w) \<and> is_finite (felem t2 b c h w)
               then felem x b c h w else NaN))"
    if t2: "ebind (f32_norm2 blk x1) (f32_mlp blk training (drop_keep1 rnd) (drop_keep2 rnd))
        = Inr t2" "fsame_dims t2 x" for t2
  proof -
    have sd2: "fsame_dims t2 x1" using t2(2) x1(2) by (simp add: fsame_dims_def)
    have len2: "fplen p2 = fdimC x1" using len(2) d1 by simp
    have z2: "\<forall>c<fdimC x1. fpval p2 c = Finite 0" using z(2) d1 by simp
    from scaled_update_zero [OF len2 sd2 z2 kp fx1, of "path_keep2 rnd"]
    obtain y where y: "scaled_update_f32 x1 (f32_drop_path blk) training (path_keep2 rnd) p2 t2
          = Inr y" "fsame_dims y x1"
        "\<forall>b<fdimB x1. \<forall>c<fdimC x1. \<forall>h<fdimH x1. \<forall>w<fdimW x1.
           felem y b c h w = (if is_finite (felem t2 b c h w) then felem x1 b c h w else NaN)"
      by blast
    obtain n2 where n2: "f32_norm2 blk x1 = Inr n2"
        "f32_mlp blk training (drop_keep1 rnd) (drop_keep2 rnd) n2 = Inr t2"
      using t2(1) by (auto simp: ebind_eq_Inr)
    have run: "PoolFormerBlock_forward_f32 blk training rnd x = Inr y"
      using uls p n1 x1(1) n2 y(1) by (simp add: PoolFormerBlock_forward_f32_def getattr_def)
    have sd: "fsame_dims y x" using y(2) x1(2) by (simp add: fsame_dims_def)
    have "felem y b c h w =
        (if is_finite (felem t1 b c h w) \<and> is_finite (felem t2 b c h w)
         then felem x b c h w else NaN)"
      if "b < fdimB x" "c < fdimC x" "h < fdimH x" "w < fdimW x" for b c h w
      using y(3) x1(3) that unfolding d1 by simp
    with run sd show ?thesis by simp
  qed
  from x1 second show ?thesis by blast
qed

lemma block_init_norms:
  assumes "PoolFormerBlock_init d k r a nl p dp uls v w1 w2 = Inr blk"
  shows "blk_norm1 blk = norm_layer_init nl d" and "blk_norm2 blk = norm_layer_init nl d"
  using assms by (auto simp: PoolFormerBlock_init_def Let_def ebind_eq_Inr)

section \<open>The token mixer on a constant input\<close>

text \<open>
  C8, as stated: on every constant input the output of the token mixer is exactly zero.
  In the code's 32-bit arithmetic it is not. The float nearest to 0.1 is
  \<open>13421773 / 2 ^ 27\<close>; on the 3 by 3 input of that value and window size 3 the nine
  additions at the centre give \<open>120795968 / 2 ^ 27\<close>, the division by 9 gives
  \<open>13421774 / 2 ^ 27\<close>, and the output there is \<open>2 ^ -27\<close>.
\<close>

theorem pooling_constant_counterexample:
  "is_f32 (Finite tenth) \<and> fl (1 / 10) = Finite tenth
   \<and> (\<exists>y. Pooling_forward_f32 (Pooling_init 3) tenths = Inr y
         \<and> felem y 0 0 1 1 = Finite (1 / 2 ^ 27))"
proof -
  have k: "(3::nat) = 2 * 1 + 1" by simp
  have a: "odd (3::nat)" "0 < fdimC tenths" "0 < fdimH tenths" "0 < fdimW tenths"
    by (simp_all add: tenths_def)
  have i: "1 < fdimH tenths" "1 < fdimW tenths" by (simp_all add: tenths_def)
  have w: "[1 - 1..<min (1 + 1 + 1) (fdimH tenths)] = [0..<3]"
      "[1 - 1..<min (1 + 1 + 1) (fdimW tenths)] = [0..<3]"
      "real ((min (1 + 1 + 1) (fdimH tenths) - (1 - 1)) * (min (1 + 1 + 1) (fdimW tenths) - (1 - 1))) = 9"
    by (simp_all add: tenths_def upt_three)
  have avg: "avg_window_f32 (pool (Pooling_init 3)) tenths 0 0 1 1 = Finite (13421774 / 2 ^ 27)"
    unfolding avg_window_f32_nat [OF k i] w window_sum_tenths fl_nine by (rule mean_tenths)
  have "fsub (Finite (13421774 / 2 ^ 27)) (Finite tenth) = Finite (1 / 2 ^ 27)"
    by (simp add: fsub_def tenth_def fl_def exponent_def pow2_def round_even_def Let_def)
  then have "felem (tenths\<lparr>felem := (\<lambda>b c h w.
      fsub (avg_window_f32 (pool (Pooling_init 3)) tenths b c h w) (felem tenths b c h w))\<rparr>)
      0 0 1 1 = Finite (1 / 2 ^ 27)"
    using avg by (simp add: tenths_def)
  with Pooling_forward_f32_odd [OF a] fl_tenth show ?thesis by simp
qed

text \<open>
  C8, amended. In 32-bit floats, for an odd window size \<open>k\<close> (with \<open>k * k\<close> below
  \<open>2 ^ 24\<close>) and a non-empty input that is constant, of a finite value \<open>v\<close> all of whose
  multiples \<open>n * v\<close> for \<open>n\<close> from 1 to \<open>k * k\<close> are 32-bit floats (an integer of small
  magnitude, for one), the forward pass of the token mixer succeeds, keeps the sizes and
  is exactly 0 at every position, also where the window is cut by the border. Without
  the condition on the multiples the window sum is rounded and the output can be a
  rounding error away from 0.
\<close>

theorem pooling_constant_f32:
  assumes "odd k" and "k * k < 2 ^ 24"
    and "0 < fdimC x" and "0 < fdimH x" and "0 < fdimW x"
    and "\<forall>b<fdimB x. \<forall>c<fdimC x. \<forall>i<fdimH x. \<forall>j<fdimW x. felem x b c i j = Finite v"
    and "\<forall>n. 1 \<le> n \<longrightarrow> n \<le> k * k \<longrightarrow> is_f32 (Finite (real n * v))"
  shows "\<exists>y. Pooling_forward_f32 (Pooling_init k) x = Inr y \<and> fsame_dims y x
           \<and> (\<forall>b<fdimB x. \<forall>c<fdimC x. \<forall>i<fdimH x. \<forall>j<fdimW x. felem y b c i j = Finite 0)"
  using Pooling_f32_constant [OF assms(1-6)] assms(7) by simp

theorem pooling_constant_f32_witness:
  "\<exists>y. Pooling_forward_f32 (Pooling_init 3) fives_f32 = Inr y \<and> fsame_dims y fives_f32
      \<and> felem y 0 0 0 0 = Finite 0 \<and> felem y 0 0 1 1 = Finite 0"
proof -
  have a: "odd (3::nat)" "(3::nat) * 3 < 2 ^ 24" "0 < fdimC fives_f32" "0 < fdimH fives_f32"
      "0 < fdimW fives_f32"
    by (simp_all add: fives_f32_def)
  have c: "\<forall>b<fdimB fives_f32. \<forall>c<fdimC fives_f32. \<forall>i<fdimH fives_f32. \<forall>j<fdimW fives_f32.
      felem fives_f32 b c i j = Finite 5"
    by (simp add: fives_f32_def)
  have r: "\<forall>n. 1 \<le> n \<longrightarrow> n \<le> 3 * 3 \<longrightarrow> is_f32 (Finite (real n * 5))"
  proof (intro allI impI)
    fix n :: nat
    assume "n \<le> 3 * 3"
    then have "n * 5 < 2 ^ 24" by simp
    from fl_nat [OF this] show "is_f32 (Finite (real n * 5))" by simp
  qed
  from pooling_constant_f32 [OF a c r]
  obtain y where y: "Pooling_forward_f32 (Pooling_init 3) fives_f32 = Inr y"
      "fsame_dims y fives_f32"
      "\<forall>b<fdimB fives_f32. \<forall>c<fdimC fives_f32. \<forall>i<fdimH fives_f32. \<forall>j<fdimW fives_f32.
         felem y b c i j = Finite 0"
    by blast
  have "felem y 0 0 0 0 = Finite 0" "felem y 0 0 1 1 = Finite 0"
    using y(3) by (simp_all add: fives_f32_def)
  with y(1,2) show ?thesis by blast
qed

section \<open>Zero layer scale\<close>

text \<open>
  C9, as stated: for every input, a block whose layer-scale vectors are zero returns its
  input. A block built for one channel with layer-scale value 0 and the default
  normalisation does not on the input of shape \<open>[1, 1, 1, 1]\<close>: \<open>norm1\<close> raises
  \<open>ValueError\<close>, in evaluation mode and with the identity as drop path.
\<close>

theorem zero_layer_scale_counterexample:
  "\<exists>blk. PoolFormerBlock_init 1 3 4 (\<lambda>v. v) GroupNorm 0 0 True 0 zero_kernel zero_kernel = Inr blk
      \<and> blk_layer_scale_1 blk = Some (full 1 0) \<and> blk_layer_scale_2 blk = Some (full 1 0)
      \<and> blk_drop_path blk = Identity_path
      \<and> PoolFormerBlock_forward blk False keep_all one_value = Inl ValueError"
proof -
  have "\<exists>blk. PoolFormerBlock_init 1 3 4 (\<lambda>v. v) GroupNorm 0 0 True 0
      zero_kernel zero_kernel = Inr blk \<and> (odd (3::nat) \<longrightarrow> block_ok 1 blk)"
    by (rule block_init_ok) simp_all
  then obtain blk where blk: "PoolFormerBlock_init 1 3 4 (\<lambda>v. v) GroupNorm 0 0 True 0
      zero_kernel zero_kernel = Inr blk"
    by blast
  have ls: "blk_use_layer_scale blk" "blk_layer_scale_1 blk = Some (full 1 0)"
      "blk_layer_scale_2 blk = Some (full 1 0)" "blk_drop_path blk = Identity_path"
    using block_init_layer_scale [OF blk] by simp_all
  have n: "blk_norm1 blk = nn_GroupNorm 1 1 (1 / 100000) (\<lambda>_. 1) (\<lambda>_. 0)"
    using block_init_norms(1) [OF blk] by simp
  have "GroupNorm_forward 1 1 (1 / 100000) (\<lambda>_. 1) (\<lambda>_. 0) one_value = Inl ValueError"
    by (rule GroupNorm_single_value) (simp add: one_value_def)
  then have "norm_forward (blk_norm1 blk) one_value = Inl ValueError"
    unfolding n norm_forward.simps .
  then have "PoolFormerBlock_forward blk False keep_all one_value = Inl ValueError"
    using ls(1,2) by (simp add: PoolFormerBlock_forward_def getattr_def)
  with blk ls show ?thesis by blast
qed

text \<open>
  C9, amended. In 32-bit floats, for a block with layer scale whose two vectors are zero,
  whatever the normalisations and the MLP compute: when the first branch
  \<open>token_mixer(norm1(x))\<close> is evaluated without an exception and has the shape of \<open>x\<close>,
  and the keep probability of a drop path in training is not 0, the first update returns
  \<open>x\<close> at every position where the branch is finite and NaN where it is an infinity or
  NaN; when the second branch \<open>mlp(norm2(x1))\<close> is evaluated without an exception as well,
  the forward pass succeeds and returns, position by position, the element of \<open>x\<close> where
  both branches are finite and NaN elsewhere; the drop path may rescale or zero the
  branch, in training or not. A block built with drop-path rate 0 has the identity as
  its drop path, and a \<open>DropPath\<close> of rate 0 is the identity in both modes.
\<close>

theorem zero_layer_scale_f32:
  assumes "f32_use_layer_scale blk"
    and "f32_layer_scale_1 blk = Some p1" and "f32_layer_scale_2 blk = Some p2"
    and "fplen p1 = fdimC x" and "fplen p2 = fdimC x"
    and "\<forall>c<fdimC x. fpval p1 c = Finite 0" and "\<forall>c<fdimC x. fpval p2 c = Finite 0"
    and "keep_prob_ok (f32_drop_path blk) training"
    and "\<forall>b<fdimB x. \<forall>c<fdimC x. \<forall>h<fdimH x. \<forall>w<fdimW x. is_f32 (felem x b c h w)"
    and "ebind (f32_norm1 blk x) (Pooling_forward_f32 (f32_token_mixer blk)) = Inr t1"
    and "fsame_dims t1 x"
  shows "(\<exists>x1. scaled_update_f32 x (f32_drop_path blk) training (path_keep1 rnd) p1 t1 = Inr x1
           \<and> fsame_dims x1 x
           \<and> (\<forall>b<fdimB x. \<forall>c<fdimC x. \<forall>h<fdimH x. \<forall>w<fdimW x.
                 felem x1 b c h w = (if is_finite (felem t1 b c h w) then felem x b c h w else NaN))
           \<and> (\<forall>t2. ebind (f32_norm2 blk x1)
                      (f32_mlp blk training (drop_keep1 rnd) (drop_keep2 rnd)) = Inr t2
                 \<longrightarrow> fsame_dims t2 x
                 \<longrightarrow> (\<exists>y. PoolFormerBlock_forward_f32 blk training rnd x = Inr y
                        \<and> fsame_dims y x
                        \<and> (\<forall>b<fdimB x. \<forall>c<fdimC x. \<forall>h<fdimH x. \<forall>w<fdimW x.
                              felem y b c h w =
                                (if is_finite (felem t1 b c h w) \<and> is_finite (felem t2 b c h w)
                                 then felem x b c h w else NaN)))))
       \<and> (\<forall>blk0. PoolFormerBlock_init d0 k r a nl q 0 s v w1 w2 = Inr blk0 \<longrightarrow>
             blk_drop_path blk0 = Identity_path)
       \<and> drop_path_forward_f32 Identity_path tr keep t = t
       \<and> DropPath_forward_f32 0 tr keep t = t"
proof -
  have "blk_drop_path blk0 = Identity_path"
    if "PoolFormerBlock_init d0 k r a nl q 0 s v w1 w2 = Inr blk0" for blk0
    using block_init_layer_scale(4) [OF that] by simp
  moreover have "DropPath_forward_f32 0 tr keep t = t"
    by (simp add: DropPath_forward_f32_def)
  ultimately show ?thesis
    using zero_scale_block [OF assms, of rnd] by simp
qed

theorem zero_layer_scale_f32_witness:
  "\<exists>y. PoolFormerBlock_forward_f32 (identity_kernels (DropPath (1 / 2))) True keep_all fives_f32
         = Inr y
      \<and> fsame_dims y fives_f32 \<and> felem y 0 0 0 0 = Finite 5 \<and> felem y 0 0 1 1 = Finite 5"
proof -
  let ?blk = "identity_kernels (DropPath (1 / 2))"
  let ?p = "\<lparr>fplen = 1, fpval = (\<lambda>_. Finite 0)\<rparr>"
  have five: "fl 5 = Finite 5" using fl_nat [of 5] by simp
  have half: "fl (1 / 2) = Finite (1 / 2)"
    by (simp add: fl_def exponent_def pow2_def round_even_def Let_def)
  have a: "f32_use_layer_scale ?blk" "f32_layer_scale_1 ?blk = Some ?p"
      "f32_layer_scale_2 ?blk = Some ?p" "fplen ?p = fdimC fives_f32" "fplen ?p = fdimC fives_f32"
      "\<forall>c<fdimC fives_f32. fpval ?p c = Finite 0" "\<forall>c<fdimC fives_f32. fpval ?p c = Finite 0"
    by (simp_all add: identity_kernels_def fives_f32_def)
  have kp: "keep_prob_ok (f32_drop_path ?blk) True"
    by (simp add: identity_kernels_def half)
  have fx: "\<forall>b<fdimB fives_f32. \<forall>c<fdimC fives_f32. \<forall>h<fdimH fives_f32. \<forall>w<fdimW fives_f32.
      is_f32 (felem fives_f32 b c h w)"
    by (simp add: fives_f32_def five)
  have c: "odd (3::nat)" "(3::nat) * 3 < 2 ^ 24" "0 < fdimC fives_f32" "0 < fdimH fives_f32"
      "0 < fdimW fives_f32"
      "\<forall>b<fdimB fives_f32. \<forall>c<fdimC fives_f32. \<forall>i<fdimH fives_f32. \<forall>j<fdimW fives_f32.
         felem fives_f32 b c i j = Finite 5"
    by (simp_all add: fives_f32_def)
  have r: "\<forall>n. 1 \<le> n \<longrightarrow> n \<le> 3 * 3 \<longrightarrow> fl (real n * 5) = Finite (real n * 5)"
  proof (intro allI impI)
    fix n :: nat
    assume "n \<le> 3 * 3"
    then have "n * 5 < 2 ^ 24" by simp
    from fl_nat [OF this] show "fl (real n * 5) = Finite (real n * 5)" by simp
  qed
  from Pooling_f32_constant [OF c r]
  obtain t1 where t1: "Pooling_forward_f32 (Pooling_init 3) fives_f32 = Inr t1"
      "fsame_dims t1 fives_f32"
      "\<forall>b<fdimB fives_f32. \<forall>c<fdimC fives_f32. \<forall>i<fdimH fives_f32. \<forall>j<fdimW fives_f32.
         felem t1 b c i j = Finite 0"
    by blast
  have b1: "ebind (f32_norm1 ?blk fives_f32) (Pooling_forward_f32 (f32_token_mixer ?blk)) = Inr t1"
    using t1(1) by (simp add: identity_kernels_def)
  from zero_layer_scale_f32 [OF a kp fx b1 t1(2), of keep_all]
  have "\<exists>x1. scaled_update_f32 fives_f32 (f32_drop_path ?blk) True (path_keep1 keep_all) ?p t1
           = Inr x1
         \<and> fsame_dims x1 fives_f32
         \<and> (\<forall>b<fdimB fives_f32. \<forall>c<fdimC fives_f32. \<forall>h<fdimH fives_f32. \<forall>w<fdimW fives_f32.
               felem x1 b c h w =
                 (if is_finite (felem t1 b c h w) then felem fives_f32 b c h w else NaN))
         \<and> (\<forall>t2. ebind (f32_norm2 ?blk x1)
                    (f32_mlp ?blk True (drop_keep1 keep_all) (drop_keep2 keep_all)) = Inr t2
               \<longrightarrow> fsame_dims t2 fives_f32
               \<longrightarrow> (\<exists>y. PoolFormerBlock_forward_f32 ?blk True keep_all fives_f32 = Inr y
                      \<and> fsame_dims y fives_f32
                      \<and> (\<forall>b<fdimB fives_f32. \<forall>c<fdimC fives_f32. \<forall>h<fdimH fives_f32.
                           \<forall>w<fdimW fives_f32.
                            felem y b c h w =
                              (if is_finite (felem t1 b c h w) \<and> is_finite (felem t2 b c h w)
                               then felem fives_f32 b c h w else NaN))))"
    by (rule conjunct1)
  then obtain x1 where x1: "fsame_dims x1 fives_f32"
      "\<forall>b<fdimB fives_f32. \<forall>c<fdimC fives_f32. \<forall>h<fdimH fives_f32. \<forall>w<fdimW fives_f32.
         felem x1 b c h w = (if is_finite (felem t1 b c h w) then felem fives_f32 b c h w else NaN)"
      "\<forall>t2. ebind (f32_norm2 ?blk x1)
                (f32_mlp ?blk True (drop_keep1 keep_all) (drop_keep2 keep_all)) = Inr t2
         \<longrightarrow> fsame_dims t2 fives_f32
         \<longrightarrow> (\<exists>y. PoolFormerBlock_forward_f32 ?blk True keep_all fives_f32 = Inr y
                \<and> fsame_dims y fives_f32
                \<and> (\<forall>b<fdimB fives_f32. \<forall>c<fdimC fives_f32. \<forall>h<fdimH fives_f32.
                     \<forall>w<fdimW fives_f32.
                      felem y b c h w =
                        (if is_finite (felem t1 b c h w) \<and> is_finite (felem t2 b c h w)
                         then felem fives_f32 b c h w else NaN)))"
    by (elim exE conjE) (rule that, assumption, assumption, assumption)
  have t2: "ebind (f32_norm2 ?blk x1)
      (f32_mlp ?blk True (drop_keep1 keep_all) (drop_keep2 keep_all)) = Inr x1"
    by (simp add: identity_kernels_def)
  from x1(3) [rule_format, OF t2 x1(1)]
  obtain y where y: "PoolFormerBlock_forward_f32 ?blk True keep_all fives_f32 = Inr y"
      "fsame_dims y fives_f32"
      "\<forall>b<fdimB fives_f32. \<forall>c<fdimC fives_f32. \<forall>h<fdimH fives_f32. \<forall>w<fdimW fives_f32.
         felem y b c h w =
           (if is_finite (felem t1 b c h w) \<and> is_finite (felem x1 b c h w)
            then felem fives_f32 b c h w else NaN)"
    by (elim exE conjE) (rule that, assumption, assumption, assumption)
  have in1: "felem x1 b c h w = Finite 5"
    if "b < fdimB fives_f32" "c < fdimC fives_f32" "h < fdimH fives_f32" "w < fdimW fives_f32"
    for b c h w
    using x1(2) t1(3) that by (simp add: fives_f32_def)
  have "felem y b c h w = Finite 5"
    if "b < fdimB fives_f32" "c < fdimC fives_f32" "h < fdimH fives_f32" "w < fdimW fives_f32"
    for b c h w
    using y(3) t1(3) in1 [OF that] that by (simp add: fives_f32_def)
  then have "felem y 0 0 0 0 = Finite 5" "felem y 0 0 1 1 = Finite 5"
    by (simp_all add: fives_f32_def)
  with y(1,2) show ?thesis by blast
qed

end
